theory Spec2Isabelle
  imports Complex_Main "HOL-Library.Char_ord" "HOL-Library.List_Lexorder"
begin

section \<open>Python values, exceptions and arrays\<close>

text \<open>
  Every exception the two scripts can meet is an instance of Python's \<open>Exception\<close>;
  a call that may raise returns \<open>exn + 'a\<close>, with \<open>Inl\<close> for the raise.
  \<open>FrameworkError\<close> stands for an exception raised inside the machine-learning framework
  (conversion, training, interpreter), with its message.
\<close>

datatype exn =
    OSError string
  | FileNotFoundError string
  | TypeError
  | OverflowError
  | ValueError string
  | ZeroDivisionError
  | IndexError
  | FrameworkError string

text \<open>
  A two-dimensional numpy array: its element type and its rows. Every integer array of the
  scripts holds token ids, class indices or the padding value, all non-negative, so the
  entries are naturals. \<open>astype\<close> is \<open>ndarray.astype\<close>: the cast to \<open>float32\<close> keeps every
  integer below \<open>2 ^ 24\<close> exactly, which covers every id an \<open>int32\<close> row of these scripts
  holds after the vocabulary cap.
\<close>

datatype dtype = int8 | int32 | float32

record ndarray =
  dtype :: dtype
  rows :: "nat list list"

definition astype :: "ndarray \<Rightarrow> dtype \<Rightarrow> ndarray" where
  "astype a t = a\<lparr>dtype := t\<rparr>"

section \<open>Text preprocessing: tokenizer and padding\<close>

text \<open>
  Modelled from the spec: \<open>Tokenizer\<close> and \<open>pad_sequences\<close> are functions of the Keras
  library (imported at train_model.py:15-16 and export_tflite.py:11-12), absent from src/.
  The spec, section 4.2: ``tokenize each text (whitespace/punctuation-based), count token
  frequency across the corpus, assign ids in descending-frequency order (ties broken by
  first-seen order) up to \<open>max_vocab_size - 1\<close> entries, reserving id 0 for padding and a
  dedicated id for out-of-vocabulary tokens''; ``map each token to its id (or OOV id if
  absent), truncate/pad''.
  The definitions below follow the library as the source calls it, with its default
  arguments: lower-casing, the default filter characters, splitting at blanks. The limit
  \<open>num_words\<close> is where the library has it: the dictionary \<open>word_index\<close> numbers every token
  of the corpus, and an id that reaches \<open>num_words\<close> is replaced by the OOV id when a text
  is converted. The source relies on this: train_model.py:225 takes
  \<open>min(len(tokenizer.word_index) + 1, max_vocab_size)\<close>, and export_tflite.py:161 records
  \<open>len(tokenizer.word_index) + 1\<close>.
  Characters are bytes here, and lower-casing covers the ASCII letters; the texts of both
  scripts are ASCII.
\<close>

definition filters :: string where
  "filters = [CHR ''!'', CHR 0x22, CHR ''#'', CHR ''$'', CHR ''%'', CHR ''&'', CHR ''('',
     CHR '')'', CHR ''*'', CHR ''+'', CHR '','', CHR ''-'', CHR ''.'', CHR ''/'', CHR '':'',
     CHR '';'', CHR ''<'', CHR ''='', CHR ''>'', CHR ''?'', CHR ''@'', CHR ''['', CHR 0x5C,
     CHR '']'', CHR ''^'', CHR ''_'', CHR 0x60, CHR ''{'', CHR ''|'', CHR ''}'', CHR ''~'',
     CHR 0x09, CHR 0x0A]"

definition lower_char :: "char \<Rightarrow> char" where
  "lower_char c =
     (let n = (of_char c :: nat) in if 65 \<le> n \<and> n \<le> 90 then char_of (n + 32) else c)"

definition lower :: "string \<Rightarrow> string" where
  "lower s = map lower_char s"

text \<open>\<open>str.split(sep)\<close> with an explicit separator: empty pieces are kept.\<close>

fun split :: "char \<Rightarrow> string \<Rightarrow> string list" where
  "split sep [] = [[]]"
| "split sep (c # cs) =
     (if c = sep then [] # split sep cs
      else (case split sep cs of [] \<Rightarrow> [[c]] | w # ws \<Rightarrow> (c # w) # ws))"

definition text_to_word_sequence :: "string \<Rightarrow> string list" where
  "text_to_word_sequence input_text =
     filter (\<lambda>i. i \<noteq> [])
       (split CHR '' '' (map (\<lambda>c. if c \<in> set filters then CHR '' '' else c) (lower input_text)))"

text \<open>
  The tokenizer's state, as far as the scripts read it: the constructor arguments
  \<open>num_words\<close> and \<open>oov_token\<close>, the insertion-ordered \<open>word_counts\<close> and the
  \<open>word_index\<close> dictionary. Dictionaries are association lists in insertion order.
\<close>

record tokenizer =
  num_words :: nat
  oov_token :: string
  word_counts :: "(string \<times> nat) list"
  word_index :: "(string \<times> nat) list"

definition Tokenizer :: "nat \<Rightarrow> string \<Rightarrow> tokenizer" where
  "Tokenizer n oov = \<lparr>num_words = n, oov_token = oov, word_counts = [], word_index = []\<rparr>"

text \<open>\<open>d[k] = v\<close> on an insertion-ordered dictionary, and \<open>d.get(k)\<close>.\<close>

fun dict_set :: "'k \<Rightarrow> 'v \<Rightarrow> ('k \<times> 'v) list \<Rightarrow> ('k \<times> 'v) list" where
  "dict_set k v [] = [(k, v)]"
| "dict_set k v ((k', v') # d) = (if k' = k then (k', v) # d else (k', v') # dict_set k v d)"

fun dict_get :: "('k \<times> 'v) list \<Rightarrow> 'k \<Rightarrow> 'v option" where
  "dict_get [] k = None"
| "dict_get ((k', v') # d) k = (if k' = k then Some v' else dict_get d k)"

text \<open>\<open>dict(zip(keys, values))\<close>.\<close>

definition dict_zip :: "'k list \<Rightarrow> 'v list \<Rightarrow> ('k \<times> 'v) list" where
  "dict_zip ks vs = foldl (\<lambda>d (k, v). dict_set k v d) [] (zip ks vs)"

text \<open>\<open>word_counts[w] += 1\<close>, or \<open>= 1\<close> for a word not seen before.\<close>

definition count_word :: "(string \<times> nat) list \<Rightarrow> string \<Rightarrow> (string \<times> nat) list" where
  "count_word wc w = dict_set w (case dict_get wc w of None \<Rightarrow> 1 | Some c \<Rightarrow> c + 1) wc"

text \<open>
  \<open>fit_on_texts\<close>: count the words of every text, sort the counted words by descending
  count (Python's sort is stable, so ties keep first-seen order), put the OOV token first,
  and number the result from 1. No entry is dropped here: \<open>num_words\<close> is applied when
  ids are emitted, in \<open>texts_to_sequences\<close>.
\<close>

definition fit_on_texts :: "tokenizer \<Rightarrow> string list \<Rightarrow> tokenizer" where
  "fit_on_texts tk texts =
     (let wc = foldl (\<lambda>wc text. foldl count_word wc (text_to_word_sequence text))
                 (word_counts tk) texts;
          wcounts = sort_key (\<lambda>x. - int (snd x)) wc;
          sorted_voc = oov_token tk # map fst wcounts
      in tk\<lparr>word_counts := wc,
            word_index := dict_zip sorted_voc [1 ..< length sorted_voc + 1]\<rparr>)"

text \<open>
  \<open>texts_to_sequences\<close>: a known word gives its id, unless \<open>num_words\<close> is set and the id
  reaches it; then, and for an unknown word, the OOV token's id is appended, which is
  \<open>None\<close> when the dictionary has no entry for the OOV token.
\<close>

definition word_to_id :: "tokenizer \<Rightarrow> string \<Rightarrow> nat option" where
  "word_to_id tk w =
     (case dict_get (word_index tk) w of
        Some i \<Rightarrow> if num_words tk \<noteq> 0 \<and> i \<ge> num_words tk
                  then dict_get (word_index tk) (oov_token tk) else Some i
      | None \<Rightarrow> dict_get (word_index tk) (oov_token tk))"

definition texts_to_sequences :: "tokenizer \<Rightarrow> string list \<Rightarrow> nat option list list" where
  "texts_to_sequences tk texts = map (\<lambda>text. map (word_to_id tk) (text_to_word_sequence text)) texts"

text \<open>
  \<open>np.asarray(trunc, dtype='int32')\<close> on one truncated sequence: \<open>None\<close> is no integer,
  and an id that does not fit 32 bits overflows.
\<close>

fun asarray_int32 :: "nat option list \<Rightarrow> exn + nat list" where
  "asarray_int32 [] = Inr []"
| "asarray_int32 (None # vs) = Inl TypeError"
| "asarray_int32 (Some i # vs) =
     (if i < 2147483648
      then (case asarray_int32 vs of Inl e \<Rightarrow> Inl e | Inr r \<Rightarrow> Inr (i # r))
      else Inl OverflowError)"

text \<open>
  \<open>pad_sequences(sequences, maxlen=maxlen, padding='post', truncating='post')\<close>: each
  sequence is cut to its first \<open>maxlen\<close> entries and filled up at the end with the
  value 0; the result is an \<open>int32\<close> array with one row per sequence.
\<close>

fun pad_rows :: "nat option list list \<Rightarrow> nat \<Rightarrow> exn + nat list list" where
  "pad_rows [] maxlen = Inr []"
| "pad_rows (s # ss) maxlen =
     (case asarray_int32 (take maxlen s) of
        Inl e \<Rightarrow> Inl e
      | Inr trunc \<Rightarrow>
          (case pad_rows ss maxlen of
             Inl e \<Rightarrow> Inl e
           | Inr x \<Rightarrow> Inr ((trunc @ replicate (maxlen - length trunc) 0) # x)))"

definition pad_sequences :: "nat option list list \<Rightarrow> nat \<Rightarrow> exn + ndarray" where
  "pad_sequences sequences maxlen =
     (case pad_rows sequences maxlen of
        Inl e \<Rightarrow> Inl e
      | Inr x \<Rightarrow> Inr \<lparr>dtype = int32, rows = x\<rparr>)"

section \<open>Label encoding\<close>

text \<open>
  Modelled from the spec: \<open>LabelEncoder\<close> is a class of the scikit-learn library and
  \<open>to_categorical\<close> a function of Keras (train_model.py:12, 149), absent from src/. The spec,
  section 3: ``bijective mapping from intent string to a contiguous integer index
  \<open>0..num_classes-1\<close>, with an explicit inverse list (\<open>classes\<close>)''; section 4.2: ``collect
  distinct labels in first-seen or sorted order ..., assign contiguous indices, and
  one-hot-encode''; ``fails if any Example's label was not observed during fitting''.
  The library sorts the distinct labels; \<open>classes\<close> is that sorted list (the attribute \<^verbatim>\<open>classes_\<close>).
\<close>

record label_encoder =
  classes :: "string list"

definition LabelEncoder :: label_encoder where
  "LabelEncoder = \<lparr>classes = []\<rparr>"

fun index_of :: "'a list \<Rightarrow> 'a \<Rightarrow> nat option" where
  "index_of [] v = None"
| "index_of (x # xs) v = (if x = v then Some 0 else map_option Suc (index_of xs v))"

text \<open>\<open>label_encoder.transform\<close>: a label that was not fitted raises \<open>ValueError\<close>.\<close>

fun transform :: "label_encoder \<Rightarrow> string list \<Rightarrow> exn + nat list" where
  "transform le [] = Inr []"
| "transform le (v # vs) =
     (case index_of (classes le) v of
        None \<Rightarrow> Inl (ValueError ''y contains previously unseen labels'')
      | Some i \<Rightarrow> (case transform le vs of Inl e \<Rightarrow> Inl e | Inr r \<Rightarrow> Inr (i # r)))"

definition fit_transform :: "label_encoder \<Rightarrow> string list \<Rightarrow> exn + (label_encoder \<times> nat list)" where
  "fit_transform le y =
     (let le' = le\<lparr>classes := sort (remdups y)\<rparr>
      in case transform le' y of Inl e \<Rightarrow> Inl e | Inr r \<Rightarrow> Inr (le', r))"

text \<open>\<open>to_categorical(y, num_classes)\<close>: one row per label, 1 at the label's index.\<close>

fun one_hot_rows :: "nat list \<Rightarrow> nat \<Rightarrow> exn + nat list list" where
  "one_hot_rows [] n = Inr []"
| "one_hot_rows (i # is) n =
     (if i < n
      then (case one_hot_rows is n of
              Inl e \<Rightarrow> Inl e
            | Inr r \<Rightarrow> Inr (map (\<lambda>j. if j = i then 1 else 0) [0 ..< n] # r))
      else Inl IndexError)"

definition to_categorical :: "nat list \<Rightarrow> nat \<Rightarrow> exn + ndarray" where
  "to_categorical y n =
     (case one_hot_rows y n of Inl e \<Rightarrow> Inl e | Inr r \<Rightarrow> Inr \<lparr>dtype = float32, rows = r\<rparr>)"

section \<open>train_model.py\<close>

record train_config =
  max_vocab_size :: nat
  max_sequence_length :: nat
  embedding_dim :: nat
  hidden_units :: nat
  dropout_rate :: real
  batch_size :: nat
  epochs :: nat
  learning_rate :: real
  validation_split :: real
  model_save_path :: string
  tokenizer_save_path :: string
  label_encoder_save_path :: string

definition CONFIG :: train_config where
  "CONFIG = \<lparr>
     max_vocab_size = 10000,
     max_sequence_length = 32,
     embedding_dim = 128,
     hidden_units = 64,
     dropout_rate = 3 / 10,
     batch_size = 32,
     epochs = 100,
     learning_rate = 1 / 1000,
     validation_split = 2 / 10,
     model_save_path = ''models/intent_classifier.h5'',
     tokenizer_save_path = ''models/tokenizer.json'',
     label_encoder_save_path = ''models/label_encoder.json''\<rparr>"

text \<open>
  The data frame of \<open>load_data\<close>: its rows, each a pair of the \<open>text\<close> column and the
  \<open>intent\<close> column.
\<close>

type_synonym dataframe = "(string \<times> string) list"

definition column_text :: "dataframe \<Rightarrow> string list" where
  "column_text df = map fst df"

definition column_intent :: "dataframe \<Rightarrow> string list" where
  "column_intent df = map snd df"

definition load_data :: dataframe where
  "load_data = [
     (''What's the weather like?'', ''weather''),
     (''How's the weather today?'', ''weather''),
     (''Is it going to rain?'', ''weather''),
     (''What's the temperature?'', ''weather''),
     (''Will it be sunny tomorrow?'', ''weather''),
     (''Check the weather forecast'', ''weather''),
     (''Is it cold outside?'', ''weather''),
     (''What's the weather forecast for this week?'', ''weather''),
     (''What time is it?'', ''time''),
     (''Tell me the current time'', ''time''),
     (''What's the time now?'', ''time''),
     (''Show me the clock'', ''time''),
     (''What time is it in New York?'', ''time''),
     (''Current time please'', ''time''),
     (''Hello'', ''greeting''),
     (''Hi there'', ''greeting''),
     (''Good morning'', ''greeting''),
     (''Good evening'', ''greeting''),
     (''Hey'', ''greeting''),
     (''How are you?'', ''greeting''),
     (''Nice to meet you'', ''greeting''),
     (''Greetings'', ''greeting''),
     (''Play some music'', ''music''),
     (''Play my favorite song'', ''music''),
     (''Turn on the radio'', ''music''),
     (''Play rock music'', ''music''),
     (''Start the music player'', ''music''),
     (''I want to listen to music'', ''music''),
     (''Play something upbeat'', ''music''),
     (''What's on my calendar?'', ''calendar''),
     (''Show me my schedule'', ''calendar''),
     (''Do I have any meetings today?'', ''calendar''),
     (''What's my next appointment?'', ''calendar''),
     (''Check my calendar'', ''calendar''),
     (''Schedule a meeting'', ''calendar''),
     (''What's in the news?'', ''news''),
     (''Show me the latest news'', ''news''),
     (''Tell me about current events'', ''news''),
     (''What's happening in the world?'', ''news''),
     (''Read me the news'', ''news''),
     (''Any breaking news?'', ''news''),
     (''Help me'', ''help''),
     (''What can you do?'', ''help''),
     (''Tell me a joke'', ''help''),
     (''How do I use this app?'', ''help''),
     (''What are your features?'', ''help''),
     (''Show me the menu'', ''help'')]"

definition preprocess_data ::
  "dataframe \<Rightarrow> exn + (ndarray \<times> ndarray \<times> tokenizer \<times> label_encoder)" where
  "preprocess_data df =
     (let tokenizer = Tokenizer (max_vocab_size CONFIG) ''<OOV>'';
          tokenizer = fit_on_texts tokenizer (column_text df);
          sequences = texts_to_sequences tokenizer (column_text df)
      in case pad_sequences sequences (max_sequence_length CONFIG) of
           Inl e \<Rightarrow> Inl e
         | Inr X \<Rightarrow>
             (case fit_transform LabelEncoder (column_intent df) of
                Inl e \<Rightarrow> Inl e
              | Inr (label_encoder, y) \<Rightarrow>
                  (case to_categorical y (length (classes label_encoder)) of
                     Inl e \<Rightarrow> Inl e
                   | Inr y' \<Rightarrow> Inr (X, y', tokenizer, label_encoder))))"

subsection \<open>Models, files and the console\<close>

text \<open>
  A Keras model as \<open>create_model\<close> builds it: the sizes of its layers, the learning rate
  of its optimizer and its parameters. Losses, accuracies and parameters are floating-point
  numbers in the framework; they are reals here, and the scripts only compare and store them.
\<close>

type_synonym weights = "real list"

record model =
  input_length :: nat
  embedding_input_dim :: nat
  embedding_output_dim :: nat
  dense1_units :: nat
  dropout1_rate :: real
  dense2_units :: nat
  dropout2_rate :: real
  output_units :: nat
  optimizer_lr :: real
  weights :: weights

record logs =
  loss :: real
  accuracy :: real
  val_loss :: real
  val_accuracy :: real

type_synonym bytes = "nat list"

record preprocessing =
  tokenizer_config :: tokenizer
  padding :: string
  truncating :: string

record metadata =
  model_name :: string
  model_version :: string
  input_shape :: "nat list"
  output_shape :: "nat list"
  class_names :: "string list"
  metadata_max_sequence_length :: nat
  vocab_size :: nat
  preprocessing :: preprocessing

text \<open>
  What a file holds, by the format the scripts write it in. Serialisation itself
  (\<open>to_json\<close>, \<open>json.dump\<close>, \<open>model.save\<close>) is taken to be lossless, and a write is one step.
\<close>

datatype file_content =
    ModelFile model
  | TokenizerJson tokenizer
  | LabelEncoderJson "string list"
  | HistoryJson "logs list"
  | TfliteFile bytes
  | MetadataJson metadata

datatype arg = Str string | Nat nat | Real real | Exn exn

text \<open>
  The world a script runs in: the files by path, the directories, the lines printed (each a
  format string with its arguments), and the arrays handed to \<open>interpreter.set_tensor\<close>,
  each with the path of the artifact the interpreter was loaded from.
\<close>

record world =
  files :: "string \<rightharpoonup> file_content"
  dirs :: "string set"
  stdout :: "(string \<times> arg list) list"
  set_tensor_calls :: "(string \<times> ndarray) list"

definition makedirs :: "string \<Rightarrow> world \<Rightarrow> world" where
  "makedirs p w = w\<lparr>dirs := insert p (dirs w)\<rparr>"

definition print :: "string \<Rightarrow> arg list \<Rightarrow> world \<Rightarrow> world" where
  "print fmt args w = w\<lparr>stdout := stdout w @ [(fmt, args)]\<rparr>"

definition write_file :: "string \<Rightarrow> file_content \<Rightarrow> world \<Rightarrow> world" where
  "write_file p f w = w\<lparr>files := (files w)(p \<mapsto> f)\<rparr>"

subsection \<open>The framework's side of training\<close>

text \<open>
  What the training script leaves to the framework, as parameters that may raise:
  the random split, the initial parameters of a freshly built model, one epoch of training
  with its validation (from the model, the data and the epoch number to the new parameters
  and the epoch's logs), and the final evaluation.
\<close>

record keras =
  train_test_split :: "ndarray \<Rightarrow> ndarray \<Rightarrow> exn + (ndarray \<times> ndarray \<times> ndarray \<times> ndarray)"
  initial_weights :: "model \<Rightarrow> exn + weights"
  train_epoch :: "model \<Rightarrow> ndarray \<Rightarrow> ndarray \<Rightarrow> ndarray \<Rightarrow> ndarray \<Rightarrow> nat \<Rightarrow> exn + (weights \<times> logs)"
  evaluate :: "model \<Rightarrow> ndarray \<Rightarrow> ndarray \<Rightarrow> exn + (real \<times> real)"

definition create_model :: "keras \<Rightarrow> nat \<Rightarrow> nat \<Rightarrow> exn + model" where
  "create_model env vocab_size' num_classes =
     (let m = \<lparr>input_length = max_sequence_length CONFIG,
               embedding_input_dim = vocab_size',
               embedding_output_dim = embedding_dim CONFIG,
               dense1_units = hidden_units CONFIG,
               dropout1_rate = dropout_rate CONFIG,
               dense2_units = hidden_units CONFIG div 2,
               dropout2_rate = dropout_rate CONFIG,
               output_units = num_classes,
               optimizer_lr = learning_rate CONFIG,
               weights = []\<rparr>
      in case initial_weights env m of Inl e \<Rightarrow> Inl e | Inr ws \<Rightarrow> Inr (m\<lparr>weights := ws\<rparr>))"

text \<open>
  Modelled from the spec: the training loop \<open>model.fit\<close> and its callbacks \<open>EarlyStopping\<close>,
  \<open>ModelCheckpoint\<close> and \<open>ReduceLROnPlateau\<close> are Keras code, absent from src/; the script
  only configures them (train_model.py:232-261). The spec, section 4.4: ``stop early if
  validation loss does not improve for N consecutive epochs (default 10), restoring the
  best-seen weights on stop; checkpoint (persist) the model only when validation accuracy
  improves on a prior checkpoint; halve the learning rate if validation loss plateaus for
  M epochs (default 5), with a floor (default 1e-6)''. The state below is what the three
  callbacks keep between epochs; \<open>None\<close> as a best value is the callback's initial
  infinity, which every finite value improves on. The callbacks run after each epoch in
  the order of the script's list.
\<close>

record fit_state =
  the_model :: model
  stop_training :: bool
  history :: "logs list"
  es_wait :: nat
  es_best :: "real option"
  es_best_weights :: "weights option"
  es_stopped_epoch :: nat
  mc_best :: "real option"
  rlr_wait :: nat
  rlr_best :: "real option"

definition is_improvement :: "real \<Rightarrow> real option \<Rightarrow> bool" where
  "is_improvement current best = (case best of None \<Rightarrow> True | Some b \<Rightarrow> current < b)"

text \<open>\<open>EarlyStopping(monitor='val_loss', patience=patience, restore_best_weights=True)\<close>.\<close>

definition EarlyStopping_on_epoch_end :: "nat \<Rightarrow> nat \<Rightarrow> logs \<Rightarrow> fit_state \<Rightarrow> fit_state" where
  "EarlyStopping_on_epoch_end patience epoch lg st0 =
     (let current = val_loss lg;
          st = (if es_best_weights st0 = None
                then st0\<lparr>es_best_weights := Some (weights (the_model st0))\<rparr> else st0);
          st = st\<lparr>es_wait := es_wait st + 1\<rparr>
      in if is_improvement current (es_best st)
         then st\<lparr>es_best := Some current,
                 es_best_weights := Some (weights (the_model st)),
                 es_wait := 0\<rparr>
         else if es_wait st \<ge> patience \<and> epoch > 0
         then (case es_best_weights st of
                 None \<Rightarrow> st\<lparr>es_stopped_epoch := epoch, stop_training := True\<rparr>
               | Some bw \<Rightarrow> st\<lparr>es_stopped_epoch := epoch, stop_training := True,
                              the_model := (the_model st)\<lparr>weights := bw\<rparr>\<rparr>)
         else st)"

text \<open>\<open>ModelCheckpoint(filepath, monitor='val_accuracy', save_best_only=True)\<close>.\<close>

definition ModelCheckpoint_on_epoch_end ::
  "string \<Rightarrow> logs \<Rightarrow> fit_state \<Rightarrow> world \<Rightarrow> fit_state \<times> world" where
  "ModelCheckpoint_on_epoch_end filepath lg st w =
     (let current = val_accuracy lg
      in if (case mc_best st of None \<Rightarrow> True | Some b \<Rightarrow> b < current)
         then (st\<lparr>mc_best := Some current\<rparr>, write_file filepath (ModelFile (the_model st)) w)
         else (st, w))"

text \<open>
  \<open>ReduceLROnPlateau(monitor='val_loss', factor=factor, patience=patience, min_lr=min_lr)\<close>,
  with the library's default threshold of \<open>1e-4\<close> for an improvement.
\<close>

definition ReduceLROnPlateau_on_epoch_end ::
  "real \<Rightarrow> nat \<Rightarrow> real \<Rightarrow> logs \<Rightarrow> fit_state \<Rightarrow> fit_state" where
  "ReduceLROnPlateau_on_epoch_end factor patience min_lr lg st0 =
     (let current = val_loss lg
      in if (case rlr_best st0 of None \<Rightarrow> True | Some b \<Rightarrow> current < b - 1 / 10000)
         then st0\<lparr>rlr_best := Some current, rlr_wait := 0\<rparr>
         else (let st = st0\<lparr>rlr_wait := rlr_wait st0 + 1\<rparr>;
                   old_lr = optimizer_lr (the_model st)
               in if rlr_wait st \<ge> patience \<and> old_lr > min_lr
                  then st\<lparr>the_model := (the_model st)\<lparr>optimizer_lr := max (old_lr * factor) min_lr\<rparr>,
                          rlr_wait := 0\<rparr>
                  else st))"

text \<open>
  The epochs of \<open>model.fit\<close>, \<open>for epoch in range(epochs)\<close>: train, run the callbacks, record
  the logs, and leave the loop when a callback has set \<open>stop_training\<close>. An exception of
  the framework ends the loop; the checkpoints written so far stay on disk.
\<close>

fun fit_loop ::
  "keras \<Rightarrow> ndarray \<Rightarrow> ndarray \<Rightarrow> ndarray \<Rightarrow> ndarray \<Rightarrow> nat list \<Rightarrow> fit_state \<Rightarrow> world
     \<Rightarrow> (exn + fit_state) \<times> world" where
  "fit_loop env X_train y_train X_val y_val [] st w = (Inr st, w)"
| "fit_loop env X_train y_train X_val y_val (epoch # rest) st w =
     (case train_epoch env (the_model st) X_train y_train X_val y_val epoch of
        Inl e \<Rightarrow> (Inl e, w)
      | Inr (ws, lg) \<Rightarrow>
          (let st1 = st\<lparr>the_model := (the_model st)\<lparr>weights := ws\<rparr>\<rparr>;
               st2 = EarlyStopping_on_epoch_end 10 epoch lg st1;
               st3 = fst (ModelCheckpoint_on_epoch_end (model_save_path CONFIG) lg st2 w);
               w3 = snd (ModelCheckpoint_on_epoch_end (model_save_path CONFIG) lg st2 w);
               st4 = ReduceLROnPlateau_on_epoch_end (1 / 2) 5 (1 / 1000000) lg st3;
               st5 = st4\<lparr>history := history st4 @ [lg]\<rparr>
           in if stop_training st5 then (Inr st5, w3)
              else fit_loop env X_train y_train X_val y_val rest st5 w3))"

definition fit ::
  "keras \<Rightarrow> model \<Rightarrow> ndarray \<Rightarrow> ndarray \<Rightarrow> ndarray \<Rightarrow> ndarray \<Rightarrow> world
     \<Rightarrow> (exn + (model \<times> logs list)) \<times> world" where
  "fit env m X_train y_train X_val y_val w =
     (case fit_loop env X_train y_train X_val y_val [0 ..< epochs CONFIG]
             \<lparr>the_model = m, stop_training = False, history = [],
              es_wait = 0, es_best = None, es_best_weights = None, es_stopped_epoch = 0,
              mc_best = None, rlr_wait = 0, rlr_best = None\<rparr> w of
        (Inl e, w') \<Rightarrow> (Inl e, w')
      | (Inr st, w') \<Rightarrow> (Inr (the_model st, history st), w'))"

text \<open>
  \<open>train_model\<close>, with the data frame of its second statement, \<open>df = load_data()\<close>, as a
  parameter, so that a property can be stated for every training set; \<open>train_model\<close>
  itself runs it on \<open>load_data\<close>. The framework's own console output (\<open>model.summary()\<close>,
  the progress of \<open>fit\<close>) is not recorded.
\<close>

definition train_model_on :: "keras \<Rightarrow> dataframe \<Rightarrow> world \<Rightarrow> (exn + unit) \<times> world" where
  "train_model_on env df w0 =
     (let w = makedirs ''models'' w0;
          w = print ''Loading data...'' [] w;
          w = print ''Loaded {} samples with {} unique intents''
                [Nat (length df), Nat (length (remdups (column_intent df)))] w;
          w = print ''Preprocessing data...'' [] w
      in case preprocess_data df of
           Inl e \<Rightarrow> (Inl e, w)
         | Inr (X, y, tokenizer, label_encoder) \<Rightarrow>
      (case train_test_split env X y of
           Inl e \<Rightarrow> (Inl e, w)
         | Inr (X_train, X_val, y_train, y_val) \<Rightarrow>
      (let w = print ''Training samples: {}'' [Nat (length (rows X_train))] w;
           w = print ''Validation samples: {}'' [Nat (length (rows X_val))] w;
           w = print ''Creating model...'' [] w;
           vocab_size' = min (length (word_index tokenizer) + 1) (max_vocab_size CONFIG);
           num_classes = length (classes label_encoder)
       in case create_model env vocab_size' num_classes of
            Inl e \<Rightarrow> (Inl e, w)
          | Inr model \<Rightarrow>
      (let w = print ''Training model...'' [] w
       in case fit env model X_train y_train X_val y_val w of
            (Inl e, w) \<Rightarrow> (Inl e, w)
          | (Inr (model, history'), w) \<Rightarrow>
      (let w = print ''Saving tokenizer...'' [] w;
           w = write_file (tokenizer_save_path CONFIG) (TokenizerJson tokenizer) w;
           w = print ''Saving label encoder...'' [] w;
           w = write_file (label_encoder_save_path CONFIG)
                 (LabelEncoderJson (classes label_encoder)) w;
           w = print ''Evaluating model...'' [] w
       in case evaluate env model X_val y_val of
            Inl e \<Rightarrow> (Inl e, w)
          | Inr (val_loss', val_accuracy') \<Rightarrow>
      (let w = print ''Validation Loss: {:.4f}'' [Real val_loss'] w;
           w = print ''Validation Accuracy: {:.4f}'' [Real val_accuracy'] w;
           w = write_file ''models/training_history.json'' (HistoryJson history') w;
           w = print ''Training completed successfully!'' [] w;
           w = print ''Model saved to: {}'' [Str (model_save_path CONFIG)] w;
           w = print ''Tokenizer saved to: {}'' [Str (tokenizer_save_path CONFIG)] w;
           w = print ''Label encoder saved to: {}'' [Str (label_encoder_save_path CONFIG)] w
       in (Inr (), w)))))))"

definition train_model :: "keras \<Rightarrow> world \<Rightarrow> (exn + unit) \<times> world" where
  "train_model env w = train_model_on env load_data w"

section \<open>export_tflite.py\<close>

record export_config =
  model_path :: string
  tokenizer_path :: string
  label_encoder_path :: string
  tflite_model_path :: string
  tflite_quantized_path :: string
  model_metadata_path :: string
  export_max_sequence_length :: nat
  representative_dataset_size :: nat

text \<open>
  The \<open>CONFIG\<close> dictionary of export_tflite.py; its key \<open>max_sequence_length\<close> is the
  field \<open>export_max_sequence_length\<close>.
\<close>

definition export_CONFIG :: export_config where
  "export_CONFIG = \<lparr>
     model_path = ''models/intent_classifier.h5'',
     tokenizer_path = ''models/tokenizer.json'',
     label_encoder_path = ''models/label_encoder.json'',
     tflite_model_path = ''assets/model.tflite'',
     tflite_quantized_path = ''assets/model_quantized.tflite'',
     model_metadata_path = ''assets/model_metadata.json'',
     export_max_sequence_length = 32,
     representative_dataset_size = 100\<rparr>"

subsection \<open>The framework's side of export\<close>

datatype optimize = DEFAULT

datatype ops_set = TFLITE_BUILTINS | TFLITE_BUILTINS_INT8

text \<open>A \<open>TFLiteConverter\<close> with the attributes the script sets on it.\<close>

record converter =
  keras_model :: model
  optimizations :: "optimize list"
  representative_dataset :: "ndarray list option"
  supported_ops :: "ops_set list"
  inference_input_type :: dtype
  inference_output_type :: dtype

definition from_keras_model :: "model \<Rightarrow> converter" where
  "from_keras_model m =
     \<lparr>keras_model = m, optimizations = [], representative_dataset = None,
      supported_ops = [TFLITE_BUILTINS], inference_input_type = float32,
      inference_output_type = float32\<rparr>"

text \<open>
  What the export script leaves to the framework, as parameters that may raise: the
  conversion of a configured converter to the bytes of an artifact, and the interpreter
  on the bytes of an artifact: allocating its tensors, accepting an input array, and
  running the graph on the input to the first row of the output tensor.
\<close>

record tflite =
  convert :: "converter \<Rightarrow> exn + bytes"
  allocate_tensors :: "bytes \<Rightarrow> exn + unit"
  set_tensor :: "bytes \<Rightarrow> ndarray \<Rightarrow> exn + unit"
  invoke :: "bytes \<Rightarrow> ndarray \<Rightarrow> exn + real list"

subsection \<open>Loading\<close>

text \<open>
  \<open>load_model\<close> of the framework on a path: \<open>OSError\<close> when there is no file, and an error
  when the file is not a saved model. \<open>load_tokenizer_and_labels\<close> opens and parses the
  tokenizer file first, then the label file; \<open>open\<close> raises \<open>FileNotFoundError\<close>.
\<close>

definition load_model :: "world \<Rightarrow> string \<Rightarrow> exn + model" where
  "load_model w p =
     (case files w p of
        None \<Rightarrow> Inl (OSError p)
      | Some (ModelFile m) \<Rightarrow> Inr m
      | Some _ \<Rightarrow> Inl (ValueError ''not a saved model''))"

definition load_tokenizer_and_labels :: "world \<Rightarrow> exn + (tokenizer \<times> string list)" where
  "load_tokenizer_and_labels w =
     (case files w (tokenizer_path export_CONFIG) of
        None \<Rightarrow> Inl (FileNotFoundError (tokenizer_path export_CONFIG))
      | Some (TokenizerJson tokenizer) \<Rightarrow>
          (case files w (label_encoder_path export_CONFIG) of
             None \<Rightarrow> Inl (FileNotFoundError (label_encoder_path export_CONFIG))
           | Some (LabelEncoderJson cls) \<Rightarrow> Inr (tokenizer, cls)
           | Some _ \<Rightarrow> Inl (ValueError ''not a label encoder file''))
      | Some _ \<Rightarrow> Inl (ValueError ''not a tokenizer file''))"

subsection \<open>Representative dataset\<close>

definition sample_texts :: "string list" where
  "sample_texts = [
     ''What's the weather like?'',
     ''What time is it?'',
     ''Hello there'',
     ''Play some music'',
     ''Show me my calendar'',
     ''What's in the news?'',
     ''Help me with this'',
     ''Good morning'',
     ''Is it going to rain?'',
     ''Play my favorite song'',
     ''What's on my schedule?'',
     ''Tell me a joke'',
     ''How's the weather today?'',
     ''What's the current time?'',
     ''Hi there'',
     ''Turn on the radio'',
     ''Check my appointments'',
     ''What's happening in the world?'',
     ''What can you do?'',
     ''Good evening'']"

text \<open>
  The generator \<open>representative_dataset\<close> as the list of the arrays it yields:
  \<open>padded_sequences[i:i+1].astype(np.float32)\<close> for the first rows.
\<close>

definition create_representative_dataset :: "tokenizer \<Rightarrow> exn + ndarray list" where
  "create_representative_dataset tokenizer =
     (let sequences = texts_to_sequences tokenizer sample_texts
      in case pad_sequences sequences (export_max_sequence_length export_CONFIG) of
           Inl e \<Rightarrow> Inl e
         | Inr padded_sequences \<Rightarrow>
             Inr (map (\<lambda>i. astype (padded_sequences\<lparr>rows := take 1 (drop i (rows padded_sequences))\<rparr>)
                             float32)
                    [0 ..< min (length (rows padded_sequences))
                               (representative_dataset_size export_CONFIG)]))"

subsection \<open>The validator\<close>

definition test_texts :: "string list" where
  "test_texts = [
     ''What's the weather like?'',
     ''What time is it?'',
     ''Hello there'',
     ''Play some music'']"

text \<open>\<open>np.argmax\<close> (the first index of the greatest entry) and \<open>np.max\<close> on one row.\<close>

fun argmax_from :: "real list \<Rightarrow> nat \<Rightarrow> nat \<Rightarrow> real \<Rightarrow> nat" where
  "argmax_from [] i best_i best = best_i"
| "argmax_from (x # xs) i best_i best =
     (if best < x then argmax_from xs (i + 1) i x else argmax_from xs (i + 1) best_i best)"

definition np_argmax :: "real list \<Rightarrow> exn + nat" where
  "np_argmax xs =
     (case xs of
        [] \<Rightarrow> Inl (ValueError ''attempt to get argmax of an empty sequence'')
      | x # r \<Rightarrow> Inr (argmax_from r 1 0 x))"

definition np_max :: "real list \<Rightarrow> real" where
  "np_max xs = (case xs of [] \<Rightarrow> 0 | x # r \<Rightarrow> foldl max x r)"

text \<open>
  The loop of \<open>test_inference\<close> over the test sentences. \<open>np_max\<close> is only reached on a
  non-empty row, after \<open>np_argmax\<close> has returned.
\<close>

fun test_loop ::
  "tflite \<Rightarrow> string \<Rightarrow> bytes \<Rightarrow> tokenizer \<Rightarrow> string list \<Rightarrow> string list \<Rightarrow> world
     \<Rightarrow> (exn + unit) \<times> world" where
  "test_loop env p b tokenizer cls [] w = (Inr (), w)"
| "test_loop env p b tokenizer cls (text # rest) w =
     (let sequence = texts_to_sequences tokenizer [text]
      in case pad_sequences sequence (export_max_sequence_length export_CONFIG) of
           Inl e \<Rightarrow> (Inl e, w)
         | Inr padded \<Rightarrow>
      (let input = astype padded float32;
           w1 = w\<lparr>set_tensor_calls := set_tensor_calls w @ [(p, input)]\<rparr>
       in case set_tensor env b input of
            Inl e \<Rightarrow> (Inl e, w1)
          | Inr u \<Rightarrow>
      (case invoke env b input of
            Inl e \<Rightarrow> (Inl e, w1)
          | Inr output \<Rightarrow>
      (case np_argmax output of
            Inl e \<Rightarrow> (Inl e, w1)
          | Inr k \<Rightarrow>
              if k < length cls
              then test_loop env p b tokenizer cls rest
                     (print ''  '{}' -> {} (confidence: {:.3f})''
                        [Str text, Str (cls ! k), Real (np_max output)] w1)
              else (Inl IndexError, w1)))))"

definition test_inference ::
  "tflite \<Rightarrow> string \<Rightarrow> tokenizer \<Rightarrow> string list \<Rightarrow> world \<Rightarrow> (exn + unit) \<times> world" where
  "test_inference env p tokenizer cls w =
     (case files w p of
        Some (TfliteFile b) \<Rightarrow>
          (case allocate_tensors env b of
             Inl e \<Rightarrow> (Inl e, w)
           | Inr u \<Rightarrow>
               test_loop env p b tokenizer cls test_texts
                 (print (CHR 0x0A # ''Testing {}:'') [Str p] w))
      | _ \<Rightarrow> (Inl (ValueError ''Could not open the model file''), w))"

subsection \<open>The export\<close>

text \<open>
  The body of the \<open>try\<close> (export_tflite.py:126-135): the integer-only conversion, the
  write of its result and three lines of output, the last of which divides by the length
  of the result.
\<close>

definition quantized_try :: "tflite \<Rightarrow> converter \<Rightarrow> bytes \<Rightarrow> world \<Rightarrow> (exn + unit) \<times> world" where
  "quantized_try env converter_quantized tflite_model w =
     (case convert env converter_quantized of
        Inl e \<Rightarrow> (Inl e, w)
      | Inr tflite_quantized_model \<Rightarrow>
          (let w = write_file (tflite_quantized_path export_CONFIG)
                     (TfliteFile tflite_quantized_model) w;
               w = print ''Quantized model saved to: {}''
                     [Str (tflite_quantized_path export_CONFIG)] w;
               w = print ''Quantized model size: {:.2f} KB''
                     [Real (real (length tflite_quantized_model) / 1024)] w
           in if length tflite_quantized_model = 0 then (Inl ZeroDivisionError, w)
              else (Inr (),
                    print ''Compression ratio: {:.2f}x''
                      [Real (real (length tflite_model) / real (length tflite_quantized_model))] w)))"

text \<open>
  The handler \<open>except Exception as e\<close> (export_tflite.py:137-151): the dynamic-range
  conversion, whose own exception is not handled.
\<close>

definition quantized_except :: "tflite \<Rightarrow> model \<Rightarrow> exn \<Rightarrow> world \<Rightarrow> (exn + unit) \<times> world" where
  "quantized_except env m e w0 =
     (let w = print ''Quantization failed: {}'' [Exn e] w0;
          w = print ''Using dynamic range quantization instead...'' [] w;
          converter_dynamic = (from_keras_model m)\<lparr>optimizations := [DEFAULT]\<rparr>
      in case convert env converter_dynamic of
           Inl e' \<Rightarrow> (Inl e', w)
         | Inr tflite_quantized_model \<Rightarrow>
             (let w = write_file (tflite_quantized_path export_CONFIG)
                        (TfliteFile tflite_quantized_model) w;
                  w = print ''Dynamic quantized model saved to: {}''
                        [Str (tflite_quantized_path export_CONFIG)] w;
                  w = print ''Dynamic quantized model size: {:.2f} KB''
                        [Real (real (length tflite_quantized_model) / 1024)] w
              in (Inr (), w)))"

definition export_tflite_model :: "tflite \<Rightarrow> world \<Rightarrow> (exn + unit) \<times> world" where
  "export_tflite_model env w0 =
     (let w = makedirs ''assets'' w0;
          w = print ''Loading trained model...'' [] w
      in case load_model w (model_path export_CONFIG) of
           Inl e \<Rightarrow> (Inl e, w)
         | Inr m \<Rightarrow>
      (case load_tokenizer_and_labels w of
           Inl e \<Rightarrow> (Inl e, w)
         | Inr (tokenizer, cls) \<Rightarrow>
      (let converter = from_keras_model m;
           w = print ''Converting to TensorFlow Lite (float32)...'' [] w
       in case convert env converter of
            Inl e \<Rightarrow> (Inl e, w)
          | Inr tflite_model \<Rightarrow>
      (let w = write_file (tflite_model_path export_CONFIG) (TfliteFile tflite_model) w;
           w = print ''Float32 model saved to: {}'' [Str (tflite_model_path export_CONFIG)] w;
           w = print ''Float32 model size: {:.2f} KB'' [Real (real (length tflite_model) / 1024)] w;
           w = print ''Converting to TensorFlow Lite (quantized)...'' [] w;
           converter_quantized = (from_keras_model m)\<lparr>optimizations := [DEFAULT]\<rparr>
       in case create_representative_dataset tokenizer of
            Inl e \<Rightarrow> (Inl e, w)
          | Inr dataset \<Rightarrow>
      (let converter_quantized = converter_quantized
             \<lparr>representative_dataset := Some dataset,
              supported_ops := [TFLITE_BUILTINS_INT8],
              inference_input_type := int8,
              inference_output_type := int8\<rparr>
       in case (case quantized_try env converter_quantized tflite_model w of
                  (Inl e, w') \<Rightarrow> quantized_except env m e w'
                | (Inr u, w') \<Rightarrow> (Inr u, w')) of
            (Inl e, w) \<Rightarrow> (Inl e, w)
          | (Inr u, w) \<Rightarrow>
      (let md = \<lparr>model_name = ''Intent Classification Model'',
                 model_version = ''1.0.0'',
                 input_shape = [1, export_max_sequence_length export_CONFIG],
                 output_shape = [1, length cls],
                 class_names = cls,
                 metadata_max_sequence_length = export_max_sequence_length export_CONFIG,
                 vocab_size = length (word_index tokenizer) + 1,
                 preprocessing = \<lparr>tokenizer_config = tokenizer,
                                  padding = ''post'', truncating = ''post''\<rparr>\<rparr>;
           w = write_file (model_metadata_path export_CONFIG) (MetadataJson md) w;
           w = print ''Model metadata saved to: {}'' [Str (model_metadata_path export_CONFIG)] w;
           w = print (CHR 0x0A # ''Testing models...'') [] w
       in case test_inference env (tflite_model_path export_CONFIG) tokenizer cls w of
            (Inl e, w) \<Rightarrow> (Inl e, w)
          | (Inr u, w) \<Rightarrow>
      (case test_inference env (tflite_quantized_path export_CONFIG) tokenizer cls w of
            (Inl e, w) \<Rightarrow> (Inl e, w)
          | (Inr u, w) \<Rightarrow>
              (Inr (), print (CHR 0x0A # ''Export completed successfully!'') [] w))))))))"

section \<open>Notions used in the statements\<close>

text \<open>The words of a corpus, text after text, and the tokenizer that lines 125-131 of
  train_model.py fit on a data frame.\<close>

definition corpus_words :: "string list \<Rightarrow> string list" where
  "corpus_words texts = concat (map text_to_word_sequence texts)"

definition fitted :: "dataframe \<Rightarrow> tokenizer" where
  "fitted df = fit_on_texts (Tokenizer (max_vocab_size CONFIG) ''<OOV>'') (column_text df)"

subsection \<open>Example inputs\<close>

definition example_df :: dataframe where
  "example_df = [(''Hello there'', ''greeting''), (''What time is it?'', ''time'')]"

definition example_model :: model where
  "example_model = \<lparr>input_length = 32, embedding_input_dim = 8, embedding_output_dim = 128,
     dense1_units = 64, dropout1_rate = 3 / 10, dense2_units = 32, dropout2_rate = 3 / 10,
     output_units = 2, optimizer_lr = 1 / 1000, weights = [0, 1]\<rparr>"

definition trained_world :: world where
  "trained_world = \<lparr>
     files = [model_path export_CONFIG \<mapsto> ModelFile example_model,
              tokenizer_path export_CONFIG \<mapsto> TokenizerJson (fitted example_df),
              label_encoder_path export_CONFIG \<mapsto> LabelEncoderJson [''greeting'', ''time'']],
     dirs = {''models''}, stdout = [], set_tensor_calls = []\<rparr>"

text \<open>An interpreter that accepts every input and answers with one fixed row, and a converter
  that raises on an integer-only request.\<close>

definition int8_failing_tflite :: tflite where
  "int8_failing_tflite = \<lparr>
     convert = (\<lambda>c. if inference_input_type c = int8
                     then Inl (FrameworkError ''integer quantization failed'')
                     else if optimizations c = [] then Inr [1, 2, 3, 4] else Inr [5, 6]),
     allocate_tensors = (\<lambda>b. Inr ()),
     set_tensor = (\<lambda>b a. Inr ()),
     invoke = (\<lambda>b a. Inr [3 / 4, 1 / 4])\<rparr>"

definition both_failing_tflite :: tflite where
  "both_failing_tflite = \<lparr>
     convert = (\<lambda>c. if optimizations c = [] then Inr [1, 2, 3, 4]
                     else if inference_input_type c = int8
                     then Inl (FrameworkError ''integer quantization failed'')
                     else Inl (FrameworkError ''dynamic range quantization failed'')),
     allocate_tensors = (\<lambda>b. Inr ()),
     set_tensor = (\<lambda>b a. Inr ()),
     invoke = (\<lambda>b a. Inr [3 / 4, 1 / 4])\<rparr>"

definition empty_world :: world where
  "empty_world = \<lparr>files = Map.empty, dirs = {}, stdout = [], set_tensor_calls = []\<rparr>"

definition succeeding_tflite :: tflite where
  "succeeding_tflite = \<lparr>
     convert = (\<lambda>c. if inference_input_type c = int8 then Inr [7, 8, 9]
                     else if optimizations c = [] then Inr [1, 2, 3, 4] else Inr [5, 6]),
     allocate_tensors = (\<lambda>b. Inr ()),
     set_tensor = (\<lambda>b a. Inr ()),
     invoke = (\<lambda>b a. Inr [3 / 4, 1 / 4])\<rparr>"

text \<open>The state in which \<open>fit\<close> enters its loop.\<close>

definition initial_fit_state :: "model \<Rightarrow> fit_state" where
  "initial_fit_state m = \<lparr>the_model = m, stop_training = False, history = [],
              es_wait = 0, es_best = None, es_best_weights = None, es_stopped_epoch = 0,
              mc_best = None, rlr_wait = 0, rlr_best = None\<rparr>"

text \<open>A framework whose training never raises, and one whose every epoch raises.\<close>

definition succeeding_keras :: keras where
  "succeeding_keras = \<lparr>
     train_test_split = (\<lambda>X y. Inr (X, X, y, y)),
     initial_weights = (\<lambda>m. Inr [0]),
     train_epoch = (\<lambda>m X_train y_train X_val y_val epoch.
        Inr ([real epoch], \<lparr>loss = 1, accuracy = 1 / 2, val_loss = 1, val_accuracy = 1 / 2\<rparr>)),
     evaluate = (\<lambda>m X y. Inr (1, 1 / 2))\<rparr>"

definition failing_keras :: keras where
  "failing_keras = succeeding_keras
     \<lparr>train_epoch := (\<lambda>m X_train y_train X_val y_val epoch. Inl (FrameworkError ''out of memory''))\<rparr>"

text \<open>A corpus of 10000 texts, each a single word that no other text has.\<close>

definition distinct_word :: "nat \<Rightarrow> string" where
  "distinct_word k = replicate (Suc k) CHR ''a''"

definition large_df :: dataframe where
  "large_df = map (\<lambda>k. (distinct_word k, ''help'')) [0 ..< 10000]"

subsection \<open>Early stopping\<close>

text \<open>
  Epoch \<open>j\<close> of a history improves when its validation loss is below that of every
  earlier epoch, that is, below the best seen before it. A history is stalled for \<open>n\<close> epochs
  when it has more than \<open>n\<close> epochs and none of its last \<open>n\<close> improves.
\<close>

definition improves :: "logs list \<Rightarrow> nat \<Rightarrow> bool" where
  "improves h j = (\<forall>l\<in>set (take j h). val_loss (h ! j) < val_loss l)"

text \<open>
  What holds of the loop's state before epoch \<open>k\<close>: the last improving epoch is
  \<open>k - 1 - es_wait\<close>, its validation loss is the best so far and the least of the history, its
  weights are the best weights kept, and every ten epochs in a row contain an improvement.
  And what holds of the state in which early stopping has ended the loop.
\<close>

definition es_invariant ::
  "keras \<Rightarrow> ndarray \<Rightarrow> ndarray \<Rightarrow> ndarray \<Rightarrow> ndarray \<Rightarrow> nat \<Rightarrow> fit_state \<Rightarrow> bool" where
  "es_invariant env Xt yt Xv yv k st =
     (length (history st) = k \<and> \<not> stop_training st \<and>
      (k = 0 \<longrightarrow> es_best st = None) \<and>
      (0 < k \<longrightarrow> es_wait st < 10 \<and> es_wait st < k \<and>
         improves (history st) (k - 1 - es_wait st) \<and>
         (\<forall>i. k - 1 - es_wait st < i \<and> i < k \<longrightarrow> \<not> improves (history st) i) \<and>
         es_best st = Some (val_loss (history st ! (k - 1 - es_wait st))) \<and>
         (\<forall>l\<in>set (history st). val_loss (history st ! (k - 1 - es_wait st)) \<le> val_loss l) \<and>
         (\<exists>bw mj. es_best_weights st = Some bw \<and>
            train_epoch env mj Xt yt Xv yv (k - 1 - es_wait st)
              = Inr (bw, history st ! (k - 1 - es_wait st)))) \<and>
      (\<forall>a. a + 10 \<le> k \<longrightarrow> (\<exists>i. a \<le> i \<and> i < a + 10 \<and> improves (history st) i)))"

definition es_final ::
  "keras \<Rightarrow> ndarray \<Rightarrow> ndarray \<Rightarrow> ndarray \<Rightarrow> ndarray \<Rightarrow> fit_state \<Rightarrow> bool" where
  "es_final env Xt yt Xv yv st =
     (stop_training st \<and> 11 \<le> length (history st) \<and>
      (\<forall>i. length (history st) - 10 \<le> i \<and> i < length (history st) \<longrightarrow> \<not> improves (history st) i) \<and>
      improves (history st) (length (history st) - 11) \<and>
      (\<forall>l\<in>set (history st). val_loss (history st ! (length (history st) - 11)) \<le> val_loss l) \<and>
      (\<exists>mj. train_epoch env mj Xt yt Xv yv (length (history st) - 11)
              = Inr (weights (the_model st), history st ! (length (history st) - 11))) \<and>
      (\<forall>a. a + 10 < length (history st) \<longrightarrow>
           (\<exists>i. a \<le> i \<and> i < a + 10 \<and> improves (history st) i)))"

definition stalled :: "logs list \<Rightarrow> nat \<Rightarrow> bool" where
  "stalled h n = (n < length h \<and> (\<forall>i. length h - n \<le> i \<and> i < length h \<longrightarrow> \<not> improves h i))"

text \<open>An array without rows.\<close>

definition no_rows :: ndarray where
  "no_rows = \<lparr>dtype = int32, rows = []\<rparr>"

section \<open>Padding\<close>

lemma asarray_int32_Inr:
  "asarray_int32 vs = Inr r \<Longrightarrow> vs = map Some r \<and> (\<forall>i\<in>set r. i < 2147483648)"
proof (induction vs arbitrary: r)
  case Nil
  then show ?case by simp
next
  case (Cons v vs)
  then show ?case
    by (cases v) (auto split: if_splits sum.splits)
qed

lemma asarray_int32_map_Some:
  "\<forall>i\<in>set r. i < 2147483648 \<Longrightarrow> asarray_int32 (map Some r) = Inr r"
  by (induction r) auto

lemma pad_rows_Inr:
  "pad_rows ss n = Inr x \<Longrightarrow>
     length x = length ss \<and>
     (\<forall>i<length ss. \<exists>ids. take n (ss ! i) = map Some ids \<and>
         x ! i = ids @ replicate (n - length ids) 0)"
proof (induction ss arbitrary: x)
  case Nil
  then show ?case by simp
next
  case (Cons s ss)
  from Cons.prems obtain trunc x' where
    t: "asarray_int32 (take n s) = Inr trunc" and r: "pad_rows ss n = Inr x'"
    and x: "x = (trunc @ replicate (n - length trunc) 0) # x'"
    by (auto split: sum.splits)
  from Cons.IH[OF r] have ih: "length x' = length ss"
    "\<forall>i<length ss. \<exists>ids. take n (ss ! i) = map Some ids \<and> x' ! i = ids @ replicate (n - length ids) 0"
    by auto
  from asarray_int32_Inr[OF t] have ts: "take n s = map Some trunc" by simp
  show ?case
  proof (intro conjI allI impI)
    show "length x = length (s # ss)" using x ih(1) by simp
  next
    fix i assume "i < length (s # ss)"
    then show "\<exists>ids. take n ((s # ss) ! i) = map Some ids \<and> x ! i = ids @ replicate (n - length ids) 0"
      using x ts ih(2) by (cases i) auto
  qed
qed

lemma pad_rows_length:
  "pad_rows ss n = Inr x \<Longrightarrow> \<forall>r\<in>set x. length r = n"
proof (induction ss arbitrary: x)
  case Nil
  then show ?case by simp
next
  case (Cons s ss)
  from Cons.prems obtain trunc x' where
    t: "asarray_int32 (take n s) = Inr trunc" and r: "pad_rows ss n = Inr x'"
    and x: "x = (trunc @ replicate (n - length trunc) 0) # x'"
    by (auto split: sum.splits)
  from asarray_int32_Inr[OF t] have "length trunc = length (take n s)"
    by (metis length_map)
  then have "length trunc \<le> n" by simp
  then show ?case using x Cons.IH[OF r] by auto
qed

lemma pad_rows_total:
  "\<forall>s\<in>set ss. \<exists>ids. s = map Some ids \<and> (\<forall>i\<in>set ids. i < 2147483648) \<Longrightarrow>
   \<exists>x. pad_rows ss n = Inr x"
proof (induction ss)
  case Nil
  then show ?case by simp
next
  case (Cons s ss)
  then obtain ids where s: "s = map Some ids" and b: "\<forall>i\<in>set ids. i < 2147483648" by auto
  have "take n s = map Some (take n ids)" using s by (simp add: take_map)
  moreover have "\<forall>i\<in>set (take n ids). i < 2147483648" using b by (meson in_set_takeD)
  ultimately have "asarray_int32 (take n s) = Inr (take n ids)"
    using asarray_int32_map_Some by simp
  moreover from Cons obtain x where "pad_rows ss n = Inr x" by auto
  ultimately show ?case by simp
qed

section \<open>Tokens and the fitted dictionary\<close>

lemma split_chars: "w \<in> set (split sep s) \<Longrightarrow> set w \<subseteq> set s - {sep}"
proof (induction s arbitrary: w)
  case Nil
  then show ?case by simp
next
  case (Cons c cs)
  show ?case
  proof (cases "c = sep")
    case True
    with Cons show ?thesis by auto
  next
    case False
    show ?thesis
    proof (cases "split sep cs")
      case Nil
      with False Cons.prems show ?thesis by auto
    next
      case (Cons w' ws)
      then have "w' \<in> set (split sep cs)" and "\<forall>v\<in>set ws. v \<in> set (split sep cs)" by auto
      with Cons.IH have "set w' \<subseteq> set cs - {sep}" "\<forall>v\<in>set ws. set v \<subseteq> set cs - {sep}" by blast+
      with False Cons Cons.prems show ?thesis by auto
    qed
  qed
qed

lemma token_chars:
  assumes "w \<in> set (text_to_word_sequence s)"
  shows "w \<noteq> [] \<and> (\<forall>c\<in>set w. c \<notin> set filters \<and> c \<noteq> CHR '' '')"
proof -
  let ?m = "map (\<lambda>c. if c \<in> set filters then CHR '' '' else c) (lower s)"
  from assms have w: "w \<in> set (split CHR '' '' ?m)" and ne: "w \<noteq> []"
    by (auto simp: text_to_word_sequence_def)
  from split_chars[OF w] have "set w \<subseteq> set ?m - {CHR '' ''}" .
  then have "\<forall>c\<in>set w. c \<notin> set filters \<and> c \<noteq> CHR '' ''" by auto
  with ne show ?thesis by simp
qed

lemma oov_not_token: "''<OOV>'' \<notin> set (text_to_word_sequence s)"
proof
  assume "''<OOV>'' \<in> set (text_to_word_sequence s)"
  from token_chars[OF this] have "CHR ''<'' \<notin> set filters" by simp
  then show False by (simp add: filters_def)
qed

lemma dict_get_map_of: "dict_get d k = map_of d k"
  by (induction d) auto

lemma dict_get_dict_set: "dict_get (dict_set k v d) k' = (if k' = k then Some v else dict_get d k')"
  by (induction d) auto

lemma dict_set_keys:
  "map fst (dict_set k v d) = (if k \<in> fst ` set d then map fst d else map fst d @ [k])"
  by (induction d) (fastforce simp: image_iff)+

lemma dict_set_fresh: "k \<notin> fst ` set d \<Longrightarrow> dict_set k v d = d @ [(k, v)]"
  by (induction d) auto

lemma dict_zip_distinct_aux:
  "distinct (map fst d @ map fst kvs) \<Longrightarrow> foldl (\<lambda>d (k, v). dict_set k v d) d kvs = d @ kvs"
proof (induction kvs arbitrary: d)
  case Nil
  then show ?case by simp
next
  case (Cons kv kvs)
  obtain k v where kv: "kv = (k, v)" by (cases kv)
  from Cons.prems kv have fresh: "k \<notin> fst ` set d" by auto
  from Cons.prems kv have "distinct (map fst (d @ [(k, v)]) @ map fst kvs)" by auto
  from Cons.IH[OF this] show ?case using kv fresh by (simp add: dict_set_fresh)
qed

lemma dict_zip_distinct:
  assumes "distinct ks" and "length vs = length ks"
  shows "dict_zip ks vs = zip ks vs"
proof -
  have "map fst (zip ks vs) = ks" using assms(2) by (simp add: map_fst_zip)
  then have "distinct (map fst ([] :: ('a \<times> 'b) list) @ map fst (zip ks vs))" using assms(1) by simp
  from dict_zip_distinct_aux[OF this] show ?thesis by (simp add: dict_zip_def)
qed

lemma count_word_keys:
  "map fst (count_word wc w) = (if w \<in> fst ` set wc then map fst wc else map fst wc @ [w])"
  by (simp add: count_word_def dict_set_keys)

lemma foldl_count_word_keys:
  "set (map fst (foldl count_word wc ws)) = fst ` set wc \<union> set ws \<and>
   (distinct (map fst wc) \<longrightarrow> distinct (map fst (foldl count_word wc ws)))"
proof (induction ws arbitrary: wc)
  case Nil
  then show ?case by simp
next
  case (Cons w ws)
  have s: "set (map fst (count_word wc w)) = insert w (fst ` set wc)"
    by (auto simp: count_word_keys)
  have d: "distinct (map fst wc) \<Longrightarrow> distinct (map fst (count_word wc w))"
    by (auto simp: count_word_keys)
  from Cons.IH[of "count_word wc w"] s d show ?case by auto
qed

lemma foldl_texts:
  "foldl (\<lambda>wc text. foldl count_word wc (text_to_word_sequence text)) wc texts
     = foldl count_word wc (corpus_words texts)"
  by (induction texts arbitrary: wc) (auto simp: corpus_words_def)

lemma sort_key_keys:
  assumes "distinct (map fst xs)"
  shows "distinct (map fst (sort_key f xs))" and "set (map fst (sort_key f xs)) = fst ` set xs"
    and "length (sort_key f xs) = length xs"
proof -
  show s: "set (map fst (sort_key f xs)) = fst ` set xs" by simp
  show l: "length (sort_key f xs) = length xs" by simp
  have "card (set (map fst (sort_key f xs))) = card (set (map fst xs))" using s by simp
  also have "\<dots> = length (map fst xs)" using assms by (rule distinct_card)
  also have "\<dots> = length (map fst (sort_key f xs))" using l by simp
  finally show "distinct (map fst (sort_key f xs))" by (rule card_distinct)
qed

text \<open>The dictionary that fitting produces on a fresh tokenizer whose OOV token is no word.\<close>

lemma fit_word_index:
  assumes "oov \<notin> set (corpus_words texts)"
  shows "\<exists>ws. distinct ws \<and> set ws = set (corpus_words texts) \<and>
           word_index (fit_on_texts (Tokenizer n oov) texts) = zip (oov # ws) [1 ..< length ws + 2]"
proof -
  define wc where "wc = foldl count_word [] (corpus_words texts)"
  define ws where "ws = map fst (sort_key (\<lambda>x. - int (snd x)) wc)"
  from foldl_count_word_keys[of "[]" "corpus_words texts"]
  have k: "set (map fst wc) = set (corpus_words texts)" and d: "distinct (map fst wc)"
    by (auto simp: wc_def)
  from sort_key_keys[OF d] k have dws: "distinct ws" and sws: "set ws = set (corpus_words texts)"
    by (auto simp: ws_def)
  have "distinct (oov # ws)" using dws sws assms by simp
  moreover have "length [1 ..< length (oov # ws) + 1] = length (oov # ws)"
    by (simp del: upt_Suc)
  ultimately have "dict_zip (oov # ws) [1 ..< length (oov # ws) + 1] = zip (oov # ws) [1 ..< length (oov # ws) + 1]"
    by (rule dict_zip_distinct)
  moreover have "word_index (fit_on_texts (Tokenizer n oov) texts)
      = dict_zip (oov # ws) [1 ..< length (oov # ws) + 1]"
    by (simp add: fit_on_texts_def Tokenizer_def foldl_texts wc_def ws_def Let_def)
  ultimately show ?thesis using dws sws by (intro exI[of _ ws]) (simp del: upt_Suc)
qed

lemma fit_word_index_length:
  assumes "oov \<notin> set (corpus_words texts)"
  shows "length (word_index (fit_on_texts (Tokenizer n oov) texts)) = card (set (corpus_words texts)) + 1"
proof -
  from fit_word_index[OF assms, of n] obtain ws where
    "distinct ws" "set ws = set (corpus_words texts)"
    "word_index (fit_on_texts (Tokenizer n oov) texts) = zip (oov # ws) [1 ..< length ws + 2]"
    by blast
  then show ?thesis by (simp add: distinct_card[symmetric] del: upt_Suc)
qed

lemma fit_fields:
  "num_words (fit_on_texts tk texts) = num_words tk" "oov_token (fit_on_texts tk texts) = oov_token tk"
  by (simp_all add: fit_on_texts_def Let_def)

lemma fit_word_to_id:
  assumes "oov \<notin> set (corpus_words texts)" and "2 \<le> n"
  shows "\<exists>i. word_to_id (fit_on_texts (Tokenizer n oov) texts) w = Some i \<and> 1 \<le> i \<and> i < n"
proof -
  let ?tk = "fit_on_texts (Tokenizer n oov) texts"
  from fit_word_index[OF assms(1), of n] obtain ws where
    wi: "word_index ?tk = zip (oov # ws) [1 ..< length ws + 2]" by blast
  obtain rest where up: "[1 ..< length ws + 2] = 1 # rest"
    by (simp add: upt_conv_Cons del: upt_Suc)
  have oov: "dict_get (word_index ?tk) oov = Some 1" unfolding wi up by simp
  have nw: "num_words ?tk = n" "oov_token ?tk = oov" by (simp_all add: fit_fields Tokenizer_def)
  have pos: "\<And>i. dict_get (word_index ?tk) w = Some i \<Longrightarrow> 1 \<le> i"
  proof -
    fix i assume "dict_get (word_index ?tk) w = Some i"
    then have "(w, i) \<in> set (zip (oov # ws) [1 ..< length ws + 2])"
      by (simp add: dict_get_map_of wi map_of_SomeD)
    then have "i \<in> set [1 ..< length ws + 2]" by (rule set_zip_rightD)
    then show "1 \<le> i" by (simp del: upt_Suc)
  qed
  show ?thesis
  proof (cases "dict_get (word_index ?tk) w")
    case None
    then show ?thesis using oov nw assms(2) by (simp add: word_to_id_def)
  next
    case (Some i)
    then show ?thesis using oov nw assms(2) pos[OF Some] by (auto simp: word_to_id_def)
  qed
qed

section \<open>Labels and the result of preprocessing\<close>

lemma index_of_mem:
  "v \<in> set xs \<Longrightarrow> \<exists>i. index_of xs v = Some i \<and> i < length xs \<and> xs ! i = v"
  by (induction xs) auto

lemma index_of_Some:
  "index_of xs v = Some i \<Longrightarrow> i < length xs \<and> xs ! i = v"
  by (induction xs arbitrary: i) (auto split: if_splits)

lemma transform_total:
  "set ys \<subseteq> set (classes le) \<Longrightarrow>
     \<exists>r. transform le ys = Inr r \<and> length r = length ys \<and> (\<forall>i\<in>set r. i < length (classes le))"
proof (induction ys)
  case Nil
  then show ?case by simp
next
  case (Cons y ys)
  then have "y \<in> set (classes le)" by simp
  from index_of_mem[OF this] obtain i where "index_of (classes le) y = Some i" "i < length (classes le)"
    by blast
  moreover from Cons obtain r where "transform le ys = Inr r" "length r = length ys"
    "\<forall>i\<in>set r. i < length (classes le)" by auto
  ultimately show ?case by simp
qed

lemma fit_transform_total:
  "\<exists>r. fit_transform le y = Inr (le\<lparr>classes := sort (remdups y)\<rparr>, r) \<and> length r = length y \<and>
        (\<forall>i\<in>set r. i < length (sort (remdups y)))"
proof -
  have "set y \<subseteq> set (classes (le\<lparr>classes := sort (remdups y)\<rparr>))" by simp
  from transform_total[OF this] show ?thesis by (auto simp: fit_transform_def Let_def)
qed

lemma one_hot_rows_total:
  "\<forall>i\<in>set r. i < n \<Longrightarrow> \<exists>x. one_hot_rows r n = Inr x \<and> length x = length r"
  by (induction r) auto

lemma preprocess_tokenizer_ids:
  "\<exists>i. word_to_id (fit_on_texts (Tokenizer (max_vocab_size CONFIG) ''<OOV>'') texts) w = Some i \<and>
       1 \<le> i \<and> i < max_vocab_size CONFIG"
proof -
  have "''<OOV>'' \<notin> set (corpus_words texts)"
    using oov_not_token by (auto simp: corpus_words_def)
  moreover have "2 \<le> max_vocab_size CONFIG" by (simp add: CONFIG_def)
  ultimately show ?thesis by (rule fit_word_to_id)
qed

lemma sequences_ids:
  "\<exists>ids. map (word_to_id (fitted df)) ws = map Some ids \<and> (\<forall>i\<in>set ids. 1 \<le> i \<and> i < max_vocab_size CONFIG)"
proof (induction ws)
  case Nil
  then show ?case by simp
next
  case (Cons w ws)
  then obtain ids where ids: "map (word_to_id (fitted df)) ws = map Some ids"
    "\<forall>i\<in>set ids. 1 \<le> i \<and> i < max_vocab_size CONFIG" by blast
  from preprocess_tokenizer_ids[of "column_text df" w] obtain i where
    "word_to_id (fitted df) w = Some i" "1 \<le> i" "i < max_vocab_size CONFIG"
    by (auto simp: fitted_def)
  with ids show ?case by (intro exI[of _ "i # ids"]) simp
qed

lemma preprocess_data_returns:
  "\<exists>x y. preprocess_data df =
      Inr (\<lparr>dtype = int32, rows = x\<rparr>, y, fitted df, \<lparr>classes = sort (remdups (column_intent df))\<rparr>) \<and>
      pad_rows (texts_to_sequences (fitted df) (column_text df)) (max_sequence_length CONFIG) = Inr x"
proof -
  let ?seqs = "texts_to_sequences (fitted df) (column_text df)"
  have "\<forall>s\<in>set ?seqs. \<exists>ids. s = map Some ids \<and> (\<forall>i\<in>set ids. i < 2147483648)"
  proof
    fix s assume "s \<in> set ?seqs"
    then obtain t where "s = map (word_to_id (fitted df)) (text_to_word_sequence t)"
      by (auto simp: texts_to_sequences_def)
    with sequences_ids[of df "text_to_word_sequence t"] obtain ids where
      "s = map Some ids" "\<forall>i\<in>set ids. 1 \<le> i \<and> i < max_vocab_size CONFIG" by auto
    moreover have "max_vocab_size CONFIG < 2147483648" by (simp add: CONFIG_def)
    ultimately show "\<exists>ids. s = map Some ids \<and> (\<forall>i\<in>set ids. i < 2147483648)" by fastforce
  qed
  from pad_rows_total[OF this] obtain x where x: "pad_rows ?seqs (max_sequence_length CONFIG) = Inr x"
    by blast
  from fit_transform_total[of LabelEncoder "column_intent df"] obtain r where
    r: "fit_transform LabelEncoder (column_intent df)
          = Inr (LabelEncoder\<lparr>classes := sort (remdups (column_intent df))\<rparr>, r)"
    "\<forall>i\<in>set r. i < length (sort (remdups (column_intent df)))" by blast
  from one_hot_rows_total[OF r(2)] obtain oh where
    oh: "one_hot_rows r (length (sort (remdups (column_intent df)))) = Inr oh" by blast
  have "preprocess_data df =
      Inr (\<lparr>dtype = int32, rows = x\<rparr>, \<lparr>dtype = float32, rows = oh\<rparr>, fitted df,
           \<lparr>classes = sort (remdups (column_intent df))\<rparr>)"
    using x r(1) oh
    by (simp add: preprocess_data_def Let_def fitted_def[symmetric] pad_sequences_def
        to_categorical_def LabelEncoder_def)
  with x show ?thesis by blast
qed

lemma pad_row_shape:
  assumes "take n s = map Some t" and "s = map Some ids"
  shows "t @ replicate (n - length t) 0 = take n ids @ replicate (n - length ids) (0::nat)"
proof -
  from assms have "map Some t = map Some (take n ids)" by (simp add: take_map)
  then have t: "t = take n ids" by (simp add: inj_map_eq_map)
  show ?thesis by (simp add: t min_def)
qed

text \<open>
  Claim C4. For every data frame, \<open>preprocess_data\<close> returns, and row \<open>i\<close> of the padded
  array has exactly \<open>max_sequence_length\<close> entries: the first \<open>max_sequence_length\<close> ids of
  text \<open>i\<close> (a longer sequence loses its end) followed by as many 0 as are missing (a
  shorter sequence is filled up at its end). At the other call sites (the representative
  dataset and the validator of export_tflite.py) every row of an array that
  \<open>pad_sequences\<close> returns has length \<open>maxlen\<close> as well.
\<close>

theorem padded_sequence_length:
  "(\<exists>X y tk le. preprocess_data df = Inr (X, y, tk, le) \<and> length (rows X) = length df \<and>
      (\<forall>i<length df. \<exists>ids.
          map (word_to_id tk) (text_to_word_sequence (fst (df ! i))) = map Some ids \<and>
          length (rows X ! i) = max_sequence_length CONFIG \<and>
          rows X ! i = take (max_sequence_length CONFIG) ids
                         @ replicate (max_sequence_length CONFIG - length ids) 0))
   \<and> (\<forall>sequences maxlen A. pad_sequences sequences maxlen = Inr A \<longrightarrow>
         (\<forall>r\<in>set (rows A). length r = maxlen))"
proof
  let ?n = "max_sequence_length CONFIG"
  let ?seqs = "texts_to_sequences (fitted df) (column_text df)"
  from preprocess_data_returns[of df] obtain x y where
    p: "preprocess_data df =
          Inr (\<lparr>dtype = int32, rows = x\<rparr>, y, fitted df, \<lparr>classes = sort (remdups (column_intent df))\<rparr>)"
    and x: "pad_rows ?seqs ?n = Inr x" by blast
  from pad_rows_Inr[OF x] have len: "length x = length ?seqs"
    and row: "\<forall>i<length ?seqs. \<exists>t. take ?n (?seqs ! i) = map Some t \<and> x ! i = t @ replicate (?n - length t) 0"
    by auto
  have ls: "length ?seqs = length df" by (simp add: texts_to_sequences_def column_text_def)
  have "\<forall>i<length df. \<exists>ids.
          map (word_to_id (fitted df)) (text_to_word_sequence (fst (df ! i))) = map Some ids \<and>
          length (x ! i) = ?n \<and> x ! i = take ?n ids @ replicate (?n - length ids) 0"
  proof (intro allI impI)
    fix i assume i: "i < length df"
    let ?s = "map (word_to_id (fitted df)) (text_to_word_sequence (fst (df ! i)))"
    have si: "?seqs ! i = ?s" using i by (simp add: texts_to_sequences_def column_text_def)
    from sequences_ids[of df "text_to_word_sequence (fst (df ! i))"] obtain ids where
      ids: "?s = map Some ids" by blast
    from row i ls si obtain t where t: "take ?n ?s = map Some t" "x ! i = t @ replicate (?n - length t) 0"
      by auto
    from pad_row_shape[OF t(1) ids] t(2)
    have xi: "x ! i = take ?n ids @ replicate (?n - length ids) 0" by simp
    then have "length (x ! i) = ?n" by simp
    with ids xi show "\<exists>ids. ?s = map Some ids \<and> length (x ! i) = ?n \<and>
        x ! i = take ?n ids @ replicate (?n - length ids) 0" by blast
  qed
  with p len ls show "\<exists>X y tk le. preprocess_data df = Inr (X, y, tk, le) \<and> length (rows X) = length df \<and>
      (\<forall>i<length df. \<exists>ids.
          map (word_to_id tk) (text_to_word_sequence (fst (df ! i))) = map Some ids \<and>
          length (rows X ! i) = max_sequence_length CONFIG \<and>
          rows X ! i = take (max_sequence_length CONFIG) ids
                         @ replicate (max_sequence_length CONFIG - length ids) 0)"
    by (intro exI[of _ "\<lparr>dtype = int32, rows = x\<rparr>"] exI[of _ y] exI[of _ "fitted df"]
        exI[of _ "\<lparr>classes = sort (remdups (column_intent df))\<rparr>"]) simp
next
  show "\<forall>sequences maxlen A. pad_sequences sequences maxlen = Inr A \<longrightarrow>
         (\<forall>r\<in>set (rows A). length r = maxlen)"
  proof (intro allI impI)
    fix sequences maxlen A
    assume "pad_sequences sequences maxlen = Inr A"
    then obtain x where "pad_rows sequences maxlen = Inr x" "rows A = x"
      by (auto simp: pad_sequences_def split: sum.splits)
    with pad_rows_length show "\<forall>r\<in>set (rows A). length r = maxlen" by blast
  qed
qed

theorem padded_sequence_length_witness:
  "(\<exists>X y tk le. preprocess_data example_df = Inr (X, y, tk, le) \<and>
       length (rows X ! 1) = max_sequence_length CONFIG)
   \<and> pad_sequences [[Some 5, Some 7, Some 9], [Some 4]] 2
        = Inr \<lparr>dtype = int32, rows = [[5, 7], [4, 0]]\<rparr>
   \<and> length [5, 7 :: nat] = 2 \<and> length [4, 0 :: nat] = 2"
proof -
  have l: "(1::nat) < length example_df" by (simp add: example_df_def)
  have p: "pad_sequences [[Some 5, Some 7, Some 9], [Some 4]] 2
        = Inr \<lparr>dtype = int32, rows = [[5, 7], [4, 0]]\<rparr>"
    by (simp add: pad_sequences_def numeral_2_eq_2)
  from padded_sequence_length[of example_df] l p show ?thesis by fastforce
qed

section \<open>The export run\<close>

lemma world_simps:
  "files (print fmt args w) = files w"
  "files (makedirs d w) = files w"
  "files (write_file p f w) = (files w)(p \<mapsto> f)"
  "stdout (print fmt args w) = stdout w @ [(fmt, args)]"
  "stdout (makedirs d w) = stdout w"
  "stdout (write_file p f w) = stdout w"
  "set_tensor_calls (print fmt args w) = set_tensor_calls w"
  "set_tensor_calls (makedirs d w) = set_tensor_calls w"
  "set_tensor_calls (write_file p f w) = set_tensor_calls w"
  by (simp_all add: print_def makedirs_def write_file_def)

lemma load_simps:
  "load_model (print fmt args w) p = load_model w p"
  "load_model (makedirs d w) p = load_model w p"
  "load_tokenizer_and_labels (print fmt args w) = load_tokenizer_and_labels w"
  "load_tokenizer_and_labels (makedirs d w) = load_tokenizer_and_labels w"
  by (simp_all add: load_model_def load_tokenizer_and_labels_def world_simps
      cong: option.case_cong file_content.case_cong)

lemma test_loop_files: "files (snd (test_loop env p b tk cls texts w)) = files w"
proof (induction texts arbitrary: w)
  case Nil
  then show ?case by simp
next
  case (Cons t texts)
  show ?case
    by (simp add: Let_def Cons.IH world_simps split: sum.splits)
qed

lemma test_inference_files: "files (snd (test_inference env p tk cls w)) = files w"
  by (simp add: test_inference_def test_loop_files world_simps
      split: option.splits file_content.splits sum.splits)

lemma quantized_try_files:
  "p \<noteq> tflite_quantized_path export_CONFIG \<Longrightarrow> files (snd (quantized_try env c b w)) p = files w p"
  by (simp add: quantized_try_def Let_def world_simps split: sum.splits)

lemma quantized_except_files:
  "p \<noteq> tflite_quantized_path export_CONFIG \<Longrightarrow> files (snd (quantized_except env m e w)) p = files w p"
  by (simp add: quantized_except_def Let_def world_simps split: sum.splits)

lemma paths_distinct:
  "tflite_model_path export_CONFIG \<noteq> tflite_quantized_path export_CONFIG"
  "tflite_model_path export_CONFIG \<noteq> model_metadata_path export_CONFIG"
  "tflite_quantized_path export_CONFIG \<noteq> model_metadata_path export_CONFIG"
  "model_metadata_path export_CONFIG \<noteq> tflite_quantized_path export_CONFIG"
  "tflite_quantized_path export_CONFIG \<noteq> tflite_model_path export_CONFIG"
  "model_metadata_path export_CONFIG \<noteq> tflite_model_path export_CONFIG"
  by (simp_all add: export_CONFIG_def)

lemma fitted_pad_sequences:
  "\<exists>A. pad_sequences (texts_to_sequences (fitted df) texts) n = Inr A \<and> dtype A = int32"
proof -
  let ?seqs = "texts_to_sequences (fitted df) texts"
  have "\<forall>s\<in>set ?seqs. \<exists>ids. s = map Some ids \<and> (\<forall>i\<in>set ids. i < 2147483648)"
  proof
    fix s assume "s \<in> set ?seqs"
    then obtain t where "s = map (word_to_id (fitted df)) (text_to_word_sequence t)"
      by (auto simp: texts_to_sequences_def)
    with sequences_ids[of df "text_to_word_sequence t"] obtain ids where
      "s = map Some ids" "\<forall>i\<in>set ids. 1 \<le> i \<and> i < max_vocab_size CONFIG" by auto
    moreover have "max_vocab_size CONFIG < 2147483648" by (simp add: CONFIG_def)
    ultimately show "\<exists>ids. s = map Some ids \<and> (\<forall>i\<in>set ids. i < 2147483648)" by fastforce
  qed
  from pad_rows_total[OF this] obtain x where "pad_rows ?seqs n = Inr x" by blast
  then show ?thesis by (simp add: pad_sequences_def)
qed

lemma fitted_representative_dataset: "\<exists>ds. create_representative_dataset (fitted df) = Inr ds"
proof -
  from fitted_pad_sequences[of df sample_texts "export_max_sequence_length export_CONFIG"]
  obtain A where "pad_sequences (texts_to_sequences (fitted df) sample_texts)
      (export_max_sequence_length export_CONFIG) = Inr A" by blast
  then show ?thesis by (simp add: create_representative_dataset_def Let_def)
qed

lemma test_loop_fst_world:
  "fst (test_loop env p b tk cls texts w) = fst (test_loop env p' b tk cls texts w')"
proof (induction texts arbitrary: w w')
  case Nil
  then show ?case by simp
next
  case (Cons t texts)
  show ?case
    by (simp add: Let_def split: sum.splits) (auto intro: Cons.IH)
qed

lemma test_inference_fst_world:
  "files w p = files w' p' \<Longrightarrow>
     fst (test_inference env p tk cls w) = fst (test_inference env p' tk cls w')"
  by (auto simp: test_inference_def split: option.splits file_content.splits sum.splits
      intro: test_loop_fst_world)

lemma test_loop_passes:
  assumes "\<And>t. \<exists>A. pad_sequences (texts_to_sequences tk [t]) (export_max_sequence_length export_CONFIG) = Inr A"
    and "\<And>a. set_tensor env b a = Inr ()"
    and "\<And>a. \<exists>out k. invoke env b a = Inr out \<and> np_argmax out = Inr k \<and> k < length cls"
  shows "fst (test_loop env p b tk cls texts w) = Inr ()"
proof (induction texts arbitrary: w)
  case Nil
  then show ?case by simp
next
  case (Cons t texts)
  from assms(1)[of t] obtain A where
    A: "pad_sequences (texts_to_sequences tk [t]) (export_max_sequence_length export_CONFIG) = Inr A"
    by blast
  from assms(3)[of "astype A float32"] obtain out k where
    o: "invoke env b (astype A float32) = Inr out" "np_argmax out = Inr k" "k < length cls" by blast
  show ?case by (simp add: Let_def A o assms(2) Cons.IH)
qed

lemma quantized_try_raises:
  "convert env c = Inl e \<Longrightarrow> quantized_try env c b w = (Inl e, w)"
  by (simp add: quantized_try_def)

lemma quantized_except_returns:
  assumes "convert env ((from_keras_model m)\<lparr>optimizations := [DEFAULT]\<rparr>) = Inr q"
  shows "fst (quantized_except env m e w) = Inr ()"
    and "files (snd (quantized_except env m e w)) (tflite_quantized_path export_CONFIG) = Some (TfliteFile q)"
    and "(''Quantization failed: {}'', [Exn e]) \<in> set (stdout (snd (quantized_except env m e w)))"
  using assms by (simp_all add: quantized_except_def Let_def world_simps)


lemma trained_world_loads:
  "load_model trained_world (model_path export_CONFIG) = Inr example_model"
  "load_tokenizer_and_labels trained_world = Inr (fitted example_df, [''greeting'', ''time''])"
  by (simp_all add: load_model_def load_tokenizer_and_labels_def trained_world_def export_CONFIG_def)

lemma validator_passes:
  assumes "\<And>a. set_tensor env b a = Inr ()"
    and "\<And>a. \<exists>out k. invoke env b a = Inr out \<and> np_argmax out = Inr k \<and> k < length cls"
    and "allocate_tensors env b = Inr ()"
    and "files w p = Some (TfliteFile b)"
  shows "fst (test_inference env p (fitted df) cls w) = Inr ()"
proof -
  have "fst (test_loop env p b (fitted df) cls test_texts w') = Inr ()" for w'
    using fitted_pad_sequences assms(1,2) by (intro test_loop_passes) blast+
  then show ?thesis using assms(3,4) by (simp add: test_inference_def)
qed

lemma fallback_failure_propagates:
  assumes "load_model w (model_path export_CONFIG) = Inr m"
    and "load_tokenizer_and_labels w = Inr (tk, cls)"
    and "convert env (from_keras_model m) = Inr b"
    and "create_representative_dataset tk = Inr ds"
    and "convert env ((from_keras_model m)
            \<lparr>optimizations := [DEFAULT], representative_dataset := Some ds,
             supported_ops := [TFLITE_BUILTINS_INT8],
             inference_input_type := int8, inference_output_type := int8\<rparr>) = Inl e"
    and "convert env ((from_keras_model m)\<lparr>optimizations := [DEFAULT]\<rparr>) = Inl e'"
  shows "fst (export_tflite_model env w) = Inl e'"
    and "files (snd (export_tflite_model env w)) (tflite_quantized_path export_CONFIG)
           = files w (tflite_quantized_path export_CONFIG)"
proof -
  let ?cq = "(from_keras_model m)
            \<lparr>optimizations := [DEFAULT], representative_dataset := Some ds,
             supported_ops := [TFLITE_BUILTINS_INT8],
             inference_input_type := int8, inference_output_type := int8\<rparr>"
  have tr: "quantized_try env ?cq b w' = (Inl e, w')" for w'
    using assms(5) by (rule quantized_try_raises)
  have exc: "fst (quantized_except env m e w') = Inl e'"
    "files (snd (quantized_except env m e w')) = files w'" for w'
    using assms(6) by (simp_all add: quantized_except_def Let_def world_simps)
  show "fst (export_tflite_model env w) = Inl e'"
    using assms(1-4)
    by (simp add: export_tflite_model_def Let_def load_simps world_simps
        tr exc case_prod_beta sum.case_eq_if)
  show "files (snd (export_tflite_model env w)) (tflite_quantized_path export_CONFIG)
           = files w (tflite_quantized_path export_CONFIG)"
    using assms(1-4)
    by (simp add: export_tflite_model_def Let_def load_simps world_simps
        tr exc paths_distinct case_prod_beta sum.case_eq_if)
qed

text \<open>
  Claim C6. When the export starts with no file at the configured model path, the run
  aborts with the exception of \<open>load_model\<close>, and it has written no file at all: every path,
  the metadata path among them, holds after the run what it held before, so a metadata
  file is as absent or as complete as it was. The script has no temporary file and no
  rename; in this run the write of line 170 is never reached.
\<close>

theorem absent_model_file_aborts:
  assumes "files w (model_path export_CONFIG) = None"
  shows "fst (export_tflite_model env w) = Inl (OSError (model_path export_CONFIG)) \<and>
         files (snd (export_tflite_model env w)) = files w"
  using assms by (simp add: export_tflite_model_def Let_def load_model_def world_simps)

theorem absent_model_file_aborts_witness:
  "files empty_world (model_path export_CONFIG) = None \<and>
   fst (export_tflite_model succeeding_tflite empty_world)
     = Inl (OSError ''models/intent_classifier.h5'') \<and>
   files (snd (export_tflite_model succeeding_tflite empty_world))
     (model_metadata_path export_CONFIG) = None"
proof -
  have n: "files empty_world (model_path export_CONFIG) = None" by (simp add: empty_world_def)
  from absent_model_file_aborts[OF n, of succeeding_tflite] n show ?thesis
    by (simp add: empty_world_def export_CONFIG_def)
qed

text \<open>
  Claim C9. Once the model, the tokenizer and the labels are loaded and the full-precision
  conversion has returned bytes \<open>b\<close>, the file at \<open>tflite_model_path\<close> holds \<open>b\<close> at the end of
  the run whatever the later steps do: the write of line 103 comes before the first
  quantized conversion, and nothing afterwards writes to that path. In particular the
  artifact is there when the integer-only conversion and the fallback conversion both
  raise and the run aborts.
\<close>

theorem float32_artifact_written_first:
  assumes "load_model w (model_path export_CONFIG) = Inr m"
    and "load_tokenizer_and_labels w = Inr (tk, cls)"
    and "convert env (from_keras_model m) = Inr b"
  shows "files (snd (export_tflite_model env w)) (tflite_model_path export_CONFIG) = Some (TfliteFile b)"
  using assms
  by (simp add: export_tflite_model_def Let_def load_simps world_simps test_inference_files
      quantized_try_files quantized_except_files paths_distinct
      case_prod_beta sum.case_eq_if)

theorem float32_artifact_written_first_witness:
  "load_model trained_world (model_path export_CONFIG) = Inr example_model \<and>
   convert both_failing_tflite (from_keras_model example_model) = Inr [1, 2, 3, 4] \<and>
   fst (export_tflite_model both_failing_tflite trained_world)
     = Inl (FrameworkError ''dynamic range quantization failed'') \<and>
   files (snd (export_tflite_model both_failing_tflite trained_world))
     (tflite_model_path export_CONFIG) = Some (TfliteFile [1, 2, 3, 4])"
proof -
  from fitted_representative_dataset[of example_df] obtain ds where
    ds: "create_representative_dataset (fitted example_df) = Inr ds" by blast
  have c1: "convert both_failing_tflite (from_keras_model example_model) = Inr [1, 2, 3, 4]"
    by (simp add: both_failing_tflite_def from_keras_model_def)
  have c2: "convert both_failing_tflite ((from_keras_model example_model)
            \<lparr>optimizations := [DEFAULT], representative_dataset := Some ds,
             supported_ops := [TFLITE_BUILTINS_INT8],
             inference_input_type := int8, inference_output_type := int8\<rparr>)
           = Inl (FrameworkError ''integer quantization failed'')"
    by (simp add: both_failing_tflite_def from_keras_model_def)
  have c3: "convert both_failing_tflite ((from_keras_model example_model)\<lparr>optimizations := [DEFAULT]\<rparr>)
      = Inl (FrameworkError ''dynamic range quantization failed'')"
    by (simp add: both_failing_tflite_def from_keras_model_def)
  from float32_artifact_written_first[OF trained_world_loads c1]
    fallback_failure_propagates(1)[OF trained_world_loads c1 ds c2 c3] trained_world_loads(1) c1
  show ?thesis by simp
qed

text \<open>
  Claim C1, as the spec states it, holds for no run in which the fallback conversion
  raises as well: the handler of line 137 protects the integer-only conversion alone.
  Here the integer-only conversion raises, the dynamic-range conversion raises too,
  the export ends with that second exception and nothing is at the quantized path.
\<close>

theorem fallback_failure_aborts_export:
  "(\<exists>ds. create_representative_dataset (fitted example_df) = Inr ds \<and>
         convert both_failing_tflite ((from_keras_model example_model)
            \<lparr>optimizations := [DEFAULT], representative_dataset := Some ds,
             supported_ops := [TFLITE_BUILTINS_INT8],
             inference_input_type := int8, inference_output_type := int8\<rparr>)
           = Inl (FrameworkError ''integer quantization failed''))
   \<and> fst (export_tflite_model both_failing_tflite trained_world)
        = Inl (FrameworkError ''dynamic range quantization failed'')
   \<and> files (snd (export_tflite_model both_failing_tflite trained_world))
        (tflite_quantized_path export_CONFIG) = None"
proof -
  from fitted_representative_dataset[of example_df] obtain ds where
    ds: "create_representative_dataset (fitted example_df) = Inr ds" by blast
  have c1: "convert both_failing_tflite (from_keras_model example_model) = Inr [1, 2, 3, 4]"
    by (simp add: both_failing_tflite_def from_keras_model_def)
  have c2: "convert both_failing_tflite ((from_keras_model example_model)
            \<lparr>optimizations := [DEFAULT], representative_dataset := Some ds,
             supported_ops := [TFLITE_BUILTINS_INT8],
             inference_input_type := int8, inference_output_type := int8\<rparr>)
           = Inl (FrameworkError ''integer quantization failed'')"
    by (simp add: both_failing_tflite_def from_keras_model_def)
  have c3: "convert both_failing_tflite ((from_keras_model example_model)\<lparr>optimizations := [DEFAULT]\<rparr>)
      = Inl (FrameworkError ''dynamic range quantization failed'')"
    by (simp add: both_failing_tflite_def from_keras_model_def)
  have n: "files trained_world (tflite_quantized_path export_CONFIG) = None"
    by (simp add: trained_world_def export_CONFIG_def)
  from fallback_failure_propagates[OF trained_world_loads c1 ds c2 c3] ds c2 n
  show ?thesis by auto
qed

text \<open>
  Claim C1, amended. When the export has reached the integer-only conversion and it raises
  an exception \<open>e\<close>, the handler runs the dynamic-range conversion; when that conversion
  returns bytes \<open>q\<close>, they are written to the quantized-artifact path, and the export
  completes successfully provided the validator passes on both artifacts.
\<close>

theorem quantization_failure_falls_back:
  assumes "load_model w (model_path export_CONFIG) = Inr m"
    and "load_tokenizer_and_labels w = Inr (tk, cls)"
    and "convert env (from_keras_model m) = Inr b"
    and "create_representative_dataset tk = Inr ds"
    and "convert env ((from_keras_model m)
            \<lparr>optimizations := [DEFAULT], representative_dataset := Some ds,
             supported_ops := [TFLITE_BUILTINS_INT8],
             inference_input_type := int8, inference_output_type := int8\<rparr>) = Inl e"
    and "convert env ((from_keras_model m)\<lparr>optimizations := [DEFAULT]\<rparr>) = Inr q"
    and "\<And>p w'. files w' p = Some (TfliteFile b) \<Longrightarrow> fst (test_inference env p tk cls w') = Inr ()"
    and "\<And>p w'. files w' p = Some (TfliteFile q) \<Longrightarrow> fst (test_inference env p tk cls w') = Inr ()"
  shows "fst (export_tflite_model env w) = Inr () \<and>
         files (snd (export_tflite_model env w)) (tflite_quantized_path export_CONFIG)
           = Some (TfliteFile q)"
proof -
  let ?cq = "(from_keras_model m)
            \<lparr>optimizations := [DEFAULT], representative_dataset := Some ds,
             supported_ops := [TFLITE_BUILTINS_INT8],
             inference_input_type := int8, inference_output_type := int8\<rparr>"
  have tr: "quantized_try env ?cq b w' = (Inl e, w')" for w'
    using assms(5) by (rule quantized_try_raises)
  note exc = quantized_except_returns[OF assms(6)]
  show ?thesis
    using assms(1-4)
    by (simp add: export_tflite_model_def Let_def load_simps world_simps test_inference_files
        tr exc assms(7,8) paths_distinct quantized_except_files case_prod_beta sum.case_eq_if)
qed

theorem quantization_failure_falls_back_witness:
  "(\<exists>ds. create_representative_dataset (fitted example_df) = Inr ds \<and>
         convert int8_failing_tflite ((from_keras_model example_model)
            \<lparr>optimizations := [DEFAULT], representative_dataset := Some ds,
             supported_ops := [TFLITE_BUILTINS_INT8],
             inference_input_type := int8, inference_output_type := int8\<rparr>)
           = Inl (FrameworkError ''integer quantization failed''))
   \<and> fst (export_tflite_model int8_failing_tflite trained_world) = Inr ()
   \<and> files (snd (export_tflite_model int8_failing_tflite trained_world))
        (tflite_quantized_path export_CONFIG) = Some (TfliteFile [5, 6])"
proof -
  from fitted_representative_dataset[of example_df] obtain ds where
    ds: "create_representative_dataset (fitted example_df) = Inr ds" by blast
  have c1: "convert int8_failing_tflite (from_keras_model example_model) = Inr [1, 2, 3, 4]"
    by (simp add: int8_failing_tflite_def from_keras_model_def)
  have c2: "convert int8_failing_tflite ((from_keras_model example_model)
            \<lparr>optimizations := [DEFAULT], representative_dataset := Some ds,
             supported_ops := [TFLITE_BUILTINS_INT8],
             inference_input_type := int8, inference_output_type := int8\<rparr>)
           = Inl (FrameworkError ''integer quantization failed'')"
    by (simp add: int8_failing_tflite_def from_keras_model_def)
  have c3: "convert int8_failing_tflite ((from_keras_model example_model)\<lparr>optimizations := [DEFAULT]\<rparr>)
      = Inr [5, 6]"
    by (simp add: int8_failing_tflite_def from_keras_model_def)
  have v: "fst (test_inference int8_failing_tflite p (fitted example_df) [''greeting'', ''time''] w') = Inr ()"
    if "files w' p = Some (TfliteFile b)" for p w' b
    using that by (intro validator_passes[where b = b])
      (simp_all add: int8_failing_tflite_def np_argmax_def)
  from quantization_failure_falls_back[OF trained_world_loads c1 ds c2 c3 v v] ds c2
  show ?thesis by auto
qed

section \<open>The validator's interpreter input\<close>

lemma test_loop_calls_float32:
  "\<forall>c\<in>set (set_tensor_calls (snd (test_loop env p b tk cls texts w))).
      c \<in> set (set_tensor_calls w) \<or> (fst c = p \<and> dtype (snd c) = float32)"
proof (induction texts arbitrary: w)
  case Nil
  then show ?case by simp
next
  case (Cons t texts)
  show ?case
  proof (cases "pad_sequences (texts_to_sequences tk [t]) (export_max_sequence_length export_CONFIG)")
    case (Inl e)
    then show ?thesis by simp
  next
    case (Inr A)
    let ?w1 = "w\<lparr>set_tensor_calls := set_tensor_calls w @ [(p, astype A float32)]\<rparr>"
    have w1: "\<forall>c\<in>set (set_tensor_calls ?w1).
        c \<in> set (set_tensor_calls w) \<or> (fst c = p \<and> dtype (snd c) = float32)"
      by (auto simp: astype_def)
    have rec: "\<forall>c\<in>set (set_tensor_calls (snd (test_loop env p b tk cls texts (print l a ?w1)))).
        c \<in> set (set_tensor_calls w) \<or> (fst c = p \<and> dtype (snd c) = float32)" for l a
      using Cons.IH[of "print l a ?w1"] w1 by (auto simp: world_simps)
    show ?thesis
      using w1 rec by (simp add: Inr Let_def split: sum.splits)
  qed
qed

lemma test_inference_calls_float32:
  "\<forall>c\<in>set (set_tensor_calls (snd (test_inference env p tk cls w))).
      c \<in> set (set_tensor_calls w) \<or> (fst c = p \<and> dtype (snd c) = float32)"
proof -
  have "\<forall>c\<in>set (set_tensor_calls (snd (test_loop env p b tk cls test_texts (print l a w)))).
      c \<in> set (set_tensor_calls w) \<or> (fst c = p \<and> dtype (snd c) = float32)" for b l a
    using test_loop_calls_float32[of env p b tk cls test_texts "print l a w"]
    by (simp add: world_simps)
  then show ?thesis
    by (simp add: test_inference_def split: option.splits file_content.splits sum.splits)
qed

text \<open>The arrays the validator pads from the test sentences, when padding does not raise.\<close>

lemma test_loop_calls_on_success:
  assumes "fst (test_loop env p b tk cls texts w) = Inr ()"
  shows "\<exists>As. map Inr As = map (\<lambda>t. pad_sequences (texts_to_sequences tk [t])
                                   (export_max_sequence_length export_CONFIG)) texts \<and>
              set_tensor_calls (snd (test_loop env p b tk cls texts w))
                = set_tensor_calls w @ map (\<lambda>A. (p, astype A float32)) As"
  using assms
proof (induction texts arbitrary: w)
  case Nil
  then show ?case by simp
next
  case (Cons t texts)
  from Cons.prems obtain A out k where
    A: "pad_sequences (texts_to_sequences tk [t]) (export_max_sequence_length export_CONFIG) = Inr A"
    and s: "set_tensor env b (astype A float32) = Inr ()"
    and i: "invoke env b (astype A float32) = Inr out"
    and k: "np_argmax out = Inr k" "k < length cls"
    by (auto simp: Let_def split: sum.splits if_splits)
  let ?w2 = "print ''  '{}' -> {} (confidence: {:.3f})''
               [Str t, Str (cls ! k), Real (np_max out)]
               (w\<lparr>set_tensor_calls := set_tensor_calls w @ [(p, astype A float32)]\<rparr>)"
  have step: "test_loop env p b tk cls (t # texts) w = test_loop env p b tk cls texts ?w2"
    by (simp add: Let_def A s i k)
  with Cons.prems have "fst (test_loop env p b tk cls texts ?w2) = Inr ()" by simp
  from Cons.IH[OF this] obtain As where
    As: "map Inr As = map (\<lambda>t. pad_sequences (texts_to_sequences tk [t])
                                   (export_max_sequence_length export_CONFIG)) texts"
    "set_tensor_calls (snd (test_loop env p b tk cls texts ?w2))
                = set_tensor_calls ?w2 @ map (\<lambda>A. (p, astype A float32)) As" by blast
  show ?case
    unfolding step using As A by (intro exI[of _ "A # As"]) (simp add: world_simps)
qed

lemma test_inference_calls_on_success:
  assumes "fst (test_inference env p tk cls w) = Inr ()"
  shows "\<exists>As. map Inr As = map (\<lambda>t. pad_sequences (texts_to_sequences tk [t])
                                   (export_max_sequence_length export_CONFIG)) test_texts \<and>
              set_tensor_calls (snd (test_inference env p tk cls w))
                = set_tensor_calls w @ map (\<lambda>A. (p, astype A float32)) As"
proof -
  from assms obtain b where b: "files w p = Some (TfliteFile b)" "allocate_tensors env b = Inr ()"
    by (auto simp: test_inference_def split: option.splits file_content.splits sum.splits)
  let ?w1 = "print (CHR 0x0A # ''Testing {}:'') [Str p] w"
  have ti: "test_inference env p tk cls w = test_loop env p b tk cls test_texts ?w1"
    using b by (simp add: test_inference_def)
  with assms have "fst (test_loop env p b tk cls test_texts ?w1) = Inr ()" by simp
  from test_loop_calls_on_success[OF this] show ?thesis by (simp add: ti world_simps)
qed

lemma quantized_calls:
  "set_tensor_calls (snd (quantized_try env c b w)) = set_tensor_calls w"
  "set_tensor_calls (snd (quantized_except env m e w)) = set_tensor_calls w"
  by (simp_all add: quantized_try_def quantized_except_def Let_def world_simps split: sum.splits)

lemma test_inference_calls_twice:
  assumes "c \<in> set (set_tensor_calls (snd (test_inference env q tk cls (snd (test_inference env p tk cls w)))))"
  shows "c \<in> set (set_tensor_calls w) \<or> ((fst c = p \<or> fst c = q) \<and> dtype (snd c) = float32)"
  using assms test_inference_calls_float32[of env q tk cls "snd (test_inference env p tk cls w)"]
    test_inference_calls_float32[of env p tk cls w]
  by blast

lemma test_inference_calls_once:
  assumes "c \<in> set (set_tensor_calls (snd (test_inference env p tk cls w)))"
  shows "c \<in> set (set_tensor_calls w) \<or> ((fst c = p \<or> fst c = q) \<and> dtype (snd c) = float32)"
  using assms test_inference_calls_float32[of env p tk cls w]
  by blast


text \<open>The two ways an export ends: before the validator, with no interpreter call, or in
  the validator, run on both artifacts from a world with the calls of the start.\<close>

lemma export_shape:
  "(\<exists>e. fst (export_tflite_model env w) = Inl e \<and>
        set_tensor_calls (snd (export_tflite_model env w)) = set_tensor_calls w)
   \<or> (\<exists>tk cls w6 md. load_tokenizer_and_labels w = Inr (tk, cls) \<and>
         set_tensor_calls w6 = set_tensor_calls w \<and>
         files w6 (model_metadata_path export_CONFIG) = Some (MetadataJson md) \<and>
         vocab_size md = length (word_index tk) + 1 \<and>
         export_tflite_model env w =
           (case test_inference env (tflite_model_path export_CONFIG) tk cls w6 of
              (Inl e, w7) \<Rightarrow> (Inl e, w7)
            | (Inr u, w7) \<Rightarrow>
                (case test_inference env (tflite_quantized_path export_CONFIG) tk cls w7 of
                   (Inl e, w8) \<Rightarrow> (Inl e, w8)
                 | (Inr u, w8) \<Rightarrow>
                     (Inr (), print (CHR 0x0A # ''Export completed successfully!'') [] w8))))"
proof (cases "load_model w (model_path export_CONFIG)")
  case (Inl e)
  then show ?thesis by (simp add: export_tflite_model_def Let_def load_simps world_simps)
next
  case m: (Inr m)
  show ?thesis
  proof (cases "load_tokenizer_and_labels w")
    case (Inl e)
    then show ?thesis using m by (simp add: export_tflite_model_def Let_def load_simps world_simps)
  next
    case (Inr tc)
    then obtain tk cls where t: "load_tokenizer_and_labels w = Inr (tk, cls)" by (cases tc) auto
    show ?thesis
    proof (cases "convert env (from_keras_model m)")
      case (Inl e)
      then show ?thesis using m t
        by (simp add: export_tflite_model_def Let_def load_simps world_simps)
    next
      case b: (Inr b)
      show ?thesis
      proof (cases "create_representative_dataset tk")
        case (Inl e)
        then show ?thesis using m t b
          by (simp add: export_tflite_model_def Let_def load_simps world_simps)
      next
        case ds: (Inr ds)
        let ?w4 = "print ''Converting to TensorFlow Lite (quantized)...'' []
           (print ''Float32 model size: {:.2f} KB'' [Real (real (length b) / 1024)]
           (print ''Float32 model saved to: {}'' [Str (tflite_model_path export_CONFIG)]
           (write_file (tflite_model_path export_CONFIG) (TfliteFile b)
           (print ''Converting to TensorFlow Lite (float32)...'' []
           (print ''Loading trained model...'' [] (makedirs ''assets'' w))))))"
        let ?cq = "(from_keras_model m)
            \<lparr>optimizations := [DEFAULT], representative_dataset := Some ds,
             supported_ops := [TFLITE_BUILTINS_INT8],
             inference_input_type := int8, inference_output_type := int8\<rparr>"
        let ?Q = "case quantized_try env ?cq b ?w4 of
                    (Inl e, w') \<Rightarrow> quantized_except env m e w'
                  | (Inr u, w') \<Rightarrow> (Inr u, w')"
        have qc: "set_tensor_calls (snd ?Q) = set_tensor_calls w"
          by (simp add: case_prod_beta sum.case_eq_if quantized_calls world_simps)
        have ex: "export_tflite_model env w =
          (case ?Q of
             (Inl e, w5) \<Rightarrow> (Inl e, w5)
           | (Inr u, w5) \<Rightarrow>
             (case test_inference env (tflite_model_path export_CONFIG) tk cls
                (print (CHR 0x0A # ''Testing models...'') []
                  (print ''Model metadata saved to: {}'' [Str (model_metadata_path export_CONFIG)]
                    (write_file (model_metadata_path export_CONFIG)
                      (MetadataJson \<lparr>model_name = ''Intent Classification Model'',
                         model_version = ''1.0.0'',
                         input_shape = [1, export_max_sequence_length export_CONFIG],
                         output_shape = [1, length cls],
                         class_names = cls,
                         metadata_max_sequence_length = export_max_sequence_length export_CONFIG,
                         vocab_size = length (word_index tk) + 1,
                         preprocessing = \<lparr>tokenizer_config = tk,
                                  padding = ''post'', truncating = ''post''\<rparr>\<rparr>) w5))) of
              (Inl e, w7) \<Rightarrow> (Inl e, w7)
            | (Inr u, w7) \<Rightarrow>
                (case test_inference env (tflite_quantized_path export_CONFIG) tk cls w7 of
                   (Inl e, w8) \<Rightarrow> (Inl e, w8)
                 | (Inr u, w8) \<Rightarrow>
                     (Inr (), print (CHR 0x0A # ''Export completed successfully!'') [] w8))))"
          unfolding export_tflite_model_def Let_def load_simps m t b ds sum.case prod.case
          by (rule refl)
        obtain r5 w5 where q: "?Q = (r5, w5)" by (cases ?Q)
        with qc have c5: "set_tensor_calls w5 = set_tensor_calls w" by simp
        show ?thesis
        proof (cases r5)
          case (Inl e)
          then show ?thesis using ex q c5 by simp
        next
          case (Inr u)
          let ?md = "\<lparr>model_name = ''Intent Classification Model'',
                 model_version = ''1.0.0'',
                 input_shape = [1, export_max_sequence_length export_CONFIG],
                 output_shape = [1, length cls],
                 class_names = cls,
                 metadata_max_sequence_length = export_max_sequence_length export_CONFIG,
                 vocab_size = length (word_index tk) + 1,
                 preprocessing = \<lparr>tokenizer_config = tk,
                                  padding = ''post'', truncating = ''post''\<rparr>\<rparr>"
          let ?w6 = "print (CHR 0x0A # ''Testing models...'') []
                        (print ''Model metadata saved to: {}'' [Str (model_metadata_path export_CONFIG)]
                        (write_file (model_metadata_path export_CONFIG) (MetadataJson ?md) w5))"
          have c6: "set_tensor_calls ?w6 = set_tensor_calls w" using c5 by (simp add: world_simps)
          have f6: "files ?w6 (model_metadata_path export_CONFIG) = Some (MetadataJson ?md)"
            by (simp add: world_simps)
          have v6: "vocab_size ?md = length (word_index tk) + 1" by simp
          have "export_tflite_model env w =
           (case test_inference env (tflite_model_path export_CONFIG) tk cls ?w6 of
              (Inl e, w7) \<Rightarrow> (Inl e, w7)
            | (Inr u, w7) \<Rightarrow>
                (case test_inference env (tflite_quantized_path export_CONFIG) tk cls w7 of
                   (Inl e, w8) \<Rightarrow> (Inl e, w8)
                 | (Inr u, w8) \<Rightarrow>
                     (Inr (), print (CHR 0x0A # ''Export completed successfully!'') [] w8)))"
            unfolding ex q Inr by simp
          with t c6 f6 v6 show ?thesis by blast
        qed
      qed
    qed
  qed
qed

lemma quantization_success:
  assumes "load_model w (model_path export_CONFIG) = Inr m"
    and "load_tokenizer_and_labels w = Inr (tk, cls)"
    and "convert env (from_keras_model m) = Inr b"
    and "create_representative_dataset tk = Inr ds"
    and "convert env ((from_keras_model m)
            \<lparr>optimizations := [DEFAULT], representative_dataset := Some ds,
             supported_ops := [TFLITE_BUILTINS_INT8],
             inference_input_type := int8, inference_output_type := int8\<rparr>) = Inr q"
    and "q \<noteq> []"
    and "\<And>p w'. files w' p = Some (TfliteFile b) \<Longrightarrow> fst (test_inference env p tk cls w') = Inr ()"
    and "\<And>p w'. files w' p = Some (TfliteFile q) \<Longrightarrow> fst (test_inference env p tk cls w') = Inr ()"
  shows "fst (export_tflite_model env w) = Inr ()"
    and "files (snd (export_tflite_model env w)) (tflite_quantized_path export_CONFIG)
           = Some (TfliteFile q)"
proof -
  let ?cq = "(from_keras_model m)
            \<lparr>optimizations := [DEFAULT], representative_dataset := Some ds,
             supported_ops := [TFLITE_BUILTINS_INT8],
             inference_input_type := int8, inference_output_type := int8\<rparr>"
  have tr: "fst (quantized_try env ?cq b w') = Inr ()"
    "files (snd (quantized_try env ?cq b w')) (tflite_quantized_path export_CONFIG) = Some (TfliteFile q)"
    for w'
    using assms(5,6) by (simp_all add: quantized_try_def Let_def world_simps)
  show "fst (export_tflite_model env w) = Inr ()"
    using assms(1-4)
    by (simp add: export_tflite_model_def Let_def load_simps world_simps test_inference_files
        tr assms(7,8) paths_distinct quantized_try_files case_prod_beta sum.case_eq_if)
  show "files (snd (export_tflite_model env w)) (tflite_quantized_path export_CONFIG)
           = Some (TfliteFile q)"
    using assms(1-4)
    by (simp add: export_tflite_model_def Let_def load_simps world_simps test_inference_files
        tr assms(7,8) paths_distinct quantized_try_files case_prod_beta sum.case_eq_if)
qed

text \<open>
  Claim C8. Every array an export run hands to \<open>interpreter.set_tensor\<close> belongs to one of
  the two artifacts and has element type \<open>float32\<close>, whatever the converter and the
  interpreter do, so also when the integer-only conversion succeeded with \<open>int8\<close> input
  and output types. A run that completes has made exactly one such call per test sentence
  and artifact, full-precision first: the padded ids of the sentence, cast to \<open>float32\<close>.
\<close>

theorem validator_feeds_float32:
  "(\<forall>c\<in>set (set_tensor_calls (snd (export_tflite_model env w))).
      c \<in> set (set_tensor_calls w) \<or>
      ((fst c = tflite_model_path export_CONFIG \<or> fst c = tflite_quantized_path export_CONFIG) \<and>
       dtype (snd c) = float32))
   \<and> (fst (export_tflite_model env w) = Inr () \<longrightarrow>
        (\<exists>tk cls As. load_tokenizer_and_labels w = Inr (tk, cls) \<and>
           map Inr As = map (\<lambda>t. pad_sequences (texts_to_sequences tk [t])
                                   (export_max_sequence_length export_CONFIG)) test_texts \<and>
           set_tensor_calls (snd (export_tflite_model env w))
             = set_tensor_calls w
               @ map (\<lambda>A. (tflite_model_path export_CONFIG, astype A float32)) As
               @ map (\<lambda>A. (tflite_quantized_path export_CONFIG, astype A float32)) As))"
proof -
  let ?R = "export_tflite_model env w"
  let ?f = "tflite_model_path export_CONFIG"
  let ?q = "tflite_quantized_path export_CONFIG"
  from export_shape[of env w] consider
    (early) e where "fst ?R = Inl e" "set_tensor_calls (snd ?R) = set_tensor_calls w"
  | (validator) tk cls w6 where "load_tokenizer_and_labels w = Inr (tk, cls)"
      "set_tensor_calls w6 = set_tensor_calls w"
      "?R = (case test_inference env ?f tk cls w6 of
              (Inl e, w7) \<Rightarrow> (Inl e, w7)
            | (Inr u, w7) \<Rightarrow>
                (case test_inference env ?q tk cls w7 of
                   (Inl e, w8) \<Rightarrow> (Inl e, w8)
                 | (Inr u, w8) \<Rightarrow>
                     (Inr (), print (CHR 0x0A # ''Export completed successfully!'') [] w8)))"
    by blast
  then show ?thesis
  proof cases
    case early
    then show ?thesis by simp
  next
    case validator
    obtain r7 w7 where t7: "test_inference env ?f tk cls w6 = (r7, w7)"
      by (cases "test_inference env ?f tk cls w6")
    obtain r8 w8 where t8: "test_inference env ?q tk cls w7 = (r8, w8)"
      by (cases "test_inference env ?q tk cls w7")
    from test_inference_calls_float32[of env ?f tk cls w6] t7 validator(2)
    have c7: "\<forall>c\<in>set (set_tensor_calls w7).
        c \<in> set (set_tensor_calls w) \<or> (fst c = ?f \<and> dtype (snd c) = float32)" by simp
    from test_inference_calls_float32[of env ?q tk cls w7] t8
    have c8: "\<forall>c\<in>set (set_tensor_calls w8).
        c \<in> set (set_tensor_calls w7) \<or> (fst c = ?q \<and> dtype (snd c) = float32)" by simp
    have all: "\<forall>c\<in>set (set_tensor_calls (snd ?R)).
      c \<in> set (set_tensor_calls w) \<or> ((fst c = ?f \<or> fst c = ?q) \<and> dtype (snd c) = float32)"
    proof (cases r7)
      case (Inl e)
      then show ?thesis using validator(3) t7 c7 by auto
    next
      case (Inr u)
      then have "snd ?R = w8 \<or> snd ?R = print (CHR 0x0A # ''Export completed successfully!'') [] w8"
        using validator(3) t7 t8 by (cases r8) auto
      then have "set_tensor_calls (snd ?R) = set_tensor_calls w8" by (auto simp: world_simps)
      then show ?thesis using c7 c8 by auto
    qed
    have ok: "\<exists>tk cls As. load_tokenizer_and_labels w = Inr (tk, cls) \<and>
           map Inr As = map (\<lambda>t. pad_sequences (texts_to_sequences tk [t])
                                   (export_max_sequence_length export_CONFIG)) test_texts \<and>
           set_tensor_calls (snd ?R)
             = set_tensor_calls w @ map (\<lambda>A. (?f, astype A float32)) As
               @ map (\<lambda>A. (?q, astype A float32)) As"
      if s: "fst ?R = Inr ()"
    proof -
      from s validator(3) t7 t8 have r: "r7 = Inr ()" "r8 = Inr ()"
        "snd ?R = print (CHR 0x0A # ''Export completed successfully!'') [] w8"
        by (auto split: sum.splits)
      from test_inference_calls_on_success[of env ?f tk cls w6] t7 r(1) validator(2)
      obtain As where As: "map Inr As = map (\<lambda>t. pad_sequences (texts_to_sequences tk [t])
                                   (export_max_sequence_length export_CONFIG)) test_texts"
        "set_tensor_calls w7 = set_tensor_calls w @ map (\<lambda>A. (?f, astype A float32)) As"
        by auto
      from test_inference_calls_on_success[of env ?q tk cls w7] t8 r(2)
      obtain Bs where Bs: "map Inr Bs = map (\<lambda>t. pad_sequences (texts_to_sequences tk [t])
                                   (export_max_sequence_length export_CONFIG)) test_texts"
        "set_tensor_calls w8 = set_tensor_calls w7 @ map (\<lambda>A. (?q, astype A float32)) Bs"
        by auto
      from As(1) Bs(1) have "map Inr As = (map Inr Bs :: (exn + ndarray) list)" by simp
      then have "As = Bs" by (simp add: inj_map_eq_map)
      with As Bs r(3) validator(1) show ?thesis by (auto simp: world_simps)
    qed
    from all ok show ?thesis by blast
  qed
qed

lemma succeeding_validator:
  "files w' p = Some (TfliteFile b) \<Longrightarrow>
     fst (test_inference succeeding_tflite p (fitted example_df) [''greeting'', ''time''] w') = Inr ()"
  by (intro validator_passes[where b = b]) (simp_all add: succeeding_tflite_def np_argmax_def)

theorem validator_feeds_float32_witness:
  "(\<exists>ds. create_representative_dataset (fitted example_df) = Inr ds \<and>
      inference_input_type ((from_keras_model example_model)
            \<lparr>optimizations := [DEFAULT], representative_dataset := Some ds,
             supported_ops := [TFLITE_BUILTINS_INT8],
             inference_input_type := int8, inference_output_type := int8\<rparr>) = int8 \<and>
      convert succeeding_tflite ((from_keras_model example_model)
            \<lparr>optimizations := [DEFAULT], representative_dataset := Some ds,
             supported_ops := [TFLITE_BUILTINS_INT8],
             inference_input_type := int8, inference_output_type := int8\<rparr>) = Inr [7, 8, 9])
   \<and> files (snd (export_tflite_model succeeding_tflite trained_world))
        (tflite_quantized_path export_CONFIG) = Some (TfliteFile [7, 8, 9])
   \<and> fst (export_tflite_model succeeding_tflite trained_world) = Inr ()
   \<and> (\<exists>As. length As = 4 \<and>
        set_tensor_calls (snd (export_tflite_model succeeding_tflite trained_world))
          = map (\<lambda>A. (tflite_model_path export_CONFIG, astype A float32)) As
            @ map (\<lambda>A. (tflite_quantized_path export_CONFIG, astype A float32)) As)"
proof -
  from fitted_representative_dataset[of example_df] obtain ds where
    ds: "create_representative_dataset (fitted example_df) = Inr ds" by blast
  let ?cq = "(from_keras_model example_model)
            \<lparr>optimizations := [DEFAULT], representative_dataset := Some ds,
             supported_ops := [TFLITE_BUILTINS_INT8],
             inference_input_type := int8, inference_output_type := int8\<rparr>"
  have c1: "convert succeeding_tflite (from_keras_model example_model) = Inr [1, 2, 3, 4]"
    by (simp add: succeeding_tflite_def from_keras_model_def)
  have c2: "convert succeeding_tflite ?cq = Inr [7, 8, 9]"
    by (simp add: succeeding_tflite_def from_keras_model_def)
  have ne: "[7, 8, 9] \<noteq> ([] :: nat list)" by simp
  have ok: "fst (export_tflite_model succeeding_tflite trained_world) = Inr ()"
    "files (snd (export_tflite_model succeeding_tflite trained_world))
        (tflite_quantized_path export_CONFIG) = Some (TfliteFile [7, 8, 9])"
    by (rule quantization_success[OF trained_world_loads c1 ds c2 ne]; erule succeeding_validator)+
  from validator_feeds_float32[of succeeding_tflite trained_world, THEN conjunct2, rule_format, OF ok(1)]
  obtain tk cls As where
    As: "map Inr As = map (\<lambda>t. pad_sequences (texts_to_sequences tk [t])
                                   (export_max_sequence_length export_CONFIG)) test_texts"
    "set_tensor_calls (snd (export_tflite_model succeeding_tflite trained_world))
             = set_tensor_calls trained_world
               @ map (\<lambda>A. (tflite_model_path export_CONFIG, astype A float32)) As
               @ map (\<lambda>A. (tflite_quantized_path export_CONFIG, astype A float32)) As"
    by (elim exE conjE)
  from As(1) have "length (map Inr As :: (exn + ndarray) list) = length test_texts" by simp
  then have l: "length As = 4" by (simp add: test_texts_def)
  have e: "set_tensor_calls trained_world = []" by (simp add: trained_world_def)
  have i: "inference_input_type ?cq = int8" by simp
  from ds c2 i ok l As(2) e show ?thesis by auto
qed

section \<open>The training run\<close>

lemma ModelCheckpoint_files:
  "p \<noteq> filepath \<Longrightarrow> files (snd (ModelCheckpoint_on_epoch_end filepath lg st w)) p = files w p"
  by (simp add: ModelCheckpoint_on_epoch_end_def Let_def world_simps)

lemma ModelCheckpoint_fst_world:
  "fst (ModelCheckpoint_on_epoch_end filepath lg st w) = fst (ModelCheckpoint_on_epoch_end filepath lg st w')"
  by (simp add: ModelCheckpoint_on_epoch_end_def Let_def)

lemma ModelCheckpoint_other:
  "stdout (snd (ModelCheckpoint_on_epoch_end filepath lg st w)) = stdout w"
  "set_tensor_calls (snd (ModelCheckpoint_on_epoch_end filepath lg st w)) = set_tensor_calls w"
  "dirs (snd (ModelCheckpoint_on_epoch_end filepath lg st w)) = dirs w"
  by (simp_all add: ModelCheckpoint_on_epoch_end_def Let_def write_file_def)

lemma fit_loop_files:
  "p \<noteq> model_save_path CONFIG \<Longrightarrow>
     files (snd (fit_loop env Xt yt Xv yv es st w)) p = files w p"
proof (induction es arbitrary: st w)
  case Nil
  then show ?case by simp
next
  case (Cons e es)
  show ?case
    using Cons.prems
    by (simp add: Let_def Cons.IH ModelCheckpoint_files split: sum.splits prod.splits)
qed

lemma fit_loop_fst_world:
  "fst (fit_loop env Xt yt Xv yv es st w) = fst (fit_loop env Xt yt Xv yv es st w')"
proof (induction es arbitrary: st w w')
  case Nil
  then show ?case by simp
next
  case (Cons e es)
  have c: "fst (ModelCheckpoint_on_epoch_end (model_save_path CONFIG) lg st' w)
      = fst (ModelCheckpoint_on_epoch_end (model_save_path CONFIG) lg st' w')" for lg st'
    by (rule ModelCheckpoint_fst_world)
  show ?case
    by (simp add: Let_def c split: sum.splits prod.splits) (auto intro: Cons.IH)
qed

lemma fit_fst:
  "fst (fit env m Xt yt Xv yv w) =
     (case fst (fit_loop env Xt yt Xv yv [0 ..< epochs CONFIG] (initial_fit_state m) w) of
        Inl e \<Rightarrow> Inl e | Inr st \<Rightarrow> Inr (the_model st, history st))"
  by (simp add: fit_def initial_fit_state_def split: prod.splits sum.splits)

lemma fit_snd:
  "snd (fit env m Xt yt Xv yv w) =
     snd (fit_loop env Xt yt Xv yv [0 ..< epochs CONFIG] (initial_fit_state m) w)"
  by (simp add: fit_def initial_fit_state_def split: prod.splits sum.splits)

lemma fit_files:
  "p \<noteq> model_save_path CONFIG \<Longrightarrow> files (snd (fit env m Xt yt Xv yv w)) p = files w p"
  by (simp add: fit_snd fit_loop_files)

lemma fit_fst_world:
  "fst (fit env m Xt yt Xv yv w) = fst (fit env m Xt yt Xv yv w')"
  by (simp add: fit_fst fit_loop_fst_world[of env Xt yt Xv yv _ _ w w'])

lemma train_paths_distinct:
  "tokenizer_save_path CONFIG \<noteq> model_save_path CONFIG"
  "label_encoder_save_path CONFIG \<noteq> model_save_path CONFIG"
  "tokenizer_save_path CONFIG \<noteq> label_encoder_save_path CONFIG"
  "label_encoder_save_path CONFIG \<noteq> tokenizer_save_path CONFIG"
  "tokenizer_save_path CONFIG \<noteq> ''models/training_history.json''"
  "label_encoder_save_path CONFIG \<noteq> ''models/training_history.json''"
  "model_save_path CONFIG \<noteq> tokenizer_save_path CONFIG"
  "model_save_path CONFIG \<noteq> label_encoder_save_path CONFIG"
  "model_save_path CONFIG \<noteq> ''models/training_history.json''"
  by (simp_all add: CONFIG_def)

text \<open>The run from the call of \<open>model.fit\<close> on, once preprocessing, the split and the
  construction of the model have returned.\<close>

lemma train_model_on_from_fit:
  assumes "preprocess_data df = Inr (X, y, tk, le)"
    and "train_test_split env X y = Inr (Xt, Xv, yt, yv)"
    and "create_model env (min (length (word_index tk) + 1) (max_vocab_size CONFIG))
           (length (classes le)) = Inr m"
  shows "train_model_on env df w0 =
     (case fit env m Xt yt Xv yv
        (print ''Training model...'' []
        (print ''Creating model...'' []
        (print ''Validation samples: {}'' [Nat (length (rows Xv))]
        (print ''Training samples: {}'' [Nat (length (rows Xt))]
        (print ''Preprocessing data...'' []
        (print ''Loaded {} samples with {} unique intents''
                [Nat (length df), Nat (length (remdups (column_intent df)))]
        (print ''Loading data...'' [] (makedirs ''models'' w0)))))))) of
        (Inl e, w) \<Rightarrow> (Inl e, w)
      | (Inr (model, history'), w) \<Rightarrow>
          (case evaluate env model Xv yv of
             Inl e \<Rightarrow> (Inl e,
               print ''Evaluating model...'' []
               (write_file (label_encoder_save_path CONFIG) (LabelEncoderJson (classes le))
               (print ''Saving label encoder...'' []
               (write_file (tokenizer_save_path CONFIG) (TokenizerJson tk)
               (print ''Saving tokenizer...'' [] w)))))
           | Inr (val_loss', val_accuracy') \<Rightarrow> (Inr (),
               print ''Label encoder saved to: {}'' [Str (label_encoder_save_path CONFIG)]
               (print ''Tokenizer saved to: {}'' [Str (tokenizer_save_path CONFIG)]
               (print ''Model saved to: {}'' [Str (model_save_path CONFIG)]
               (print ''Training completed successfully!'' []
               (write_file ''models/training_history.json'' (HistoryJson history')
               (print ''Validation Accuracy: {:.4f}'' [Real val_accuracy']
               (print ''Validation Loss: {:.4f}'' [Real val_loss']
               (print ''Evaluating model...'' []
               (write_file (label_encoder_save_path CONFIG) (LabelEncoderJson (classes le))
               (print ''Saving label encoder...'' []
               (write_file (tokenizer_save_path CONFIG) (TokenizerJson tk)
               (print ''Saving tokenizer...'' [] w))))))))))))))"
  unfolding train_model_on_def Let_def assms sum.case prod.case
  by (rule refl)

lemma fit_failure_aborts_training:
  assumes "preprocess_data df = Inr (X, y, tk, le)"
    and "train_test_split env X y = Inr (Xt, Xv, yt, yv)"
    and "create_model env (min (length (word_index tk) + 1) (max_vocab_size CONFIG))
           (length (classes le)) = Inr m"
    and "fst (fit env m Xt yt Xv yv w) = Inl e"
  shows "fst (train_model_on env df w) = Inl e"
    and "files (snd (train_model_on env df w)) (tokenizer_save_path CONFIG)
           = files w (tokenizer_save_path CONFIG)"
    and "files (snd (train_model_on env df w)) (label_encoder_save_path CONFIG)
           = files w (label_encoder_save_path CONFIG)"
proof -
  let ?w3 = "print ''Training model...'' []
        (print ''Creating model...'' []
        (print ''Validation samples: {}'' [Nat (length (rows Xv))]
        (print ''Training samples: {}'' [Nat (length (rows Xt))]
        (print ''Preprocessing data...'' []
        (print ''Loaded {} samples with {} unique intents''
                [Nat (length df), Nat (length (remdups (column_intent df)))]
        (print ''Loading data...'' [] (makedirs ''models'' w)))))))"
  obtain r w4 where f: "fit env m Xt yt Xv yv ?w3 = (r, w4)" by (cases "fit env m Xt yt Xv yv ?w3")
  from assms(4) fit_fst_world[of env m Xt yt Xv yv ?w3 w] f have r: "r = Inl e" by simp
  have w4: "files w4 p = files w p" if "p \<noteq> model_save_path CONFIG" for p
    using fit_files[OF that, of env m Xt yt Xv yv ?w3] f by (simp add: world_simps)
  have R: "train_model_on env df w = (Inl e, w4)"
    unfolding train_model_on_from_fit[OF assms(1-3)] f r by simp
  show "fst (train_model_on env df w) = Inl e" by (simp add: R)
  show "files (snd (train_model_on env df w)) (tokenizer_save_path CONFIG)
           = files w (tokenizer_save_path CONFIG)"
    by (simp add: R w4 train_paths_distinct)
  show "files (snd (train_model_on env df w)) (label_encoder_save_path CONFIG)
           = files w (label_encoder_save_path CONFIG)"
    by (simp add: R w4 train_paths_distinct)
qed

lemma fit_return_persists:
  assumes "preprocess_data df = Inr (X, y, tk, le)"
    and "train_test_split env X y = Inr (Xt, Xv, yt, yv)"
    and "create_model env (min (length (word_index tk) + 1) (max_vocab_size CONFIG))
           (length (classes le)) = Inr m"
    and "fst (fit env m Xt yt Xv yv w) = Inr (m', h)"
  shows "files (snd (train_model_on env df w)) (tokenizer_save_path CONFIG)
           = Some (TokenizerJson tk)"
    and "files (snd (train_model_on env df w)) (label_encoder_save_path CONFIG)
           = Some (LabelEncoderJson (classes le))"
    and "fst (train_model_on env df w) = (case evaluate env m' Xv yv of Inl e \<Rightarrow> Inl e | Inr r \<Rightarrow> Inr ())"
proof -
  let ?w3 = "print ''Training model...'' []
        (print ''Creating model...'' []
        (print ''Validation samples: {}'' [Nat (length (rows Xv))]
        (print ''Training samples: {}'' [Nat (length (rows Xt))]
        (print ''Preprocessing data...'' []
        (print ''Loaded {} samples with {} unique intents''
                [Nat (length df), Nat (length (remdups (column_intent df)))]
        (print ''Loading data...'' [] (makedirs ''models'' w)))))))"
  obtain r w4 where f: "fit env m Xt yt Xv yv ?w3 = (r, w4)" by (cases "fit env m Xt yt Xv yv ?w3")
  from assms(4) fit_fst_world[of env m Xt yt Xv yv ?w3 w] f have r: "r = Inr (m', h)" by simp
  note R = train_model_on_from_fit[OF assms(1-3), of w, unfolded f r]
  show "files (snd (train_model_on env df w)) (tokenizer_save_path CONFIG)
           = Some (TokenizerJson tk)"
    by (simp add: R world_simps train_paths_distinct split: sum.splits)
  show "files (snd (train_model_on env df w)) (label_encoder_save_path CONFIG)
           = Some (LabelEncoderJson (classes le))"
    by (simp add: R world_simps train_paths_distinct split: sum.splits)
  show "fst (train_model_on env df w) = (case evaluate env m' Xv yv of Inl e \<Rightarrow> Inl e | Inr r \<Rightarrow> Inr ())"
    by (simp add: R split: sum.splits)
qed

lemma EarlyStopping_keeps:
  "embedding_input_dim (the_model (EarlyStopping_on_epoch_end pt e lg st)) = embedding_input_dim (the_model st)"
  "mc_best (EarlyStopping_on_epoch_end pt e lg st) = mc_best st"
  by (simp_all add: EarlyStopping_on_epoch_end_def Let_def split: option.splits)

lemma ReduceLROnPlateau_keeps:
  "embedding_input_dim (the_model (ReduceLROnPlateau_on_epoch_end f pt ml lg st)) = embedding_input_dim (the_model st)"
  "mc_best (ReduceLROnPlateau_on_epoch_end f pt ml lg st) = mc_best st"
  "stop_training (ReduceLROnPlateau_on_epoch_end f pt ml lg st) = stop_training st"
  by (simp_all add: ReduceLROnPlateau_on_epoch_end_def Let_def)

lemma ModelCheckpoint_keeps:
  "the_model (fst (ModelCheckpoint_on_epoch_end p lg st w)) = the_model st"
  "mc_best (fst (ModelCheckpoint_on_epoch_end p lg st w)) \<noteq> None"
  "files (snd (ModelCheckpoint_on_epoch_end p lg st w)) p =
     (if mc_best (fst (ModelCheckpoint_on_epoch_end p lg st w)) = mc_best st then files w p
      else Some (ModelFile (the_model st)))"
  by (auto simp: ModelCheckpoint_on_epoch_end_def Let_def world_simps split: option.splits)

lemma fit_loop_checkpoint:
  assumes "fst (fit_loop env Xt yt Xv yv es st w) = Inr st'"
    and "embedding_input_dim (the_model st) = d"
    and "mc_best st \<noteq> None \<longrightarrow>
           (\<exists>mm. files w (model_save_path CONFIG) = Some (ModelFile mm) \<and> embedding_input_dim mm = d)"
    and "es \<noteq> [] \<or> mc_best st \<noteq> None"
  shows "\<exists>mm. files (snd (fit_loop env Xt yt Xv yv es st w)) (model_save_path CONFIG) = Some (ModelFile mm) \<and>
           embedding_input_dim mm = d"
  using assms
proof (induction es arbitrary: st w)
  case Nil
  then show ?case by simp
next
  case (Cons e es)
  from Cons.prems(1) obtain ws lg where
    te: "train_epoch env (the_model st) Xt yt Xv yv e = Inr (ws, lg)"
    by (auto split: sum.splits)
  define st1 where "st1 = st\<lparr>the_model := (the_model st)\<lparr>weights := ws\<rparr>\<rparr>"
  define st2 where "st2 = EarlyStopping_on_epoch_end 10 e lg st1"
  define st3 where "st3 = fst (ModelCheckpoint_on_epoch_end (model_save_path CONFIG) lg st2 w)"
  define w3 where "w3 = snd (ModelCheckpoint_on_epoch_end (model_save_path CONFIG) lg st2 w)"
  define st4 where "st4 = ReduceLROnPlateau_on_epoch_end (1 / 2) 5 (1 / 1000000) lg st3"
  define st5 where "st5 = st4\<lparr>history := history st4 @ [lg]\<rparr>"
  have step: "fit_loop env Xt yt Xv yv (e # es) st w =
      (if stop_training st5 then (Inr st5, w3) else fit_loop env Xt yt Xv yv es st5 w3)"
    by (simp add: te Let_def st1_def st2_def st3_def w3_def st4_def st5_def)
  have d2: "embedding_input_dim (the_model st2) = d" "mc_best st2 = mc_best st"
    using Cons.prems(2) by (simp_all add: st2_def st1_def EarlyStopping_keeps)
  have d5: "embedding_input_dim (the_model st5) = d" "mc_best st5 \<noteq> None"
    using d2 by (simp_all add: st5_def st4_def st3_def ReduceLROnPlateau_keeps ModelCheckpoint_keeps)
  have f3: "\<exists>mm. files w3 (model_save_path CONFIG) = Some (ModelFile mm) \<and> embedding_input_dim mm = d"
  proof (cases "mc_best st3 = mc_best st2")
    case True
    have "mc_best st3 \<noteq> None" by (simp add: st3_def ModelCheckpoint_keeps(2))
    with True d2(2) have "mc_best st \<noteq> None" by simp
    with Cons.prems(3) have "\<exists>mm. files w (model_save_path CONFIG) = Some (ModelFile mm) \<and>
        embedding_input_dim mm = d" by simp
    moreover have "files w3 (model_save_path CONFIG) = files w (model_save_path CONFIG)"
      using True unfolding w3_def st3_def by (simp add: ModelCheckpoint_keeps(3))
    ultimately show ?thesis by simp
  next
    case False
    then have "files w3 (model_save_path CONFIG) = Some (ModelFile (the_model st2))"
      unfolding w3_def st3_def by (simp add: ModelCheckpoint_keeps(3))
    then show ?thesis using d2(1) by simp
  qed
  show ?case
  proof (cases "stop_training st5")
    case True
    then show ?thesis unfolding step using f3 by simp
  next
    case False
    with Cons.prems(1) have r: "fst (fit_loop env Xt yt Xv yv es st5 w3) = Inr st'"
      unfolding step by simp
    from Cons.IH[OF r d5(1)] f3 d5(2) show ?thesis unfolding step using False by simp
  qed
qed

lemma epochs_nonempty: "[0 ..< epochs CONFIG] \<noteq> []"
  by (simp add: CONFIG_def)

lemma fit_checkpoint:
  assumes "fst (fit env m Xt yt Xv yv w) = Inr (m', h)"
  shows "\<exists>mm. files (snd (fit env m Xt yt Xv yv w)) (model_save_path CONFIG) = Some (ModelFile mm) \<and>
           embedding_input_dim mm = embedding_input_dim m"
proof -
  from assms obtain st' where
    "fst (fit_loop env Xt yt Xv yv [0 ..< epochs CONFIG] (initial_fit_state m) w) = Inr st'"
    by (auto simp: fit_fst split: sum.splits)
  from fit_loop_checkpoint[OF this, of "embedding_input_dim m"] epochs_nonempty
  show ?thesis by (simp add: fit_snd initial_fit_state_def)
qed

lemma fit_loop_total:
  assumes "\<And>m' e. \<exists>r. train_epoch env m' Xt yt Xv yv e = Inr r"
  shows "\<exists>st'. fst (fit_loop env Xt yt Xv yv es st w) = Inr st'"
proof (induction es arbitrary: st w)
  case Nil
  then show ?case by simp
next
  case (Cons e es)
  from assms[of "the_model st" e] obtain ws lg where
    "train_epoch env (the_model st) Xt yt Xv yv e = Inr (ws, lg)" by fastforce
  then show ?case using Cons.IH by (simp add: Let_def)
qed

lemma fit_total:
  assumes "\<And>m' e. \<exists>r. train_epoch env m' Xt yt Xv yv e = Inr r"
  shows "\<exists>m' h. fst (fit env m Xt yt Xv yv w) = Inr (m', h)"
  using fit_loop_total[OF assms, of "[0 ..< epochs CONFIG]" "initial_fit_state m" w]
  by (auto simp: fit_fst)

lemma train_model_on_success_inversion:
  assumes p: "preprocess_data df = Inr (X, y, tk, le)"
    and ok: "fst (train_model_on env df w) = Inr ()"
  shows "\<exists>Xt Xv yt yv m m' h. train_test_split env X y = Inr (Xt, Xv, yt, yv) \<and>
           create_model env (min (length (word_index tk) + 1) (max_vocab_size CONFIG))
             (length (classes le)) = Inr m \<and>
           fst (fit env m Xt yt Xv yv w) = Inr (m', h)"
proof (cases "train_test_split env X y")
  case (Inl e)
  have "fst (train_model_on env df w) = Inl e"
    unfolding train_model_on_def Let_def p Inl sum.case prod.case by simp
  with ok show ?thesis by simp
next
  case (Inr s)
  then obtain Xt Xv yt yv where s: "train_test_split env X y = Inr (Xt, Xv, yt, yv)"
    by (cases s) auto
  show ?thesis
  proof (cases "create_model env (min (length (word_index tk) + 1) (max_vocab_size CONFIG))
             (length (classes le))")
    case (Inl e)
    have "fst (train_model_on env df w) = Inl e"
      unfolding train_model_on_def Let_def p s Inl sum.case prod.case by simp
    with ok show ?thesis by simp
  next
    case m: (Inr m)
    show ?thesis
    proof (cases "fst (fit env m Xt yt Xv yv w)")
      case (Inl e)
      from fit_failure_aborts_training(1)[OF p s m Inl] ok show ?thesis by simp
    next
      case (Inr mh)
      then obtain m' h where "fst (fit env m Xt yt Xv yv w) = Inr (m', h)" by (cases mh) auto
      with s m show ?thesis by blast
    qed
  qed
qed

lemma failing_keras_fit:
  "fst (fit failing_keras m Xt yt Xv yv w) = Inl (FrameworkError ''out of memory'')"
proof -
  have "[0 ..< epochs CONFIG] = 0 # [Suc 0 ..< epochs CONFIG]"
    by (simp add: CONFIG_def upt_conv_Cons)
  then show ?thesis
    by (simp add: fit_fst failing_keras_def)
qed

text \<open>
  Claim C2, as the spec states it, fails: the two files are written at lines 263-275, after
  \<open>model.fit\<close> has returned. With a framework whose first epoch raises, the run of
  \<open>train_model\<close> from an empty disk ends with that exception and leaves neither file.
\<close>

theorem training_failure_leaves_no_files:
  "fst (train_model failing_keras empty_world) = Inl (FrameworkError ''out of memory'') \<and>
   files (snd (train_model failing_keras empty_world)) (tokenizer_save_path CONFIG) = None \<and>
   files (snd (train_model failing_keras empty_world)) (label_encoder_save_path CONFIG) = None"
proof -
  from preprocess_data_returns[of load_data] obtain x y where
    p: "preprocess_data load_data =
      Inr (\<lparr>dtype = int32, rows = x\<rparr>, y, fitted load_data,
           \<lparr>classes = sort (remdups (column_intent load_data))\<rparr>)" by blast
  have s: "train_test_split failing_keras \<lparr>dtype = int32, rows = x\<rparr> y
      = Inr (\<lparr>dtype = int32, rows = x\<rparr>, \<lparr>dtype = int32, rows = x\<rparr>, y, y)"
    by (simp add: failing_keras_def succeeding_keras_def)
  obtain m where m: "create_model failing_keras
      (min (length (word_index (fitted load_data)) + 1) (max_vocab_size CONFIG))
      (length (classes \<lparr>classes = sort (remdups (column_intent load_data))\<rparr>)) = Inr m"
    by (simp add: create_model_def failing_keras_def succeeding_keras_def)
  note a = fit_failure_aborts_training[OF p s m failing_keras_fit, of empty_world]
  have e: "files empty_world q = None" for q by (simp add: empty_world_def)
  from a show ?thesis by (simp add: train_model_def e)
qed

text \<open>
  Claim C2, amended. The fitted tokenizer and the classes list are written after
  \<open>model.fit\<close> has returned, not before it. Once preprocessing, the split and the
  construction of the model have returned: when \<open>model.fit\<close> raises, the run ends with that
  exception and the two files are what they were before the run; when \<open>model.fit\<close>
  returns, the two files hold the fitted tokenizer and the classes list at the end of
  the run, also when the evaluation after them raises.
\<close>

theorem persisted_after_training:
  assumes "preprocess_data df = Inr (X, y, tk, le)"
    and "train_test_split env X y = Inr (Xt, Xv, yt, yv)"
    and "create_model env (min (length (word_index tk) + 1) (max_vocab_size CONFIG))
           (length (classes le)) = Inr m"
  shows "(\<forall>e. fst (fit env m Xt yt Xv yv w) = Inl e \<longrightarrow>
            fst (train_model_on env df w) = Inl e \<and>
            files (snd (train_model_on env df w)) (tokenizer_save_path CONFIG)
              = files w (tokenizer_save_path CONFIG) \<and>
            files (snd (train_model_on env df w)) (label_encoder_save_path CONFIG)
              = files w (label_encoder_save_path CONFIG))
       \<and> (\<forall>m' h. fst (fit env m Xt yt Xv yv w) = Inr (m', h) \<longrightarrow>
            files (snd (train_model_on env df w)) (tokenizer_save_path CONFIG)
              = Some (TokenizerJson tk) \<and>
            files (snd (train_model_on env df w)) (label_encoder_save_path CONFIG)
              = Some (LabelEncoderJson (classes le)))"
  using fit_failure_aborts_training[OF assms] fit_return_persists(1,2)[OF assms]
  by blast

lemma succeeding_keras_fit:
  "\<exists>m' h. fst (fit succeeding_keras m Xt yt Xv yv w) = Inr (m', h)"
  by (rule fit_total) (simp add: succeeding_keras_def)

lemma succeeding_keras_trains:
  "fst (train_model_on succeeding_keras df w) = Inr ()"
proof -
  from preprocess_data_returns[of df] obtain x y where
    p: "preprocess_data df =
      Inr (\<lparr>dtype = int32, rows = x\<rparr>, y, fitted df,
           \<lparr>classes = sort (remdups (column_intent df))\<rparr>)" by blast
  have s: "train_test_split succeeding_keras \<lparr>dtype = int32, rows = x\<rparr> y
      = Inr (\<lparr>dtype = int32, rows = x\<rparr>, \<lparr>dtype = int32, rows = x\<rparr>, y, y)"
    by (simp add: succeeding_keras_def)
  obtain m where m: "create_model succeeding_keras
      (min (length (word_index (fitted df)) + 1) (max_vocab_size CONFIG))
      (length (classes \<lparr>classes = sort (remdups (column_intent df))\<rparr>)) = Inr m"
    by (simp add: create_model_def succeeding_keras_def)
  from succeeding_keras_fit obtain m' h where
    f: "fst (fit succeeding_keras m \<lparr>dtype = int32, rows = x\<rparr> y \<lparr>dtype = int32, rows = x\<rparr> y w) = Inr (m', h)"
    by blast
  from fit_return_persists(3)[OF p s m f] show ?thesis by (simp add: succeeding_keras_def)
qed

theorem persisted_after_training_witness:
  "fst (train_model_on succeeding_keras example_df empty_world) = Inr () \<and>
   files (snd (train_model_on succeeding_keras example_df empty_world)) (tokenizer_save_path CONFIG)
     = Some (TokenizerJson (fitted example_df)) \<and>
   (\<exists>cls. files (snd (train_model_on succeeding_keras example_df empty_world))
             (label_encoder_save_path CONFIG) = Some (LabelEncoderJson cls)) \<and>
   fst (train_model_on failing_keras example_df empty_world) = Inl (FrameworkError ''out of memory'') \<and>
   files (snd (train_model_on failing_keras example_df empty_world)) (tokenizer_save_path CONFIG)
     = files empty_world (tokenizer_save_path CONFIG)"
proof -
  from preprocess_data_returns[of example_df] obtain x y where
    p: "preprocess_data example_df =
      Inr (\<lparr>dtype = int32, rows = x\<rparr>, y, fitted example_df,
           \<lparr>classes = sort (remdups (column_intent example_df))\<rparr>)" by blast
  let ?X = "\<lparr>dtype = int32, rows = x\<rparr>"
  have s: "train_test_split succeeding_keras ?X y = Inr (?X, ?X, y, y)"
    by (simp add: succeeding_keras_def)
  have s': "train_test_split failing_keras ?X y = Inr (?X, ?X, y, y)"
    by (simp add: failing_keras_def succeeding_keras_def)
  obtain m where m: "create_model succeeding_keras
      (min (length (word_index (fitted example_df)) + 1) (max_vocab_size CONFIG))
      (length (classes \<lparr>classes = sort (remdups (column_intent example_df))\<rparr>)) = Inr m"
    by (simp add: create_model_def succeeding_keras_def)
  then have m': "create_model failing_keras
      (min (length (word_index (fitted example_df)) + 1) (max_vocab_size CONFIG))
      (length (classes \<lparr>classes = sort (remdups (column_intent example_df))\<rparr>)) = Inr m"
    by (simp add: create_model_def failing_keras_def succeeding_keras_def)
  from succeeding_keras_fit obtain m2 h where
    f: "fst (fit succeeding_keras m ?X y ?X y empty_world) = Inr (m2, h)" by blast
  from persisted_after_training[OF p s m, of empty_world] f
  have a: "files (snd (train_model_on succeeding_keras example_df empty_world)) (tokenizer_save_path CONFIG)
     = Some (TokenizerJson (fitted example_df))"
    "\<exists>cls. files (snd (train_model_on succeeding_keras example_df empty_world))
             (label_encoder_save_path CONFIG) = Some (LabelEncoderJson cls)"
    by auto
  from persisted_after_training[OF p s' m', of empty_world] failing_keras_fit
  have b: "fst (train_model_on failing_keras example_df empty_world) = Inl (FrameworkError ''out of memory'')"
    "files (snd (train_model_on failing_keras example_df empty_world)) (tokenizer_save_path CONFIG)
     = files empty_world (tokenizer_save_path CONFIG)"
    by auto
  from a b succeeding_keras_trains show ?thesis by simp
qed

text \<open>
  Claim C5. For every data frame, preprocessing returns a label encoder such that every
  label \<open>L\<close> of the \<open>intent\<close> column is encoded to an index \<open>i\<close> within the classes list
  whose entry \<open>i\<close> is \<open>L\<close> again; and when a training run completes, the list in the file
  at \<open>label_encoder_save_path\<close> is that classes list.
\<close>

theorem label_round_trip:
  "\<exists>X y tk le. preprocess_data df = Inr (X, y, tk, le) \<and>
     (\<forall>L\<in>set (column_intent df). \<exists>i.
         transform le [L] = Inr [i] \<and> i < length (classes le) \<and> classes le ! i = L) \<and>
     (fst (train_model_on env df w) = Inr () \<longrightarrow>
        files (snd (train_model_on env df w)) (label_encoder_save_path CONFIG)
          = Some (LabelEncoderJson (classes le)))"
proof -
  let ?le = "\<lparr>classes = sort (remdups (column_intent df))\<rparr>"
  from preprocess_data_returns[of df] obtain x y where
    p: "preprocess_data df = Inr (\<lparr>dtype = int32, rows = x\<rparr>, y, fitted df, ?le)" by blast
  have rt: "\<forall>L\<in>set (column_intent df). \<exists>i.
         transform ?le [L] = Inr [i] \<and> i < length (classes ?le) \<and> classes ?le ! i = L"
  proof
    fix L assume "L \<in> set (column_intent df)"
    then have "L \<in> set (classes ?le)" by simp
    from index_of_mem[OF this] obtain i where
      "index_of (classes ?le) L = Some i" "i < length (classes ?le)" "classes ?le ! i = L" by blast
    then show "\<exists>i. transform ?le [L] = Inr [i] \<and> i < length (classes ?le) \<and> classes ?le ! i = L"
      by (intro exI[of _ i]) simp
  qed
  have ps: "files (snd (train_model_on env df w)) (label_encoder_save_path CONFIG)
          = Some (LabelEncoderJson (classes ?le))" if ok: "fst (train_model_on env df w) = Inr ()"
  proof -
    from train_model_on_success_inversion[OF p ok] obtain Xt Xv yt yv m m' h where
      "train_test_split env \<lparr>dtype = int32, rows = x\<rparr> y = Inr (Xt, Xv, yt, yv)"
      "create_model env (min (length (word_index (fitted df)) + 1) (max_vocab_size CONFIG))
             (length (classes ?le)) = Inr m"
      "fst (fit env m Xt yt Xv yv w) = Inr (m', h)" by blast
    from fit_return_persists(2)[OF p this] show ?thesis .
  qed
  from p rt ps show ?thesis by blast
qed

theorem label_round_trip_witness:
  "fst (train_model_on succeeding_keras example_df empty_world) = Inr () \<and>
   ''time'' \<in> set (column_intent example_df) \<and>
   (\<exists>cls i. files (snd (train_model_on succeeding_keras example_df empty_world))
        (label_encoder_save_path CONFIG) = Some (LabelEncoderJson cls) \<and>
      transform \<lparr>classes = cls\<rparr> [''time''] = Inr [i] \<and> cls ! i = ''time'')"
proof -
  have t: "''time'' \<in> set (column_intent example_df)"
    by (simp add: example_df_def column_intent_def)
  from label_round_trip[of example_df succeeding_keras empty_world] succeeding_keras_trains t
  obtain X y tk le i where
    "transform le [''time''] = Inr [i]" "classes le ! i = ''time''"
    "files (snd (train_model_on succeeding_keras example_df empty_world))
        (label_encoder_save_path CONFIG) = Some (LabelEncoderJson (classes le))"
    by blast
  moreover have "\<lparr>classes = classes le\<rparr> = le" by simp
  ultimately show ?thesis using succeeding_keras_trains t by (metis (no_types))
qed

section \<open>The size of the vocabulary\<close>

lemma split_no_sep: "sep \<notin> set s \<Longrightarrow> split sep s = [s]"
  by (induction s) auto

lemma distinct_word_tokens: "text_to_word_sequence (distinct_word k) = [distinct_word k]"
proof -
  have l: "lower (distinct_word k) = distinct_word k"
    by (simp add: lower_def distinct_word_def lower_char_def)
  have f: "map (\<lambda>c. if c \<in> set filters then CHR '' '' else c) (distinct_word k) = distinct_word k"
    by (simp add: distinct_word_def filters_def)
  have "CHR '' '' \<notin> set (distinct_word k)" by (simp add: distinct_word_def)
  then have s: "split CHR '' '' (distinct_word k) = [distinct_word k]" by (rule split_no_sep)
  have ne: "distinct_word k \<noteq> []" by (simp add: distinct_word_def)
  show ?thesis by (simp add: text_to_word_sequence_def l f s ne)
qed

lemma large_df_words: "corpus_words (column_text large_df) = map distinct_word [0 ..< 10000]"
proof -
  have "concat (map (\<lambda>k. [distinct_word k]) xs) = map distinct_word xs" for xs
    by (induction xs) auto
  then show ?thesis
    by (simp add: corpus_words_def column_text_def large_df_def comp_def distinct_word_tokens)
qed

lemma large_df_distinct_words: "card (set (corpus_words (column_text large_df))) = 10000"
proof -
  have "inj distinct_word"
  proof (rule injI)
    fix j k assume "distinct_word j = distinct_word k"
    then have "length (distinct_word j) = length (distinct_word k)" by simp
    then show "j = k" by (simp add: distinct_word_def)
  qed
  then have "distinct (map distinct_word [0 ..< 10000])"
    by (simp add: distinct_map inj_on_def inj_def)
  then have "card (set (map distinct_word [0 ..< 10000])) = length (map distinct_word [0 ..< 10000])"
    by (rule distinct_card)
  then show ?thesis by (simp add: large_df_words)
qed

lemma fitted_word_index_length:
  "length (word_index (fitted df)) = card (set (corpus_words (column_text df))) + 1"
proof -
  have "''<OOV>'' \<notin> set (corpus_words (column_text df))"
    using oov_not_token by (auto simp: corpus_words_def)
  then show ?thesis unfolding fitted_def by (rule fit_word_index_length)
qed

text \<open>
  Claim C3, as the spec states it, fails: the dictionary \<open>word_index\<close> keeps every token.
  On a corpus of 10000 texts, each one new word, the tokenizer that \<open>preprocess_data\<close>
  returns has 10001 entries, one more than \<open>max_vocab_size\<close>.
\<close>

theorem vocabulary_exceeds_cap:
  "(\<exists>X y le. preprocess_data large_df = Inr (X, y, fitted large_df, le)) \<and>
   length (word_index (fitted large_df)) = 10001 \<and>
   max_vocab_size CONFIG = 10000 \<and>
   \<not> length (word_index (fitted large_df)) \<le> max_vocab_size CONFIG"
proof -
  from preprocess_data_returns[of large_df]
  have "\<exists>X y le. preprocess_data large_df = Inr (X, y, fitted large_df, le)" by blast
  moreover have "length (word_index (fitted large_df)) = 10001"
    by (simp add: fitted_word_index_length large_df_distinct_words)
  moreover have "max_vocab_size CONFIG = 10000" by (simp add: CONFIG_def)
  ultimately show ?thesis by simp
qed

lemma pad_rows_bound:
  assumes "pad_rows ss n = Inr x"
    and "\<forall>s\<in>set ss. \<forall>v\<in>set s. \<exists>i. v = Some i \<and> i < N"
    and "0 < N"
  shows "\<forall>r\<in>set x. \<forall>i\<in>set r. i < N"
  using assms
proof (induction ss arbitrary: x)
  case Nil
  then show ?case by simp
next
  case (Cons s ss)
  from Cons.prems(1) obtain trunc x' where
    t: "asarray_int32 (take n s) = Inr trunc" and r: "pad_rows ss n = Inr x'"
    and x: "x = (trunc @ replicate (n - length trunc) 0) # x'"
    by (auto split: sum.splits)
  from asarray_int32_Inr[OF t] have ts: "take n s = map Some trunc" by simp
  have "\<forall>i\<in>set trunc. i < N"
  proof
    fix i assume "i \<in> set trunc"
    then have "Some i \<in> set (take n s)" by (simp add: ts)
    then have "Some i \<in> set s" by (rule in_set_takeD)
    with Cons.prems(2) show "i < N" by auto
  qed
  moreover from Cons.IH[OF r] Cons.prems(2,3) have "\<forall>r\<in>set x'. \<forall>i\<in>set r. i < N" by simp
  ultimately show ?case using x Cons.prems(3) by auto
qed

text \<open>
  Claim C3, amended. After fitting, the dictionary has one entry for each distinct token
  of the corpus and one for the OOV token, whatever \<open>max_vocab_size\<close> is. The cap is
  applied where the dictionary is used: every id in the padded sequences that
  preprocessing returns is below \<open>max_vocab_size\<close>, and a model built with the vocabulary
  size of train_model.py:225 has an embedding input size of at most \<open>max_vocab_size\<close>.
\<close>

theorem emitted_ids_capped:
  "\<exists>X y tk le. preprocess_data df = Inr (X, y, tk, le) \<and>
     length (word_index tk) = card (set (corpus_words (column_text df))) + 1 \<and>
     (\<forall>r\<in>set (rows X). \<forall>i\<in>set r. i < max_vocab_size CONFIG) \<and>
     (\<forall>env m. create_model env (min (length (word_index tk) + 1) (max_vocab_size CONFIG))
                 (length (classes le)) = Inr m \<longrightarrow>
               embedding_input_dim m \<le> max_vocab_size CONFIG)"
proof -
  let ?seqs = "texts_to_sequences (fitted df) (column_text df)"
  from preprocess_data_returns[of df] obtain x y where
    p: "preprocess_data df = Inr (\<lparr>dtype = int32, rows = x\<rparr>, y, fitted df,
           \<lparr>classes = sort (remdups (column_intent df))\<rparr>)"
    and x: "pad_rows ?seqs (max_sequence_length CONFIG) = Inr x" by blast
  have "\<forall>s\<in>set ?seqs. \<forall>v\<in>set s. \<exists>i. v = Some i \<and> i < max_vocab_size CONFIG"
  proof (intro ballI)
    fix s v assume "s \<in> set ?seqs" "v \<in> set s"
    then obtain w where "v = word_to_id (fitted df) w" by (auto simp: texts_to_sequences_def)
    with preprocess_tokenizer_ids[of "column_text df" w]
    show "\<exists>i. v = Some i \<and> i < max_vocab_size CONFIG" by (auto simp: fitted_def)
  qed
  moreover have "0 < max_vocab_size CONFIG" by (simp add: CONFIG_def)
  ultimately have b: "\<forall>r\<in>set x. \<forall>i\<in>set r. i < max_vocab_size CONFIG"
    using pad_rows_bound[OF x] by blast
  have c: "embedding_input_dim m \<le> max_vocab_size CONFIG"
    if "create_model env (min (length (word_index (fitted df)) + 1) (max_vocab_size CONFIG)) n = Inr m"
    for env m n
    using that by (auto simp: create_model_def Let_def split: sum.splits)
  from p b c fitted_word_index_length[of df] show ?thesis
    by (intro exI[of _ "\<lparr>dtype = int32, rows = x\<rparr>"] exI[of _ y] exI[of _ "fitted df"]
        exI[of _ "\<lparr>classes = sort (remdups (column_intent df))\<rparr>"]) auto
qed

theorem emitted_ids_capped_witness:
  "\<exists>X y tk le. preprocess_data example_df = Inr (X, y, tk, le) \<and>
     rows X ! 0 ! 0 < max_vocab_size CONFIG \<and>
     (\<exists>m. create_model succeeding_keras (min (length (word_index tk) + 1) (max_vocab_size CONFIG))
            (length (classes le)) = Inr m \<and> embedding_input_dim m \<le> max_vocab_size CONFIG)"
proof -
  from emitted_ids_capped[of example_df] obtain X y tk le where
    p: "preprocess_data example_df = Inr (X, y, tk, le)"
    and b: "\<forall>r\<in>set (rows X). \<forall>i\<in>set r. i < max_vocab_size CONFIG"
    and c: "\<forall>env m. create_model env (min (length (word_index tk) + 1) (max_vocab_size CONFIG))
                 (length (classes le)) = Inr m \<longrightarrow> embedding_input_dim m \<le> max_vocab_size CONFIG"
    by blast
  from preprocess_data_returns[of example_df] p obtain x where
    X: "X = \<lparr>dtype = int32, rows = x\<rparr>"
    and x: "pad_rows (texts_to_sequences (fitted example_df) (column_text example_df))
              (max_sequence_length CONFIG) = Inr x" by auto
  from pad_rows_Inr[OF x] have "length x = 2"
    by (simp add: texts_to_sequences_def column_text_def example_df_def)
  then have x0: "x ! 0 \<in> set x" by simp
  with pad_rows_length[OF x] have "length (x ! 0) = max_sequence_length CONFIG" by blast
  then have "x ! 0 ! 0 \<in> set (x ! 0)" by (simp add: CONFIG_def)
  with b x0 X have r: "rows X ! 0 ! 0 < max_vocab_size CONFIG" by simp
  obtain m where m: "create_model succeeding_keras
      (min (length (word_index tk) + 1) (max_vocab_size CONFIG)) (length (classes le)) = Inr m"
    by (simp add: create_model_def succeeding_keras_def)
  with c have "embedding_input_dim m \<le> max_vocab_size CONFIG" by blast
  with p r m show ?thesis by blast
qed

section \<open>From training to export\<close>

lemma fit_return_checkpoint:
  assumes "preprocess_data df = Inr (X, y, tk, le)"
    and "train_test_split env X y = Inr (Xt, Xv, yt, yv)"
    and "create_model env (min (length (word_index tk) + 1) (max_vocab_size CONFIG))
           (length (classes le)) = Inr m"
    and "fst (fit env m Xt yt Xv yv w) = Inr (m', h)"
  shows "\<exists>mm. files (snd (train_model_on env df w)) (model_save_path CONFIG) = Some (ModelFile mm) \<and>
           embedding_input_dim mm = min (length (word_index tk) + 1) (max_vocab_size CONFIG)"
proof -
  let ?w3 = "print ''Training model...'' []
        (print ''Creating model...'' []
        (print ''Validation samples: {}'' [Nat (length (rows Xv))]
        (print ''Training samples: {}'' [Nat (length (rows Xt))]
        (print ''Preprocessing data...'' []
        (print ''Loaded {} samples with {} unique intents''
                [Nat (length df), Nat (length (remdups (column_intent df)))]
        (print ''Loading data...'' [] (makedirs ''models'' w)))))))"
  obtain r w4 where f: "fit env m Xt yt Xv yv ?w3 = (r, w4)" by (cases "fit env m Xt yt Xv yv ?w3")
  from assms(4) fit_fst_world[of env m Xt yt Xv yv ?w3 w] f have r: "r = Inr (m', h)" by simp
  from f r have "fst (fit env m Xt yt Xv yv ?w3) = Inr (m', h)" by simp
  from fit_checkpoint[OF this] f obtain mm where
    mm: "files w4 (model_save_path CONFIG) = Some (ModelFile mm)"
    "embedding_input_dim mm = embedding_input_dim m" by auto
  from assms(3) have "embedding_input_dim m = min (length (word_index tk) + 1) (max_vocab_size CONFIG)"
    by (auto simp: create_model_def Let_def split: sum.splits)
  with mm have d: "embedding_input_dim mm = min (length (word_index tk) + 1) (max_vocab_size CONFIG)"
    by simp
  note R = train_model_on_from_fit[OF assms(1-3), of w, unfolded f r]
  have "files (snd (train_model_on env df w)) (model_save_path CONFIG) = Some (ModelFile mm)"
    by (simp add: R world_simps train_paths_distinct mm split: sum.splits)
  with d show ?thesis by blast
qed

lemma config_paths_agree:
  "tokenizer_path export_CONFIG = tokenizer_save_path CONFIG"
  "label_encoder_path export_CONFIG = label_encoder_save_path CONFIG"
  "model_path export_CONFIG = model_save_path CONFIG"
  by (simp_all add: export_CONFIG_def CONFIG_def)

text \<open>What a completed training run leaves for the exporter.\<close>

lemma trained_files:
  assumes "fst (train_model_on env df w) = Inr ()"
  shows "\<exists>mm. load_model (snd (train_model_on env df w)) (model_path export_CONFIG) = Inr mm \<and>
           embedding_input_dim mm = min (length (word_index (fitted df)) + 1) (max_vocab_size CONFIG)"
    and "load_tokenizer_and_labels (snd (train_model_on env df w))
           = Inr (fitted df, sort (remdups (column_intent df)))"
proof -
  let ?le = "\<lparr>classes = sort (remdups (column_intent df))\<rparr>"
  from preprocess_data_returns[of df] obtain x y where
    p: "preprocess_data df = Inr (\<lparr>dtype = int32, rows = x\<rparr>, y, fitted df, ?le)" by blast
  from train_model_on_success_inversion[OF p assms] obtain Xt Xv yt yv m m' h where
    s: "train_test_split env \<lparr>dtype = int32, rows = x\<rparr> y = Inr (Xt, Xv, yt, yv)"
    and m: "create_model env (min (length (word_index (fitted df)) + 1) (max_vocab_size CONFIG))
             (length (classes ?le)) = Inr m"
    and f: "fst (fit env m Xt yt Xv yv w) = Inr (m', h)" by blast
  from fit_return_checkpoint[OF p s m f] obtain mm where
    mm: "files (snd (train_model_on env df w)) (model_save_path CONFIG) = Some (ModelFile mm)"
    "embedding_input_dim mm = min (length (word_index (fitted df)) + 1) (max_vocab_size CONFIG)"
    by blast
  then show "\<exists>mm. load_model (snd (train_model_on env df w)) (model_path export_CONFIG) = Inr mm \<and>
           embedding_input_dim mm = min (length (word_index (fitted df)) + 1) (max_vocab_size CONFIG)"
    by (simp add: load_model_def config_paths_agree)
  from fit_return_persists(1,2)[OF p s m f]
  show "load_tokenizer_and_labels (snd (train_model_on env df w))
           = Inr (fitted df, sort (remdups (column_intent df)))"
    by (simp add: load_tokenizer_and_labels_def config_paths_agree)
qed

lemma export_success_metadata:
  assumes "fst (export_tflite_model env w) = Inr ()"
  shows "\<exists>tk cls md. load_tokenizer_and_labels w = Inr (tk, cls) \<and>
           files (snd (export_tflite_model env w)) (model_metadata_path export_CONFIG)
             = Some (MetadataJson md) \<and>
           vocab_size md = length (word_index tk) + 1"
proof -
  from export_shape[of env w] assms obtain tk cls w6 md where
    l: "load_tokenizer_and_labels w = Inr (tk, cls)"
    and f6: "files w6 (model_metadata_path export_CONFIG) = Some (MetadataJson md)"
    and v: "vocab_size md = length (word_index tk) + 1"
    and R: "export_tflite_model env w =
           (case test_inference env (tflite_model_path export_CONFIG) tk cls w6 of
              (Inl e, w7) \<Rightarrow> (Inl e, w7)
            | (Inr u, w7) \<Rightarrow>
                (case test_inference env (tflite_quantized_path export_CONFIG) tk cls w7 of
                   (Inl e, w8) \<Rightarrow> (Inl e, w8)
                 | (Inr u, w8) \<Rightarrow>
                     (Inr (), print (CHR 0x0A # ''Export completed successfully!'') [] w8)))"
    by auto
  have "files (snd (export_tflite_model env w)) = files w6"
    unfolding R
    by (simp add: case_prod_beta sum.case_eq_if test_inference_files world_simps)
  with l f6 v show ?thesis by auto
qed

text \<open>
  Claim C10. Take a training run that completes and an export run on what it left that
  completes too. The \<open>vocab_size\<close> in the metadata file is the number of entries of the
  persisted tokenizer's \<open>word_index\<close> plus one; the embedding input size of the model in
  the checkpoint file is the minimum of that number and \<open>max_vocab_size\<close>; and the two
  differ whenever the training corpus has at least \<open>max_vocab_size\<close> distinct tokens.
\<close>

theorem metadata_vocab_size_uncapped:
  assumes "fst (train_model_on kenv df w0) = Inr ()"
    and "fst (export_tflite_model tenv (snd (train_model_on kenv df w0))) = Inr ()"
  shows "\<exists>tk m md.
     files (snd (train_model_on kenv df w0)) (tokenizer_save_path CONFIG) = Some (TokenizerJson tk) \<and>
     files (snd (train_model_on kenv df w0)) (model_save_path CONFIG) = Some (ModelFile m) \<and>
     files (snd (export_tflite_model tenv (snd (train_model_on kenv df w0))))
       (model_metadata_path export_CONFIG) = Some (MetadataJson md) \<and>
     vocab_size md = length (word_index tk) + 1 \<and>
     embedding_input_dim m = min (length (word_index tk) + 1) (max_vocab_size CONFIG) \<and>
     (max_vocab_size CONFIG \<le> card (set (corpus_words (column_text df))) \<longrightarrow>
        vocab_size md \<noteq> embedding_input_dim m)"
proof -
  let ?w1 = "snd (train_model_on kenv df w0)"
  from trained_files[OF assms(1)] obtain mm where
    mm: "load_model ?w1 (model_path export_CONFIG) = Inr mm"
    "embedding_input_dim mm = min (length (word_index (fitted df)) + 1) (max_vocab_size CONFIG)"
    and tl: "load_tokenizer_and_labels ?w1 = Inr (fitted df, sort (remdups (column_intent df)))"
    by blast
  from mm(1) have fm: "files ?w1 (model_save_path CONFIG) = Some (ModelFile mm)"
    by (auto simp: load_model_def config_paths_agree split: option.splits file_content.splits)
  from tl have ft: "files ?w1 (tokenizer_save_path CONFIG) = Some (TokenizerJson (fitted df))"
    by (auto simp: load_tokenizer_and_labels_def config_paths_agree
        split: option.splits file_content.splits)
  from export_success_metadata[OF assms(2)] tl obtain md where
    md: "files (snd (export_tflite_model tenv ?w1)) (model_metadata_path export_CONFIG)
             = Some (MetadataJson md)"
    "vocab_size md = length (word_index (fitted df)) + 1" by auto
  have "vocab_size md \<noteq> embedding_input_dim mm"
    if "max_vocab_size CONFIG \<le> card (set (corpus_words (column_text df)))"
    using that md(2) mm(2) by (simp add: fitted_word_index_length)
  with fm ft md mm(2) show ?thesis by blast
qed

lemma succeeding_tflite_validates:
  assumes "cls \<noteq> []" and "files w' p = Some (TfliteFile b)"
  shows "fst (test_inference succeeding_tflite p (fitted df) cls w') = Inr ()"
  using assms
  by (intro validator_passes[where b = b]) (simp_all add: succeeding_tflite_def np_argmax_def)

lemma succeeding_tflite_exports:
  assumes "load_model w (model_path export_CONFIG) = Inr mm"
    and "load_tokenizer_and_labels w = Inr (fitted df, cls)"
    and "cls \<noteq> []"
  shows "fst (export_tflite_model succeeding_tflite w) = Inr ()"
proof -
  from fitted_representative_dataset[of df] obtain ds where
    ds: "create_representative_dataset (fitted df) = Inr ds" by blast
  have c1: "convert succeeding_tflite (from_keras_model mm) = Inr [1, 2, 3, 4]"
    by (simp add: succeeding_tflite_def from_keras_model_def)
  have c2: "convert succeeding_tflite ((from_keras_model mm)
            \<lparr>optimizations := [DEFAULT], representative_dataset := Some ds,
             supported_ops := [TFLITE_BUILTINS_INT8],
             inference_input_type := int8, inference_output_type := int8\<rparr>) = Inr [7, 8, 9]"
    by (simp add: succeeding_tflite_def from_keras_model_def)
  have ne: "[7, 8, 9] \<noteq> ([] :: nat list)" by simp
  show ?thesis
    by (rule quantization_success(1)[OF assms(1,2) c1 ds c2 ne];
        erule succeeding_tflite_validates[OF assms(3)])
qed

theorem metadata_vocab_size_uncapped_witness:
  "fst (train_model_on succeeding_keras large_df empty_world) = Inr () \<and>
   fst (export_tflite_model succeeding_tflite
          (snd (train_model_on succeeding_keras large_df empty_world))) = Inr () \<and>
   max_vocab_size CONFIG \<le> card (set (corpus_words (column_text large_df))) \<and>
   (\<exists>m md.
      files (snd (train_model_on succeeding_keras large_df empty_world)) (model_save_path CONFIG)
        = Some (ModelFile m) \<and>
      files (snd (export_tflite_model succeeding_tflite
                   (snd (train_model_on succeeding_keras large_df empty_world))))
        (model_metadata_path export_CONFIG) = Some (MetadataJson md) \<and>
      vocab_size md = 10002 \<and> embedding_input_dim m = 10000)"
proof -
  let ?w1 = "snd (train_model_on succeeding_keras large_df empty_world)"
  have t: "fst (train_model_on succeeding_keras large_df empty_world) = Inr ()"
    by (rule succeeding_keras_trains)
  from trained_files[OF t] obtain mm where
    mm: "load_model ?w1 (model_path export_CONFIG) = Inr mm"
    and tl: "load_tokenizer_and_labels ?w1 = Inr (fitted large_df, sort (remdups (column_intent large_df)))"
    by blast
  have "''help'' \<in> set (column_intent large_df)"
    by (auto simp: column_intent_def large_df_def comp_def intro!: image_eqI[where x = 0])
  then have "set (sort (remdups (column_intent large_df))) \<noteq> {}" by auto
  then have ne: "sort (remdups (column_intent large_df)) \<noteq> []" by (metis set_empty)
  have e: "fst (export_tflite_model succeeding_tflite ?w1) = Inr ()"
    by (rule succeeding_tflite_exports[OF mm tl ne])
  have c: "max_vocab_size CONFIG \<le> card (set (corpus_words (column_text large_df)))"
    by (simp add: large_df_distinct_words CONFIG_def)
  from metadata_vocab_size_uncapped[OF t e] c obtain tk m md where
    f: "files ?w1 (tokenizer_save_path CONFIG) = Some (TokenizerJson tk)"
    "files ?w1 (model_save_path CONFIG) = Some (ModelFile m)"
    "files (snd (export_tflite_model succeeding_tflite ?w1)) (model_metadata_path export_CONFIG)
       = Some (MetadataJson md)"
    "vocab_size md = length (word_index tk) + 1"
    "embedding_input_dim m = min (length (word_index tk) + 1) (max_vocab_size CONFIG)"
    by blast
  from tl f(1) have "tk = fitted large_df"
    by (auto simp: load_tokenizer_and_labels_def config_paths_agree
        split: option.splits file_content.splits)
  then have "length (word_index tk) = 10001"
    by (simp add: fitted_word_index_length large_df_distinct_words)
  with f(4,5) have "vocab_size md = 10002" "embedding_input_dim m = 10000"
    by (simp_all add: CONFIG_def)
  with t e c f(2,3) show ?thesis by blast
qed

section \<open>Early stopping\<close>

lemma improves_append:
  "i < length h \<Longrightarrow> improves (h @ [lg]) i = improves h i"
  "improves (h @ [lg]) (length h) = (\<forall>l\<in>set h. val_loss lg < val_loss l)"
  by (simp_all add: improves_def nth_append)

lemma improves_0: "improves h 0"
  by (simp add: improves_def)

lemma ES_improve:
  assumes "is_improvement (val_loss lg) (es_best st)"
  shows "es_best (EarlyStopping_on_epoch_end p e lg st) = Some (val_loss lg)"
    "es_best_weights (EarlyStopping_on_epoch_end p e lg st) = Some (weights (the_model st))"
    "es_wait (EarlyStopping_on_epoch_end p e lg st) = 0"
    "stop_training (EarlyStopping_on_epoch_end p e lg st) = stop_training st"
    "the_model (EarlyStopping_on_epoch_end p e lg st) = the_model st"
    "history (EarlyStopping_on_epoch_end p e lg st) = history st"
  using assms by (simp_all add: EarlyStopping_on_epoch_end_def Let_def)

lemma ES_stop:
  assumes "\<not> is_improvement (val_loss lg) (es_best st)" and "p \<le> es_wait st + 1" and "0 < e"
    and "es_best_weights st = Some bw"
  shows "stop_training (EarlyStopping_on_epoch_end p e lg st)"
    "weights (the_model (EarlyStopping_on_epoch_end p e lg st)) = bw"
    "history (EarlyStopping_on_epoch_end p e lg st) = history st"
  using assms by (simp_all add: EarlyStopping_on_epoch_end_def Let_def)

lemma ES_wait:
  assumes "\<not> is_improvement (val_loss lg) (es_best st)" and "\<not> (p \<le> es_wait st + 1 \<and> 0 < e)"
    and "es_best_weights st = Some bw"
  shows "es_best (EarlyStopping_on_epoch_end p e lg st) = es_best st"
    "es_best_weights (EarlyStopping_on_epoch_end p e lg st) = Some bw"
    "es_wait (EarlyStopping_on_epoch_end p e lg st) = es_wait st + 1"
    "stop_training (EarlyStopping_on_epoch_end p e lg st) = stop_training st"
    "the_model (EarlyStopping_on_epoch_end p e lg st) = the_model st"
    "history (EarlyStopping_on_epoch_end p e lg st) = history st"
  using assms by (auto simp: EarlyStopping_on_epoch_end_def Let_def)

lemma later_callbacks_keep:
  "es_best (ReduceLROnPlateau_on_epoch_end f pt ml lg (fst (ModelCheckpoint_on_epoch_end path lg st2 w)))
     = es_best st2"
  "es_best_weights (ReduceLROnPlateau_on_epoch_end f pt ml lg (fst (ModelCheckpoint_on_epoch_end path lg st2 w)))
     = es_best_weights st2"
  "es_wait (ReduceLROnPlateau_on_epoch_end f pt ml lg (fst (ModelCheckpoint_on_epoch_end path lg st2 w)))
     = es_wait st2"
  "stop_training (ReduceLROnPlateau_on_epoch_end f pt ml lg (fst (ModelCheckpoint_on_epoch_end path lg st2 w)))
     = stop_training st2"
  "weights (the_model (ReduceLROnPlateau_on_epoch_end f pt ml lg (fst (ModelCheckpoint_on_epoch_end path lg st2 w))))
     = weights (the_model st2)"
  "history (ReduceLROnPlateau_on_epoch_end f pt ml lg (fst (ModelCheckpoint_on_epoch_end path lg st2 w)))
     = history st2"
  by (simp_all add: ReduceLROnPlateau_on_epoch_end_def ModelCheckpoint_on_epoch_end_def Let_def)

lemma es_epoch_end:
  assumes inv: "es_invariant env Xt yt Xv yv k st"
    and te: "train_epoch env (the_model st) Xt yt Xv yv k = Inr (ws, lg)"
    and st2: "st2 = EarlyStopping_on_epoch_end 10 k lg (st\<lparr>the_model := (the_model st)\<lparr>weights := ws\<rparr>\<rparr>)"
    and proj: "es_best st5 = es_best st2" "es_best_weights st5 = es_best_weights st2"
      "es_wait st5 = es_wait st2" "stop_training st5 = stop_training st2"
      "weights (the_model st5) = weights (the_model st2)" "history st5 = history st2 @ [lg]"
  shows "if stop_training st5 then es_final env Xt yt Xv yv st5
         else es_invariant env Xt yt Xv yv (Suc k) st5"
proof -
  let ?st1 = "st\<lparr>the_model := (the_model st)\<lparr>weights := ws\<rparr>\<rparr>"
  let ?h = "history st"
  let ?h' = "?h @ [lg]"
  let ?cur = "val_loss lg"
  from inv have len: "length ?h = k" and ns: "\<not> stop_training st"
    and win: "\<forall>a. a + 10 \<le> k \<longrightarrow> (\<exists>i. a \<le> i \<and> i < a + 10 \<and> improves ?h i)"
    by (simp_all add: es_invariant_def)
  have s1: "es_best ?st1 = es_best st" "es_wait ?st1 = es_wait st"
    "es_best_weights ?st1 = es_best_weights st" "history ?st1 = ?h"
    "stop_training ?st1 = stop_training st" "weights (the_model ?st1) = ws"
    by simp_all
  have win_old: "\<exists>i. a \<le> i \<and> i < a + 10 \<and> improves ?h' i" if "a + 10 \<le> k" for a
  proof -
    from win that obtain i where i: "a \<le> i" "i < a + 10" "improves ?h i" by blast
    with that len have "i < length ?h" by simp
    with i show ?thesis using improves_append(1)[of i ?h lg] by blast
  qed
  show ?thesis
  proof (cases "is_improvement ?cur (es_best st)")
    case True
    then have imp: "is_improvement ?cur (es_best ?st1)" by simp
    note e = ES_improve[OF imp, of 10 k, folded st2]
    have nstop: "\<not> stop_training st5" using proj(4) e(4) ns by simp
    have b5: "es_best st5 = Some ?cur" "es_wait st5 = 0" "es_best_weights st5 = Some ws"
      "history st5 = ?h'"
      using proj e by simp_all
    have below: "\<forall>l\<in>set ?h. ?cur < val_loss l"
    proof (cases "k = 0")
      case True
      with len show ?thesis by simp
    next
      case False
      with inv have "es_best st = Some (val_loss (?h ! (k - 1 - es_wait st)))"
        "\<forall>l\<in>set ?h. val_loss (?h ! (k - 1 - es_wait st)) \<le> val_loss l"
        by (simp_all add: es_invariant_def)
      with True show ?thesis by (fastforce simp: is_improvement_def)
    qed
    have "es_invariant env Xt yt Xv yv (Suc k) st5"
      unfolding es_invariant_def
    proof (intro conjI impI allI)
      show "length (history st5) = Suc k" using b5 len by simp
      show "\<not> stop_training st5" by (rule nstop)
      show "es_best st5 = None" if "Suc k = 0" using that by simp
      show "es_wait st5 < 10" "es_wait st5 < Suc k" using b5 by simp_all
      show "improves (history st5) (Suc k - 1 - es_wait st5)"
        using b5 below len improves_append(2)[of ?h lg] by simp
      show "\<not> improves (history st5) i" if "Suc k - 1 - es_wait st5 < i \<and> i < Suc k" for i
        using that b5(2) by auto
      show "es_best st5 = Some (val_loss (history st5 ! (Suc k - 1 - es_wait st5)))"
        using b5 len by (simp add: nth_append)
      show "\<forall>l\<in>set (history st5). val_loss (history st5 ! (Suc k - 1 - es_wait st5)) \<le> val_loss l"
        using b5 len below by (auto simp: nth_append)
      show "\<exists>bw mj. es_best_weights st5 = Some bw \<and>
            train_epoch env mj Xt yt Xv yv (Suc k - 1 - es_wait st5)
              = Inr (bw, history st5 ! (Suc k - 1 - es_wait st5))"
        using b5 len te by (auto simp: nth_append)
      show "\<exists>i. a \<le> i \<and> i < a + 10 \<and> improves (history st5) i" if a: "a + 10 \<le> Suc k" for a
      proof (cases "a + 10 \<le> k")
        case True
        from win_old[OF this] show ?thesis using b5 by simp
      next
        case False
        with a have "a \<le> k" "k < a + 10" by simp_all
        moreover have "improves (history st5) k"
          using b5 below len improves_append(2)[of ?h lg] by simp
        ultimately show ?thesis by blast
      qed
    qed
    with nstop show ?thesis by simp
  next
    case False
    then have nimp: "\<not> is_improvement ?cur (es_best ?st1)" by simp
    from False have kpos: "0 < k"
      using inv by (cases "k = 0") (simp_all add: es_invariant_def is_improvement_def)
    let ?j = "k - 1 - es_wait st"
    from inv kpos have w: "es_wait st < 10" "es_wait st < k"
      and ij: "improves ?h ?j"
      and nij: "\<forall>i. ?j < i \<and> i < k \<longrightarrow> \<not> improves ?h i"
      and best: "es_best st = Some (val_loss (?h ! ?j))"
      and mn: "\<forall>l\<in>set ?h. val_loss (?h ! ?j) \<le> val_loss l"
      by (simp_all add: es_invariant_def)
    from inv kpos obtain bw mj where bw: "es_best_weights st = Some bw"
      and tj: "train_epoch env mj Xt yt Xv yv ?j = Inr (bw, ?h ! ?j)"
      by (auto simp: es_invariant_def)
    have jk: "?j < k" using kpos by simp
    have ge: "val_loss (?h ! ?j) \<le> ?cur" using False best by (simp add: is_improvement_def)
    have hj: "?h ! ?j \<in> set ?h" using jk len by simp
    have nk: "\<not> improves ?h' k"
      using improves_append(2)[of ?h lg] len ge hj by fastforce
    have ij': "improves ?h' ?j" using improves_append(1)[of ?j ?h lg] jk len ij by simp
    have nij': "\<not> improves ?h' i" if "?j < i" "i < Suc k" for i
    proof (cases "i = k")
      case True
      with nk show ?thesis by simp
    next
      case False
      with that have "i < k" by simp
      with that nij improves_append(1)[of i ?h lg] len show ?thesis by simp
    qed
    have mn': "\<forall>l\<in>set ?h'. val_loss (?h' ! ?j) \<le> val_loss l"
      using mn ge jk len by (auto simp: nth_append)
    have bw1: "es_best_weights ?st1 = Some bw" using bw by simp
    show ?thesis
    proof (cases "10 \<le> es_wait st + 1")
      case True
      then have c: "10 \<le> es_wait ?st1 + 1" by simp
      note e = ES_stop[OF nimp c kpos bw1, folded st2]
      have stop: "stop_training st5" using proj(4) e(1) by simp
      have h5: "history st5 = ?h'" using proj(6) e(3) by simp
      have w5: "weights (the_model st5) = bw" using proj(5) e(2) by simp
      from True w have w9: "es_wait st = 9" by simp
      with w have k10: "10 \<le> k" by simp
      have n: "length (history st5) = Suc k" using h5 len by simp
      have j11: "length (history st5) - 11 = ?j" using n w9 k10 by simp
      have "es_final env Xt yt Xv yv st5"
        unfolding es_final_def
      proof (intro conjI allI impI)
        show "stop_training st5" by (rule stop)
        show "11 \<le> length (history st5)" using n k10 by simp
        show "\<not> improves (history st5) i"
          if "length (history st5) - 10 \<le> i \<and> i < length (history st5)" for i
        proof -
          from that n w9 k10 have "?j < i" "i < Suc k" by auto
          from nij'[OF this] h5 show ?thesis by simp
        qed
        show "improves (history st5) (length (history st5) - 11)" using j11 h5 ij' by simp
        show "\<forall>l\<in>set (history st5).
            val_loss (history st5 ! (length (history st5) - 11)) \<le> val_loss l"
          using j11 h5 mn' by simp
        show "\<exists>mj. train_epoch env mj Xt yt Xv yv (length (history st5) - 11)
              = Inr (weights (the_model st5), history st5 ! (length (history st5) - 11))"
          using j11 h5 w5 tj jk len by (auto simp: nth_append)
        show "\<exists>i. a \<le> i \<and> i < a + 10 \<and> improves (history st5) i"
          if "a + 10 < length (history st5)" for a
          using that n win_old[of a] h5 by simp
      qed
      with stop show ?thesis by simp
    next
      case False
      then have c: "\<not> (10 \<le> es_wait ?st1 + 1 \<and> 0 < k)" by simp
      note e = ES_wait[OF nimp c bw1, folded st2]
      have nstop: "\<not> stop_training st5" using proj(4) e(4) ns by simp
      have b5: "es_best st5 = es_best st" "es_wait st5 = es_wait st + 1"
        "es_best_weights st5 = Some bw" "history st5 = ?h'"
        using proj e by simp_all
      have j5: "Suc k - 1 - es_wait st5 = ?j" using b5 w by simp
      have "es_invariant env Xt yt Xv yv (Suc k) st5"
        unfolding es_invariant_def
      proof (intro conjI impI allI)
        show "length (history st5) = Suc k" using b5 len by simp
        show "\<not> stop_training st5" by (rule nstop)
        show "es_best st5 = None" if "Suc k = 0" using that by simp
        show "es_wait st5 < 10" "es_wait st5 < Suc k" using b5 False w by simp_all
        show "improves (history st5) (Suc k - 1 - es_wait st5)" using j5 b5 ij' by simp
        show "\<not> improves (history st5) i" if "Suc k - 1 - es_wait st5 < i \<and> i < Suc k" for i
          using that j5 b5 nij'[of i] by simp
        show "es_best st5 = Some (val_loss (history st5 ! (Suc k - 1 - es_wait st5)))"
          using j5 b5 best jk len by (simp add: nth_append)
        show "\<forall>l\<in>set (history st5). val_loss (history st5 ! (Suc k - 1 - es_wait st5)) \<le> val_loss l"
          using j5 b5 mn' by simp
        show "\<exists>bw mj. es_best_weights st5 = Some bw \<and>
            train_epoch env mj Xt yt Xv yv (Suc k - 1 - es_wait st5)
              = Inr (bw, history st5 ! (Suc k - 1 - es_wait st5))"
          using j5 b5 tj jk len by (auto simp: nth_append)
        show "\<exists>i. a \<le> i \<and> i < a + 10 \<and> improves (history st5) i" if a: "a + 10 \<le> Suc k" for a
        proof (cases "a + 10 \<le> k")
          case True
          from win_old[OF this] show ?thesis using b5 by simp
        next
          case F: False
          with a have "a + 10 = Suc k" by simp
          with False w have "a \<le> ?j" "?j < a + 10" by simp_all
          with ij' b5 show ?thesis by auto
        qed
      qed
      with nstop show ?thesis by simp
    qed
  qed
qed

lemma ES_history: "history (EarlyStopping_on_epoch_end p e lg st) = history st"
  by (simp add: EarlyStopping_on_epoch_end_def Let_def split: option.splits)

lemma fit_loop_unfold:
  assumes "train_epoch env (the_model st) Xt yt Xv yv k = Inr (ws, lg)"
  shows "\<exists>st5 w3. fit_loop env Xt yt Xv yv (k # es) st w =
            (if stop_training st5 then (Inr st5, w3) else fit_loop env Xt yt Xv yv es st5 w3) \<and>
          es_best st5 = es_best (EarlyStopping_on_epoch_end 10 k lg (st\<lparr>the_model := (the_model st)\<lparr>weights := ws\<rparr>\<rparr>)) \<and>
          es_best_weights st5 = es_best_weights (EarlyStopping_on_epoch_end 10 k lg (st\<lparr>the_model := (the_model st)\<lparr>weights := ws\<rparr>\<rparr>)) \<and>
          es_wait st5 = es_wait (EarlyStopping_on_epoch_end 10 k lg (st\<lparr>the_model := (the_model st)\<lparr>weights := ws\<rparr>\<rparr>)) \<and>
          stop_training st5 = stop_training (EarlyStopping_on_epoch_end 10 k lg (st\<lparr>the_model := (the_model st)\<lparr>weights := ws\<rparr>\<rparr>)) \<and>
          weights (the_model st5) = weights (the_model (EarlyStopping_on_epoch_end 10 k lg (st\<lparr>the_model := (the_model st)\<lparr>weights := ws\<rparr>\<rparr>))) \<and>
          history st5 = history (EarlyStopping_on_epoch_end 10 k lg (st\<lparr>the_model := (the_model st)\<lparr>weights := ws\<rparr>\<rparr>)) @ [lg]"
proof -
  let ?st2 = "EarlyStopping_on_epoch_end 10 k lg (st\<lparr>the_model := (the_model st)\<lparr>weights := ws\<rparr>\<rparr>)"
  let ?st4 = "ReduceLROnPlateau_on_epoch_end (1 / 2) 5 (1 / 1000000) lg
                (fst (ModelCheckpoint_on_epoch_end (model_save_path CONFIG) lg ?st2 w))"
  let ?st5 = "?st4\<lparr>history := history ?st4 @ [lg]\<rparr>"
  let ?w3 = "snd (ModelCheckpoint_on_epoch_end (model_save_path CONFIG) lg ?st2 w)"
  have "fit_loop env Xt yt Xv yv (k # es) st w =
            (if stop_training ?st5 then (Inr ?st5, ?w3) else fit_loop env Xt yt Xv yv es ?st5 ?w3)"
    by (simp add: assms Let_def)
  moreover have "es_best ?st5 = es_best ?st2" "es_best_weights ?st5 = es_best_weights ?st2"
    "es_wait ?st5 = es_wait ?st2" "stop_training ?st5 = stop_training ?st2"
    "weights (the_model ?st5) = weights (the_model ?st2)" "history ?st5 = history ?st2 @ [lg]"
    by (simp_all add: later_callbacks_keep)
  ultimately show ?thesis by blast
qed

lemma fit_loop_early_stopping:
  assumes "fst (fit_loop env Xt yt Xv yv [k ..< N] st w) = Inr st'"
    and "es_invariant env Xt yt Xv yv k st"
  shows "length (history st') \<le> max k N \<and>
         (es_final env Xt yt Xv yv st' \<or> es_invariant env Xt yt Xv yv (max k N) st')"
  using assms
proof (induction "N - k" arbitrary: k st w)
  case 0
  then have "[k ..< N] = []" by simp
  with "0.prems" have "st' = st" by simp
  moreover from "0.hyps" have "max k N = k" by simp
  moreover from "0.prems"(2) have "length (history st) = k" by (simp add: es_invariant_def)
  ultimately show ?case using "0.prems"(2) by simp
next
  case (Suc d)
  then have kN: "k < N" by simp
  then have up: "[k ..< N] = k # [Suc k ..< N]" by (rule upt_conv_Cons)
  from Suc.prems(1) obtain ws lg where
    te: "train_epoch env (the_model st) Xt yt Xv yv k = Inr (ws, lg)"
    unfolding up by (auto split: sum.splits)
  let ?st2 = "EarlyStopping_on_epoch_end 10 k lg (st\<lparr>the_model := (the_model st)\<lparr>weights := ws\<rparr>\<rparr>)"
  from fit_loop_unfold[OF te, of "[Suc k ..< N]" w] obtain st5 w3 where
    step: "fit_loop env Xt yt Xv yv (k # [Suc k ..< N]) st w =
            (if stop_training st5 then (Inr st5, w3)
             else fit_loop env Xt yt Xv yv [Suc k ..< N] st5 w3)"
    and proj: "es_best st5 = es_best ?st2" "es_best_weights st5 = es_best_weights ?st2"
      "es_wait st5 = es_wait ?st2" "stop_training st5 = stop_training ?st2"
      "weights (the_model st5) = weights (the_model ?st2)" "history st5 = history ?st2 @ [lg]"
    by blast
  note ee = es_epoch_end[OF Suc.prems(2) te refl proj]
  from Suc.prems(2) have len: "length (history st) = k" by (simp add: es_invariant_def)
  have l5: "length (history st5) = Suc k" using proj(6) len by (simp add: ES_history)
  have mx: "max (Suc k) N = max k N" using kN by simp
  show ?case
  proof (cases "stop_training st5")
    case True
    with Suc.prems(1) have "st' = st5" unfolding up step by simp
    with ee True l5 kN show ?thesis by simp
  next
    case False
    with Suc.prems(1) have r: "fst (fit_loop env Xt yt Xv yv [Suc k ..< N] st5 w3) = Inr st'"
      unfolding up step by simp
    from ee False have inv: "es_invariant env Xt yt Xv yv (Suc k) st5" by simp
    from Suc.hyps(2) have d: "d = N - Suc k" by simp
    from Suc.hyps(1)[OF d r inv] show ?thesis by (simp add: mx)
  qed
qed

lemma initial_invariant: "es_invariant env Xt yt Xv yv 0 (initial_fit_state m)"
  by (simp add: es_invariant_def initial_fit_state_def)

text \<open>
  Claim C7. Let \<open>model.fit\<close> return a model and a history. The loop never runs on after ten
  epochs in a row without improvement of the validation loss: ten such epochs can only be
  the last ten of the history. Training ends before \<open>epochs\<close> epochs only in that way.
  And when the last ten epochs brought no improvement, the returned model carries the
  weights that the framework returned at the epoch before them, which improved on
  every earlier epoch and has the least validation loss of the history: the best-seen
  weights.
\<close>

theorem early_stopping_restores_best:
  assumes "fst (fit env m Xt yt Xv yv w) = Inr (m', h)"
  shows "length h \<le> epochs CONFIG \<and>
     (\<forall>a. a + 10 < length h \<longrightarrow> (\<exists>i. a \<le> i \<and> i < a + 10 \<and> improves h i)) \<and>
     (length h < epochs CONFIG \<longrightarrow> stalled h 10) \<and>
     (stalled h 10 \<longrightarrow>
        improves h (length h - 11) \<and>
        (\<forall>l\<in>set h. val_loss (h ! (length h - 11)) \<le> val_loss l) \<and>
        (\<exists>mj. train_epoch env mj Xt yt Xv yv (length h - 11) = Inr (weights m', h ! (length h - 11))))"
proof -
  from assms obtain st' where
    fl: "fst (fit_loop env Xt yt Xv yv [0 ..< epochs CONFIG] (initial_fit_state m) w) = Inr st'"
    and mh: "m' = the_model st'" "h = history st'"
    by (auto simp: fit_fst split: sum.splits)
  from fit_loop_early_stopping[OF fl initial_invariant]
  have len: "length h \<le> epochs CONFIG"
    and c: "es_final env Xt yt Xv yv st' \<or> es_invariant env Xt yt Xv yv (epochs CONFIG) st'"
    by (simp_all add: mh)
  from c show ?thesis
  proof
    assume f: "es_final env Xt yt Xv yv st'"
    then have "stalled h 10" by (simp add: es_final_def stalled_def mh)
    with f len show ?thesis by (simp add: es_final_def mh)
  next
    assume i: "es_invariant env Xt yt Xv yv (epochs CONFIG) st'"
    then have n: "length h = epochs CONFIG"
      and win: "\<forall>a. a + 10 \<le> length h \<longrightarrow> (\<exists>i. a \<le> i \<and> i < a + 10 \<and> improves h i)"
      by (simp_all add: es_invariant_def mh)
    have ns: "\<not> stalled h 10"
    proof
      assume s: "stalled h 10"
      then have "(length h - 10) + 10 \<le> length h" by (simp add: stalled_def)
      with win obtain i where "length h - 10 \<le> i" "i < length h - 10 + 10" "improves h i" by blast
      with s show False by (auto simp: stalled_def)
    qed
    from win have "\<forall>a. a + 10 < length h \<longrightarrow> (\<exists>i. a \<le> i \<and> i < a + 10 \<and> improves h i)"
      by (meson less_imp_le_nat)
    with n ns show ?thesis by simp
  qed
qed

lemma succeeding_keras_epoch:
  "train_epoch succeeding_keras mj Xt yt Xv yv e =
     Inr ([real e], \<lparr>loss = 1, accuracy = 1 / 2, val_loss = 1, val_accuracy = 1 / 2\<rparr>)"
  by (simp add: succeeding_keras_def)

lemma succeeding_keras_history:
  assumes "fst (fit_loop succeeding_keras Xt yt Xv yv es st w) = Inr st'"
    and "\<forall>l\<in>set (history st). val_loss l = 1"
  shows "\<forall>l\<in>set (history st'). val_loss l = 1"
  using assms
proof (induction es arbitrary: st w)
  case Nil
  then show ?case by simp
next
  case (Cons e es)
  let ?lg = "\<lparr>loss = 1, accuracy = 1 / 2, val_loss = 1, val_accuracy = 1 / 2\<rparr>"
  from fit_loop_unfold[where env = succeeding_keras and st = st and k = e and es = es and w = w
      and Xt = Xt and yt = yt and Xv = Xv and yv = yv, OF succeeding_keras_epoch]
  obtain st5 w3 where
    step: "fit_loop succeeding_keras Xt yt Xv yv (e # es) st w =
            (if stop_training st5 then (Inr st5, w3)
             else fit_loop succeeding_keras Xt yt Xv yv es st5 w3)"
    and h5: "history st5 = history (EarlyStopping_on_epoch_end 10 e ?lg
        (st\<lparr>the_model := (the_model st)\<lparr>weights := [real e]\<rparr>\<rparr>)) @ [?lg]"
    by blast
  from h5 Cons.prems(2) have a: "\<forall>l\<in>set (history st5). val_loss l = 1"
    by (simp add: ES_history)
  show ?case
  proof (cases "stop_training st5")
    case True
    with Cons.prems(1) a show ?thesis unfolding step by simp
  next
    case False
    with Cons.prems(1) have "fst (fit_loop succeeding_keras Xt yt Xv yv es st5 w3) = Inr st'"
      unfolding step by simp
    from Cons.IH[OF this a] show ?thesis .
  qed
qed

theorem early_stopping_restores_best_witness:
  "\<exists>m' h. fst (fit succeeding_keras example_model no_rows no_rows no_rows no_rows empty_world)
             = Inr (m', h) \<and>
     length h = 11 \<and> stalled h 10 \<and> improves h 0 \<and> weights m' = [0]"
proof -
  from succeeding_keras_fit obtain m' h where
    f: "fst (fit succeeding_keras example_model no_rows no_rows no_rows no_rows empty_world) = Inr (m', h)"
    by blast
  then obtain st' where
    fl: "fst (fit_loop succeeding_keras no_rows no_rows no_rows no_rows [0 ..< epochs CONFIG]
           (initial_fit_state example_model) empty_world) = Inr st'"
    and mh: "h = history st'"
    by (auto simp: fit_fst split: sum.splits)
  have "\<forall>l\<in>set (history (initial_fit_state example_model)). val_loss l = 1"
    by (simp add: initial_fit_state_def)
  from succeeding_keras_history[OF fl this] mh have one: "\<forall>l\<in>set h. val_loss l = 1" by simp
  have ni: "\<not> improves h i" if "0 < i" "i < length h" for i
  proof -
    from that have "take i h ! 0 \<in> set (take i h)" by (intro nth_mem) simp
    with that have "h ! 0 \<in> set (take i h)" by simp
    moreover from that have "0 < length h" by linarith
    with that have "h ! i \<in> set h" "h ! 0 \<in> set h" by (simp_all only: nth_mem)
    with one have "val_loss (h ! i) = 1" "val_loss (h ! 0) = 1" by blast+
    then have "\<not> val_loss (h ! i) < val_loss (h ! 0)" by simp
    ultimately show ?thesis unfolding improves_def by blast
  qed
  note t = early_stopping_restores_best[OF f]
  have pos: "0 < length h"
  proof (rule ccontr)
    assume "\<not> 0 < length h"
    then have "length h < epochs CONFIG" by (simp add: CONFIG_def)
    with t have "stalled h 10" by blast
    with \<open>\<not> 0 < length h\<close> show False by (simp add: stalled_def)
  qed
  have le11: "length h \<le> 11"
  proof (rule ccontr)
    assume "\<not> length h \<le> 11"
    then have "1 + 10 < length h" by simp
    with t obtain i where "1 \<le> i" "i < 1 + 10" "improves h i" by blast
    with ni[of i] \<open>1 + 10 < length h\<close> show False by simp
  qed
  then have "length h < epochs CONFIG" by (simp add: CONFIG_def)
  with t have st: "stalled h 10" by blast
  then have "10 < length h" by (simp add: stalled_def)
  with le11 have n: "length h = 11" by simp
  from t st n obtain mj where
    "train_epoch succeeding_keras mj no_rows no_rows no_rows no_rows 0 = Inr (weights m', h ! 0)"
    by auto
  then have w: "weights m' = [0]" by (simp add: succeeding_keras_epoch)
  from f n st w improves_0 show ?thesis by blast
qed

end
